theory Spec2Isabelle
  imports Main "HOL-Library.Word"
begin

unbundle bit_operations_syntax

section \<open>Machine integers and the register file\<close>

type_synonym uint8_t = "8 word"
type_synonym uint16_t = "16 word"
type_synonym uint32_t = "32 word"

text \<open>
  The HAL works on memory-mapped peripheral registers. The model names the registers the
  embedded functions touch: the 32-bit registers reached through \<open>ACS->\<close>, \<open>CLK->\<close>,
  \<open>LSAD->\<close>, \<open>SYSCTRL->\<close>, \<open>CRC->\<close>, \<open>SCB->\<close> and \<open>WATCHDOG->\<close>, and the byte-wide
  register views (\<open>ACS_VDDC_CTRL->VTRIM_BYTE\<close> and the like).
\<close>

datatype reg32 =
    ACS_BG_CTRL | ACS_VCC_CTRL | ACS_RCOSC_CTRL | ACS_TEMP_CURR_CFG
  | ACS_VDDPA_CTRL | ACS_AOUT_CTRL | ACS_VDDRET_CTRL | ACS_BOOT_GP_DATA | ACS_GP_DATA
  | ACS_PWR_MODES_CTRL
  | CLK_DIV_CFG0 | CLK_DIV_CFG1 | CLK_DIV_CFG2
  | CRC_CFG | CRC_VALUE | CRC_ADD_32
  | LSAD_CFG | LSAD_INPUT_SEL nat
  | SYSCTRL_WAKEUP_ADDR | SYSCTRL_MEM_ACCESS_CFG
  | SCB_VTOR | WATCHDOG_CTRL

datatype reg8 =
    ACS_VDDC_CTRL_VTRIM_BYTE | ACS_VDDC_CTRL_STANDBY_VTRIM_BYTE
  | ACS_VDDM_CTRL_VTRIM_BYTE | ACS_VDDM_CTRL_STANDBY_VTRIM_BYTE
  | ACS_VDDRF_CTRL_VTRIM_BYTE | ACS_VDDIF_CTRL_VTRIM_BYTE | ACS_VDDFLASH_CTRL_VTRIM_BYTE
  | SYSCTRL_VDDPA_CFG0_DYNAMIC_CTRL_BYTE | SYSCTRL_VDDPA_CFG0_SW_CTRL_DELAY_BYTE
  | SYSCTRL_VDDPA_CFG0_RAMPUP_DELAY_BYTE | SYSCTRL_VDDPA_CFG0_DISABLE_DELAY_BYTE
  | RF0_BIAS_0_2_BIAS_0_IQ_RXTX_BYTE | RF0_REG1A_PA_PWR_PA_PWR_BYTE
  | RF0_ANALOG_INFO_ANALOG_INFO_BYTE | RF0_REG33_CK_DIV_1_6_CK_DIV_1_6_BYTE

datatype port = W32 reg32 | W8 reg8

text \<open>
  The machine state: the register contents, the CMSIS global \<open>SystemCoreClock\<close>, the RAM
  words (by address) and the log of register writes in program order. The log makes
  "performs no register write" and "writes only these registers" statable even where a
  write stores the value the register already holds.
\<close>

record machine =
  r32 :: "reg32 \<Rightarrow> uint32_t"
  r8 :: "reg8 \<Rightarrow> uint8_t"
  SystemCoreClock :: uint32_t
  ram :: "uint32_t \<Rightarrow> uint32_t"
  wlog :: "port list"

definition write32 :: "reg32 \<Rightarrow> uint32_t \<Rightarrow> machine \<Rightarrow> machine" where
  "write32 r v s = s\<lparr>r32 := (r32 s)(r := v), wlog := wlog s @ [W32 r]\<rparr>"

definition write8 :: "reg8 \<Rightarrow> uint8_t \<Rightarrow> machine \<Rightarrow> machine" where
  "write8 r v s = s\<lparr>r8 := (r8 s)(r := v), wlog := wlog s @ [W8 r]\<rparr>"

text \<open>
  A byte view of a 32-bit register that the code also accesses as a whole word
  (\<open>ACS_VDDPA_CTRL->VTRIM_BYTE\<close>, \<open>ACS_RCOSC_CTRL->RC_FTRIM_BYTE\<close>): byte lane \<open>lane\<close>
  of the little-endian word.
\<close>

definition byte_lane :: "nat \<Rightarrow> uint32_t \<Rightarrow> uint8_t" where
  "byte_lane lane w = ucast (drop_bit (8 * lane) w)"

definition set_byte_lane :: "nat \<Rightarrow> uint8_t \<Rightarrow> uint32_t \<Rightarrow> uint32_t" where
  "set_byte_lane lane b w =
     (w AND NOT (push_bit (8 * lane) 0xFF)) OR push_bit (8 * lane) (ucast b)"

definition write_lane :: "reg32 \<Rightarrow> nat \<Rightarrow> uint8_t \<Rightarrow> machine \<Rightarrow> machine" where
  "write_lane r lane b s = write32 r (set_byte_lane lane b (r32 s r)) s"

text \<open>A machine with every register and RAM word zero and an empty write log.\<close>

definition machine0 :: machine where
  "machine0 = \<lparr>r32 = (\<lambda>_. 0), r8 = (\<lambda>_. 0), SystemCoreClock = 0, ram = (\<lambda>_. 0), wlog = []\<rparr>"

section \<open>Clock divider configuration (clock.c)\<close>

text \<open>
  The register map header \<open>hw.h\<close> is not part of the repository. The bit positions and
  register constants that \<open>Sys_Clocks_DividerConfig\<close> takes from it are therefore
  parameters of the model, together with the build switch \<open>RSL15_CID\<close>. The record
  \<open>hw_common\<close> holds what several source files share: the build switch, \<open>VCC_BUCK\<close>
  and the position (byte lane) of the two byte views that alias a register the code also
  writes as a word.
\<close>

record hw_common =
  RSL15_CID_defined :: bool
  VCC_BUCK :: uint32_t
  ACS_VDDPA_CTRL_VTRIM_BYTE_lane :: nat
  ACS_RCOSC_CTRL_RC_FTRIM_BYTE_lane :: nat

record clock_hw = hw_common +
  CLK_DIV_CFG0_SLOWCLK_PRESCALE_Pos :: nat
  CLK_DIV_CFG0_BBCLK_PRESCALE_Pos :: nat
  CLK_DIV_CFG0_UARTCLK_PRESCALE_Pos :: nat
  CLK_DIV_CFG1_DCCLK_PRESCALE_Pos :: nat
  CLK_DIV_CFG1_SENSOR_CLK_PRESCALE_Pos :: nat
  ACS_VCC_CTRL_BUCK_ENABLE_Pos :: nat
  CPCLK_PRESCALE_6 :: uint32_t
  DCCLK_ENABLE :: uint32_t
  DCCLK_DISABLE :: uint32_t
  CPCLK_ENABLE :: uint32_t
  SENSOR_CLK_ENABLE :: uint32_t
  USRCLK_SRC_RFCLK :: uint32_t
  USRCLK_SRC_SYSCLK :: uint32_t
  ANALOG_INFO_CLK_DIG_READY_BYTE :: uint8_t

text \<open>
  The pattern of lines 52-56, 58-62, 64-68, 74-78, 81-85 and 141-145:
  \<open>div = core / freq; if (core % freq == 0) div = div - 1;\<close> in \<open>uint32_t\<close> arithmetic.
  The caller guards the division by zero.
\<close>

definition sysclk_div :: "uint32_t \<Rightarrow> uint32_t \<Rightarrow> uint32_t" where
  "sysclk_div core freq =
     (let d = core div freq in if core mod freq = 0 then d - 1 else d)"

text \<open>
  Lines 89-106 (builds without \<open>RSL15_CID\<close>): the loop shifts \<open>sensorclk_freq\<close> right
  until it is zero, counting the iterations in \<open>sensorclk_div\<close> and the one bits in
  \<open>sensorclk_div_flag\<close>.
\<close>

fun sensorclk_loop :: "nat \<Rightarrow> nat \<Rightarrow> nat \<Rightarrow> nat \<times> nat" where
  "sensorclk_loop freq dv flag =
     (if freq = 0 then (dv, flag)
      else sensorclk_loop (freq div 2) (dv + 1) (if freq mod 2 \<noteq> 0 then flag + 1 else flag))"

declare sensorclk_loop.simps [simp del]

definition sensorclk_div_log2 :: "uint32_t \<Rightarrow> uint32_t" where
  "sensorclk_div_log2 sensorclk_freq =
     (let (dv, flag) = sensorclk_loop (unat ((1000000 :: uint32_t) div sensorclk_freq)) 0 0
      in if flag = 1 then of_nat dv - 1 else of_nat dv)"

text \<open>
  Lines 132-136: the divisor of USERCLK when it is sourced from the RF clock. The
  byte register is promoted to \<open>int\<close>, \<open>48000000 / byte\<close> is an \<open>int\<close> division and the
  quotient is converted to \<open>uint32_t\<close> for the division by \<open>userclk_freq\<close>.
\<close>

definition userclk_div_rfclk :: "uint8_t \<Rightarrow> uint32_t \<Rightarrow> uint32_t \<Rightarrow> uint32_t" where
  "userclk_div_rfclk ck_div core userclk_freq =
     (let d = (word_of_int (48000000 div uint ck_div) :: uint32_t) div userclk_freq
      in if core mod userclk_freq = 0 then d - 1 else d)"

text \<open>
  \<open>Sys_Clocks_DividerConfig\<close>. \<open>SYS_ASSERT\<close> expands to nothing unless \<open>DEBUG_SYS\<close> is
  defined. A division by zero is undefined behaviour in C; the model returns \<open>None\<close> there.
\<close>

definition Sys_Clocks_DividerConfig ::
  "clock_hw \<Rightarrow> uint32_t \<Rightarrow> uint32_t \<Rightarrow> uint32_t \<Rightarrow> machine \<Rightarrow> machine option" where
  "Sys_Clocks_DividerConfig hw uartclk_freq sensorclk_freq userclk_freq s =
     (let core = SystemCoreClock s in
      if uartclk_freq = 0 \<or> sensorclk_freq = 0 then None
      else
        let slowclk_div = sysclk_div core 1000000;
            bbclk_div = sysclk_div core 8000000;
            uartclk_div = sysclk_div core uartclk_freq;
            s1 = write32 CLK_DIV_CFG0
                   (push_bit (CLK_DIV_CFG0_SLOWCLK_PRESCALE_Pos hw) slowclk_div OR
                    push_bit (CLK_DIV_CFG0_BBCLK_PRESCALE_Pos hw) bbclk_div OR
                    push_bit (CLK_DIV_CFG0_UARTCLK_PRESCALE_Pos hw) uartclk_div) s;
            dcclk_div = sysclk_div core 4000000;
            sensorclk_div = (if RSL15_CID_defined hw then sysclk_div core sensorclk_freq
                             else sensorclk_div_log2 sensorclk_freq);
            s2 = (if r32 s1 ACS_VCC_CTRL AND push_bit (ACS_VCC_CTRL_BUCK_ENABLE_Pos hw) 1 =
                     VCC_BUCK hw
                  then write32 CLK_DIV_CFG1
                         (push_bit (CLK_DIV_CFG1_DCCLK_PRESCALE_Pos hw) dcclk_div OR
                          CPCLK_PRESCALE_6 hw OR
                          push_bit (CLK_DIV_CFG1_SENSOR_CLK_PRESCALE_Pos hw) sensorclk_div OR
                          DCCLK_ENABLE hw OR CPCLK_ENABLE hw OR SENSOR_CLK_ENABLE hw) s1
                  else write32 CLK_DIV_CFG1
                         (push_bit (CLK_DIV_CFG1_DCCLK_PRESCALE_Pos hw) dcclk_div OR
                          CPCLK_PRESCALE_6 hw OR
                          push_bit (CLK_DIV_CFG1_SENSOR_CLK_PRESCALE_Pos hw) sensorclk_div OR
                          DCCLK_DISABLE hw OR CPCLK_ENABLE hw OR SENSOR_CLK_ENABLE hw) s1)
        in
          if core < userclk_freq \<and>
             r8 s2 RF0_ANALOG_INFO_ANALOG_INFO_BYTE AND ANALOG_INFO_CLK_DIG_READY_BYTE hw =
               ANALOG_INFO_CLK_DIG_READY_BYTE hw
          then
            if r8 s2 RF0_REG33_CK_DIV_1_6_CK_DIV_1_6_BYTE = 0 then None
            else Some (write32 CLK_DIV_CFG2
                   (userclk_div_rfclk (r8 s2 RF0_REG33_CK_DIV_1_6_CK_DIV_1_6_BYTE) core userclk_freq OR
                    USRCLK_SRC_RFCLK hw) s2)
          else
            if userclk_freq = 0 then None
            else Some (write32 CLK_DIV_CFG2
                   (sysclk_div core userclk_freq OR USRCLK_SRC_SYSCLK hw) s2))"

text \<open>
  The rule the specification gives for a divisor, on natural numbers:
  \<open>floor (core / freq)\<close>, one less when the division is exact.
\<close>

definition floor_divisor :: "nat \<Rightarrow> nat \<Rightarrow> nat" where
  "floor_divisor core freq = (if core mod freq = 0 then core div freq - 1 else core div freq)"

text \<open>Sample values of the header constants, for evaluating the model.\<close>

definition clock_hw_sample :: clock_hw where
  "clock_hw_sample =
     \<lparr>RSL15_CID_defined = True,
      VCC_BUCK = 0x1000,
      ACS_VDDPA_CTRL_VTRIM_BYTE_lane = 0,
      ACS_RCOSC_CTRL_RC_FTRIM_BYTE_lane = 0,
      CLK_DIV_CFG0_SLOWCLK_PRESCALE_Pos = 0,
      CLK_DIV_CFG0_BBCLK_PRESCALE_Pos = 8,
      CLK_DIV_CFG0_UARTCLK_PRESCALE_Pos = 16,
      CLK_DIV_CFG1_DCCLK_PRESCALE_Pos = 0,
      CLK_DIV_CFG1_SENSOR_CLK_PRESCALE_Pos = 16,
      ACS_VCC_CTRL_BUCK_ENABLE_Pos = 12,
      CPCLK_PRESCALE_6 = 0x500,
      DCCLK_ENABLE = 0x80,
      DCCLK_DISABLE = 0,
      CPCLK_ENABLE = 0x8000,
      SENSOR_CLK_ENABLE = 0x800000,
      USRCLK_SRC_RFCLK = 0x100,
      USRCLK_SRC_SYSCLK = 0,
      ANALOG_INFO_CLK_DIG_READY_BYTE = 2\<rparr>"

text \<open>A machine running at \<open>core\<close> Hz with the RF clock ready and its prescale byte 1.\<close>

definition clock_machine_sample :: "uint32_t \<Rightarrow> machine" where
  "clock_machine_sample core =
     machine0\<lparr>r8 := (\<lambda>_. 0)(RF0_ANALOG_INFO_ANALOG_INFO_BYTE := 2,
                               RF0_REG33_CK_DIV_1_6_CK_DIV_1_6_BYTE := 1),
              SystemCoreClock := core\<rparr>"

section \<open>Trim loader (trim.h, trim.c, trim_vddif.c)\<close>

subsection \<open>Constants of trim.h\<close>

definition MIN_32_BIT :: uint32_t where "MIN_32_BIT = 0x00000000"
definition MAX_32_BIT :: uint32_t where "MAX_32_BIT = 0xFFFFFFFF"
definition MIN_16_BIT :: uint32_t where "MIN_16_BIT = 0x0000"
definition MAX_16_BIT :: uint32_t where "MAX_16_BIT = 0xFFFF"
definition MIN_8_BIT :: uint32_t where "MIN_8_BIT = 0x00"
definition MAX_8_BIT :: uint32_t where "MAX_8_BIT = 0xFF"
definition MAX_4_BIT :: uint32_t where "MAX_4_BIT = 0xF"

definition TRIM_8_BIT_TRIM_MASK :: uint32_t where "TRIM_8_BIT_TRIM_MASK = 0xFF"
definition TRIM_16_BIT_TRIM_MASK :: uint32_t where "TRIM_16_BIT_TRIM_MASK = 0xFFFF"

definition ERROR_NO_ERROR :: uint32_t where "ERROR_NO_ERROR = 0"
definition ERROR_NULL :: uint32_t where "ERROR_NULL = push_bit 1 1"
definition ERROR_NO_TRIM_FOUND :: uint32_t where "ERROR_NO_TRIM_FOUND = push_bit 3 1"
definition ERROR_INVALID_TRIM :: uint32_t where "ERROR_INVALID_TRIM = push_bit 4 1"
definition ERROR_INVALID_CRC :: uint32_t where "ERROR_INVALID_CRC = push_bit 5 1"
definition ERROR_BG_INVALID :: uint32_t where "ERROR_BG_INVALID = push_bit 6 1"
definition ERROR_BG_V_INVALID :: uint32_t where "ERROR_BG_V_INVALID = push_bit 7 1"
definition ERROR_BG_I_INVALID :: uint32_t where "ERROR_BG_I_INVALID = push_bit 8 1"
definition ERROR_DCDC_INVALID :: uint32_t where "ERROR_DCDC_INVALID = push_bit 9 1"
definition ERROR_VDDC_INVALID :: uint32_t where "ERROR_VDDC_INVALID = push_bit 10 1"
definition ERROR_VDDC_STBY_INVALID :: uint32_t where "ERROR_VDDC_STBY_INVALID = push_bit 11 1"
definition ERROR_VDDM_INVALID :: uint32_t where "ERROR_VDDM_INVALID = push_bit 12 1"
definition ERROR_VDDM_STBY_INVALID :: uint32_t where "ERROR_VDDM_STBY_INVALID = push_bit 13 1"
definition ERROR_VDDRF_INVALID :: uint32_t where "ERROR_VDDRF_INVALID = push_bit 14 1"
definition ERROR_VDDPA_INVALID :: uint32_t where "ERROR_VDDPA_INVALID = push_bit 15 1"
definition ERROR_VDDPA_MIN_INVALID :: uint32_t where "ERROR_VDDPA_MIN_INVALID = push_bit 16 1"
definition ERROR_VDDIF_INVALID :: uint32_t where "ERROR_VDDIF_INVALID = push_bit 17 1"
definition ERROR_VDDFLASH_INVALID :: uint32_t where "ERROR_VDDFLASH_INVALID = push_bit 18 1"
definition ERROR_RCOSC_INVALID :: uint32_t where "ERROR_RCOSC_INVALID = push_bit 19 1"
definition ERROR_RCOSC32_INVALID :: uint32_t where "ERROR_RCOSC32_INVALID = push_bit 20 1"
definition ERROR_LSAD_INVALID :: uint32_t where "ERROR_LSAD_INVALID = push_bit 21 1"
definition ERROR_TEMPERATURE_INVALID :: uint32_t where "ERROR_TEMPERATURE_INVALID = push_bit 22 1"
definition ERROR_THERMISTOR_INVALID :: uint32_t where "ERROR_THERMISTOR_INVALID = push_bit 23 1"
definition ERROR_MEASURED_INVALID :: uint32_t where "ERROR_MEASURED_INVALID = push_bit 25 1"

text \<open>The enumeration \<open>TrimName_t\<close>; its values index \<open>valid_found\<close> in \<open>Sys_Trim_VerifyTrims\<close>.\<close>

definition TRIM_BANDGAP :: nat where "TRIM_BANDGAP = 0"
definition TRIM_DCDC :: nat where "TRIM_DCDC = 1"
definition TRIM_VDDC :: nat where "TRIM_VDDC = 2"
definition TRIM_VDDM :: nat where "TRIM_VDDM = 3"
definition TRIM_VDDRF :: nat where "TRIM_VDDRF = 4"
definition TRIM_VDDPA :: nat where "TRIM_VDDPA = 5"
definition TRIM_VDDIF :: nat where "TRIM_VDDIF = 6"
definition TRIM_FLASH :: nat where "TRIM_FLASH = 7"
definition TRIM_RCOSC :: nat where "TRIM_RCOSC = 8"
definition TRIM_RCOSC32 :: nat where "TRIM_RCOSC32 = 9"

text \<open>The trim targets of \<open>TrimTarget_t\<close> that the embedded code names.\<close>

definition TARGET_VDDC_1150 :: uint32_t where "TARGET_VDDC_1150 = 115"
definition TARGET_VDDC_STANDBY :: uint32_t where "TARGET_VDDC_STANDBY = 80"
definition TARGET_VDDRF_1070 :: int where "TARGET_VDDRF_1070 = 107"
definition TARGET_VDDPA_1600 :: int where "TARGET_VDDPA_1600 = 160"

subsection \<open>Sys_Trim_GetTrim\<close>

text \<open>
  One iteration of the \<open>for\<close> loop of \<open>Sys_Trim_GetTrim\<close> (lines 467-553) on the record
  word \<open>w = addr[i]\<close>: the value of \<open>ret_val\<close> and of \<open>*trim_val\<close> after the iteration,
  and whether the iteration leaves the loop through \<open>break\<close>. \<open>ret_val\<close> is reset at the
  top of every iteration and \<open>*trim_val\<close> is only written, so the iteration depends on
  neither of their earlier values; every path of the iteration assigns both.
\<close>

definition GetTrim_iter :: "uint32_t \<Rightarrow> uint16_t \<Rightarrow> uint32_t \<times> uint16_t \<times> bool" where
  "GetTrim_iter w trim_target =
     (let ret_val = (if w = MIN_32_BIT \<or> w = MAX_32_BIT then ERROR_INVALID_TRIM
                     else ERROR_NO_ERROR);
          stored_target = (ucast (drop_bit 16 w AND TRIM_16_BIT_TRIM_MASK) :: uint16_t);
          stored_trim = (ucast (w AND TRIM_16_BIT_TRIM_MASK) :: uint16_t)
      in
        if ucast MAX_8_BIT < stored_target \<and> ret_val = ERROR_NO_ERROR then
          if trim_target = stored_target then (ERROR_NO_ERROR, stored_trim, True)
          else if trim_target = stored_target AND 0x00FF then
            (ERROR_NO_ERROR, stored_trim AND 0x00FF, True)
          else if trim_target = drop_bit 8 (stored_target AND 0xFF00) then
            (ERROR_NO_ERROR, drop_bit 8 (stored_trim AND 0xFF00), True)
          else (ERROR_NO_TRIM_FOUND, 0xFFFF, False)
        else if stored_trim AND 0xFF00 = 0 \<and> ret_val = ERROR_NO_ERROR then
          if trim_target = stored_target then (ERROR_NO_ERROR, stored_trim AND 0xFF, True)
          else (ERROR_NO_TRIM_FOUND, 0xFFFF, False)
        else
          if trim_target = stored_target AND 0xFF then (ERROR_NO_ERROR, stored_trim, True)
          else (ERROR_NO_TRIM_FOUND, 0xFFFF, False))"

text \<open>
  The loop \<open>for (i = 0; i < record_length; i++)\<close>, from index \<open>i\<close> with \<open>n\<close> iterations
  left. \<open>addr\<close> is the memory behind the pointer, as the words \<open>addr[0], addr[1], ...\<close>.
  \<open>ret_val\<close> is declared without an initialiser: it is \<open>None\<close> until an iteration
  assigns it.
\<close>

fun GetTrim_loop ::
  "(nat \<Rightarrow> uint32_t) \<Rightarrow> uint16_t \<Rightarrow> nat \<Rightarrow> nat \<Rightarrow> uint32_t option \<times> uint16_t \<Rightarrow>
     uint32_t option \<times> uint16_t" where
  "GetTrim_loop addr trim_target i 0 st = st"
| "GetTrim_loop addr trim_target i (Suc n) (ret_val, trim_val) =
     (case GetTrim_iter (addr i) trim_target of
        (ret_val', trim_val', brk) \<Rightarrow>
          if brk then (Some ret_val', trim_val')
          else GetTrim_loop addr trim_target (Suc i) n (Some ret_val', trim_val'))"

text \<open>
  \<open>Sys_Trim_GetTrim\<close>. A pointer is \<open>None\<close> when it is \<open>NULL\<close>; \<open>trim_val\<close> carries the
  content of the pointed-to variable. The result is the returned value (\<open>None\<close>: the
  uninitialised \<open>ret_val\<close> was returned, which happens exactly for \<open>record_length = 0\<close>)
  and the content of \<open>*trim_val\<close> afterwards.
\<close>

definition Sys_Trim_GetTrim ::
  "(nat \<Rightarrow> uint32_t) option \<Rightarrow> uint16_t \<Rightarrow> uint32_t \<Rightarrow> uint16_t option \<Rightarrow>
     uint32_t option \<times> uint16_t option" where
  "Sys_Trim_GetTrim addr trim_target record_length trim_val =
     (case (addr, trim_val) of
        (Some a, Some tv) \<Rightarrow>
          (case GetTrim_loop a trim_target 0 (unat record_length) (None, tv) of
             (ret_val, tv') \<Rightarrow> (ret_val, Some tv'))
      | _ \<Rightarrow> (Some ERROR_NULL, trim_val))"

subsection \<open>The trim region and the header constants of the trim loader\<close>

text \<open>
  The declaration of \<open>TRIM_Type\<close> is in \<open>hw.h\<close>, which is not part of the repository.
  The record lists the members the code reads. A record array (\<open>bandgap\<close>, \<open>dcdc\<close>, ...)
  is held as the 32-bit words that \<open>Sys_Trim_GetTrim\<close> reads through its
  \<open>uint32_t *\<close> cast, indexed from the start of the member. \<open>crc_words\<close> are the words
  from the base of the region up to and including \<open>SOS_REV\<close>, in address order.
\<close>

record TRIM_Type =
  CHECKSUM :: uint32_t
  crc_words :: "uint32_t list"
  bandgap :: "nat \<Rightarrow> uint32_t"
  dcdc :: "nat \<Rightarrow> uint32_t"
  vddc :: "nat \<Rightarrow> uint32_t"
  vddm :: "nat \<Rightarrow> uint32_t"
  vddrf :: "nat \<Rightarrow> uint32_t"
  vddpa :: "nat \<Rightarrow> uint32_t"
  vddif :: "nat \<Rightarrow> uint32_t"
  vddflash :: "nat \<Rightarrow> uint32_t"
  rcosc :: "nat \<Rightarrow> uint32_t"
  rcosc32 :: "nat \<Rightarrow> uint32_t"
  thermistor :: "nat \<Rightarrow> uint32_t"
  lsad_trim_hf_offset :: uint32_t
  lsad_trim_hf_gain :: uint32_t
  lsad_trim_lf_gain :: uint32_t
  temp_sensor_offset :: uint32_t
  measured_temp_sensor_30C :: uint32_t
  measured_bandgap_vref_0_75V :: uint32_t
  measured_lsad_vref_1_0V_internal :: uint32_t
  measured_wedac_600mV :: uint32_t

text \<open>
  Modelled from the spec: the members of a trim record, whose struct declarations are
  missing with \<open>hw.h\<close>. The specification describes a record as a packed
  (target:16, trim:16) word, one or two bytes wide, and \<open>Sys_Trim_GetTrim\<close> decodes it
  so: the target is the upper half-word and the trim the lower one; in the byte-paired
  records (VDDC, VDDM, VDDPA) the normal voltage is the low byte of each half. The
  scalar members (\<open>lsad_trim\<close>, \<open>temp_sensor\<close>, \<open>measured\<close>) are held by their values.
  \<open>rec_target w\<close> stands for \<open>.target\<close> of the record stored in the word \<open>w\<close>, and so on.
\<close>

definition rec_target :: "uint32_t \<Rightarrow> uint32_t" where
  "rec_target w = drop_bit 16 w"

definition rec_trim :: "uint32_t \<Rightarrow> uint32_t" where
  "rec_trim w = w AND 0xFFFF"

definition rec_bias :: "uint32_t \<Rightarrow> uint32_t" where
  "rec_bias w = drop_bit 16 w"

definition rec_target_voltage :: "uint32_t \<Rightarrow> uint32_t" where
  "rec_target_voltage w = drop_bit 16 w AND 0xFF"

definition rec_trim_voltage :: "uint32_t \<Rightarrow> uint32_t" where
  "rec_trim_voltage w = w AND 0xFF"

record trim_hw = hw_common +
  TRIM_RECORDS :: uint32_t
  TRIM_RC_RECORDS :: uint32_t
  TRIM_THERMISTOR_RECORDS :: uint32_t
  TRIM_BANDGAP_CURRENT_OFFSET :: nat
  ACS_BG_CTRL_ITRIM_Pos :: nat
  ACS_VCC_CTRL_VTRIM_Mask :: uint32_t

subsection \<open>The CRC peripheral (crc.h)\<close>

text \<open>
  The CRC is computed by hardware: a write to \<open>CRC->ADD_32\<close> folds the word into
  \<open>CRC->VALUE\<close>, and \<open>CRC->FINAL\<close> reads the finalised value. Both depend on the mode
  written to \<open>CRC->CFG\<close>. The two hardware functions and the constants of \<open>hw.h\<close>
  are parameters.
\<close>

record crc_hw =
  CRC_CCITT :: uint32_t
  CRC_32 :: uint32_t
  CRC_BIG_ENDIAN :: uint32_t
  CRC_BIT_ORDER_STANDARD :: uint32_t
  CRC_CCITT_INIT_VALUE :: uint32_t
  CRC_32_INIT_VALUE :: uint32_t
  crc_add32 :: "uint32_t \<Rightarrow> uint32_t \<Rightarrow> uint32_t \<Rightarrow> uint32_t"
  crc_final :: "uint32_t \<Rightarrow> uint32_t \<Rightarrow> uint32_t"

text \<open>\<open>Sys_Set_CRC_Config (CRC, config)\<close>: the instance is \<open>CRC\<close>, so \<open>CFG\<close> is written.\<close>

definition Sys_Set_CRC_Config :: "uint32_t \<Rightarrow> machine \<Rightarrow> machine" where
  "Sys_Set_CRC_Config config s = write32 CRC_CFG config s"

definition Sys_CRC_32InitValue :: "crc_hw \<Rightarrow> machine \<Rightarrow> machine" where
  "Sys_CRC_32InitValue c s = write32 CRC_VALUE (CRC_32_INIT_VALUE c) s"

definition Sys_CRC_CCITTInitValue :: "crc_hw \<Rightarrow> machine \<Rightarrow> machine" where
  "Sys_CRC_CCITTInitValue c s = write32 CRC_VALUE (CRC_CCITT_INIT_VALUE c) s"

text \<open>
  \<open>Sys_CRC_Add (CRC, data, 32)\<close>: the store goes to \<open>*(&crc->ADD_1 + (32 >> 3))\<close>, the
  \<open>ADD_32\<close> register; the hardware then updates \<open>VALUE\<close>.
\<close>

definition Sys_CRC_Add32 :: "crc_hw \<Rightarrow> uint32_t \<Rightarrow> machine \<Rightarrow> machine" where
  "Sys_CRC_Add32 c data s =
     (let s1 = write32 CRC_ADD_32 data s
      in s1\<lparr>r32 := (r32 s1)(CRC_VALUE := crc_add32 c (r32 s1 CRC_CFG) (r32 s1 CRC_VALUE) data)\<rparr>)"

definition Sys_CRC_GetFinalValue :: "crc_hw \<Rightarrow> machine \<Rightarrow> uint32_t" where
  "Sys_CRC_GetFinalValue c s = crc_final c (r32 s CRC_CFG) (r32 s CRC_VALUE)"

subsection \<open>Sys_Trim_CheckCRC\<close>

text \<open>The loop \<open>for (i = top_addr; i <= bottom_addr; i++) SYS_CRC_ADD (*i, 32)\<close>.\<close>

fun CheckCRC_add_loop :: "crc_hw \<Rightarrow> uint32_t list \<Rightarrow> machine \<Rightarrow> machine" where
  "CheckCRC_add_loop c [] s = s"
| "CheckCRC_add_loop c (w # ws) s = CheckCRC_add_loop c ws (Sys_CRC_Add32 c w s)"

text \<open>
  \<open>Sys_Trim_CheckCRC\<close> on a region that is not \<open>NULL\<close> (lines 412-446): the mode is chosen
  by the size of the stored checksum, every word of the range is added and the final value
  is compared with the stored checksum.
\<close>

definition CheckCRC_region :: "crc_hw \<Rightarrow> TRIM_Type \<Rightarrow> machine \<Rightarrow> uint32_t \<times> machine" where
  "CheckCRC_region c trim_region s =
     (let s1 = (if CHECKSUM trim_region \<le> MAX_16_BIT
                then Sys_CRC_CCITTInitValue c (Sys_Set_CRC_Config (CRC_CCITT c) s)
                else Sys_CRC_32InitValue c (Sys_Set_CRC_Config (CRC_32 c) s));
          s2 = CheckCRC_add_loop c (crc_words trim_region) s1
      in if CHECKSUM trim_region = Sys_CRC_GetFinalValue c s2 then (ERROR_NO_ERROR, s2)
         else (ERROR_INVALID_CRC, s2))"

text \<open>
  \<open>Sys_Trim_CheckCRC\<close>. For a \<open>NULL\<close> region the function assigns \<open>ERROR_NULL\<close> to
  \<open>ret_val\<close> and goes on to read \<open>trim_region->CHECKSUM\<close> through the null pointer; the
  model has no result there (\<open>None\<close>).
\<close>

definition Sys_Trim_CheckCRC ::
  "crc_hw \<Rightarrow> TRIM_Type option \<Rightarrow> machine \<Rightarrow> (uint32_t \<times> machine) option" where
  "Sys_Trim_CheckCRC c trim_region s =
     (case trim_region of None \<Rightarrow> None | Some tr \<Rightarrow> Some (CheckCRC_region c tr s))"

subsection \<open>Sys_Trim_VerifyTrims\<close>

text \<open>
  The six blocks of the first loop (lines 228-316) have one shape:
  \<open>if (!valid_found[d]) { if (sentinel) ret_val |= flag;
     else { valid_found[d] = true; ret_val &= ~flag; } }\<close>.
  The state of the loop is \<open>ret_val\<close> and the array \<open>valid_found\<close>.
\<close>

definition verify_record ::
  "nat \<Rightarrow> bool \<Rightarrow> uint32_t \<Rightarrow> uint32_t \<times> (nat \<Rightarrow> bool) \<Rightarrow> uint32_t \<times> (nat \<Rightarrow> bool)" where
  "verify_record d sentinel flag st =
     (case st of (ret_val, valid_found) \<Rightarrow>
        if \<not> valid_found d then
          if sentinel then (ret_val OR flag, valid_found)
          else (ret_val AND NOT flag, valid_found(d := True))
        else (ret_val, valid_found))"

text \<open>The body of \<open>for (i = 0; i < 4; i++)\<close>, lines 228-316.\<close>

definition verify_voltage_iter ::
  "TRIM_Type \<Rightarrow> nat \<Rightarrow> uint32_t \<times> (nat \<Rightarrow> bool) \<Rightarrow> uint32_t \<times> (nat \<Rightarrow> bool)" where
  "verify_voltage_iter tr i st =
     (let st1 = verify_record TRIM_BANDGAP
                  (rec_target (bandgap tr i) = MIN_16_BIT \<or> rec_target (bandgap tr i) = MAX_16_BIT)
                  ERROR_BG_INVALID st;
          st2 = verify_record TRIM_DCDC
                  (rec_target (dcdc tr i) = MIN_16_BIT \<or> rec_target (dcdc tr i) = MAX_16_BIT)
                  ERROR_DCDC_INVALID st1;
          st3 = verify_record TRIM_VDDC
                  (rec_target_voltage (vddc tr i) = MIN_8_BIT \<or>
                   rec_target_voltage (vddc tr i) = MAX_8_BIT)
                  ERROR_VDDC_INVALID st2;
          st4 = verify_record TRIM_VDDM
                  (rec_target_voltage (vddm tr i) = MIN_8_BIT \<or>
                   rec_target_voltage (vddm tr i) = MAX_8_BIT)
                  ERROR_VDDM_INVALID st3;
          st5 = verify_record TRIM_VDDRF
                  (rec_trim (vddrf tr i) = MIN_16_BIT \<or> rec_trim (vddrf tr i) = MAX_16_BIT)
                  ERROR_VDDRF_INVALID st4;
          st6 = verify_record TRIM_VDDPA
                  (rec_target_voltage (vddpa tr i) = MIN_8_BIT \<or>
                   rec_target_voltage (vddpa tr i) = MAX_8_BIT)
                  ERROR_VDDPA_INVALID st5
      in st6)"

text \<open>The statement \<open>if (cond) { ret_val |= flag; }\<close> of lines 320-389.\<close>

definition set_flag_if :: "bool \<Rightarrow> uint32_t \<Rightarrow> uint32_t \<Rightarrow> uint32_t" where
  "set_flag_if cond flag ret_val = (if cond then ret_val OR flag else ret_val)"

text \<open>The loop \<open>for (i = 0; i < TRIM_RC_RECORDS; i++)\<close> of lines 334-341, with \<open>n\<close> iterations left.\<close>

fun verify_rcosc_loop :: "TRIM_Type \<Rightarrow> nat \<Rightarrow> nat \<Rightarrow> uint32_t \<Rightarrow> uint32_t" where
  "verify_rcosc_loop tr i 0 ret_val = ret_val"
| "verify_rcosc_loop tr i (Suc n) ret_val =
     verify_rcosc_loop tr (Suc i) n
       (set_flag_if
          (rec_target (rcosc tr (i * 2)) = MIN_16_BIT \<or> rec_target (rcosc tr (i * 2)) = MAX_16_BIT)
          ERROR_RCOSC_INVALID ret_val)"

text \<open>Lines 319-389: the checks after the first loop, in program order.\<close>

definition verify_single_checks :: "trim_hw \<Rightarrow> TRIM_Type \<Rightarrow> uint32_t \<Rightarrow> uint32_t" where
  "verify_single_checks hw tr ret_val =
     (let r1 = set_flag_if
                 (rec_target (vddif tr 0) = MIN_16_BIT \<or> rec_target (vddif tr 0) = MAX_16_BIT)
                 ERROR_VDDIF_INVALID ret_val;
          r2 = set_flag_if
                 (rec_target (vddflash tr 0) = MIN_16_BIT \<or> rec_target (vddflash tr 0) = MAX_16_BIT)
                 ERROR_VDDFLASH_INVALID r1;
          r3 = verify_rcosc_loop tr 0 (unat (TRIM_RC_RECORDS hw)) r2;
          r4 = set_flag_if
                 (rec_target (rcosc32 tr 0) = MIN_16_BIT \<or> rec_target (rcosc32 tr 0) = MAX_16_BIT)
                 ERROR_RCOSC32_INVALID r3;
          r5 = set_flag_if
                 (lsad_trim_hf_offset tr = MIN_16_BIT \<or> lsad_trim_hf_offset tr = MAX_16_BIT)
                 ERROR_LSAD_INVALID r4;
          r6 = set_flag_if
                 (lsad_trim_hf_gain tr = MIN_32_BIT \<or> lsad_trim_lf_gain tr = MAX_32_BIT)
                 ERROR_LSAD_INVALID r5;
          r7 = set_flag_if
                 (temp_sensor_offset tr = MIN_32_BIT \<or> temp_sensor_offset tr = MAX_32_BIT)
                 ERROR_TEMPERATURE_INVALID r6;
          r8 = set_flag_if
                 (rec_bias (thermistor tr 0) = MIN_16_BIT \<or> rec_bias (thermistor tr 0) = MAX_16_BIT)
                 ERROR_THERMISTOR_INVALID r7;
          r9 = set_flag_if
                 (measured_temp_sensor_30C tr = MIN_16_BIT
                   \<or> measured_temp_sensor_30C tr = MAX_16_BIT
                   \<or> measured_bandgap_vref_0_75V tr = MIN_16_BIT
                   \<or> measured_bandgap_vref_0_75V tr = MAX_16_BIT
                   \<or> measured_lsad_vref_1_0V_internal tr = MIN_16_BIT
                   \<or> measured_lsad_vref_1_0V_internal tr = MAX_16_BIT
                   \<or> measured_wedac_600mV tr = MIN_16_BIT
                   \<or> measured_wedac_600mV tr = MAX_16_BIT)
                 ERROR_MEASURED_INVALID r8
      in r9)"

text \<open>The loop \<open>for (i = 0; i < 4; i++)\<close> of lines 226-317.\<close>

definition verify_voltage_loop ::
  "TRIM_Type \<Rightarrow> uint32_t \<times> (nat \<Rightarrow> bool) \<Rightarrow> uint32_t \<times> (nat \<Rightarrow> bool)" where
  "verify_voltage_loop tr st = fold (verify_voltage_iter tr) [0, 1, 2, 3] st"

text \<open>
  \<open>Sys_Trim_VerifyTrims\<close>. \<open>ret_val\<close> starts as \<open>ERROR_NO_ERROR\<close> and \<open>valid_found\<close> as
  all false.
\<close>

definition Sys_Trim_VerifyTrims ::
  "trim_hw \<Rightarrow> crc_hw \<Rightarrow> TRIM_Type option \<Rightarrow> machine \<Rightarrow> uint32_t \<times> machine" where
  "Sys_Trim_VerifyTrims hw c trim_region s =
     (case trim_region of
        None \<Rightarrow> (ERROR_NULL, s)
      | Some tr \<Rightarrow>
          (case CheckCRC_region c tr s of
             (crc_ret, s') \<Rightarrow>
               let ret0 = set_flag_if (crc_ret \<noteq> ERROR_NO_ERROR) ERROR_INVALID_CRC
                            ERROR_NO_ERROR;
                   st = verify_voltage_loop tr (ret0, (\<lambda>_. False))
               in (verify_single_checks hw tr (fst st), s')))"


text \<open>
  The mask that \<open>Sys_Trim_VerifyTrims\<close> returns for a region that is not \<open>NULL\<close>, by
  itself: the value of \<open>ret_val\<close> at the end of the function.
\<close>

definition verify_ret :: "trim_hw \<Rightarrow> crc_hw \<Rightarrow> TRIM_Type \<Rightarrow> machine \<Rightarrow> uint32_t" where
  "verify_ret hw c tr s =
     verify_single_checks hw tr
       (fst (verify_voltage_loop tr
          (set_flag_if (fst (CheckCRC_region c tr s) \<noteq> ERROR_NO_ERROR) ERROR_INVALID_CRC
             ERROR_NO_ERROR, (\<lambda>_. False))))"

subsection \<open>The per-domain loaders\<close>

text \<open>
  Every loader returns its error mask and the machine after its register writes. A loader
  has no result (\<open>None\<close>) when \<open>Sys_Trim_GetTrim\<close> hands back the uninitialised
  \<open>ret_val\<close>, that is when the record count is zero. The output pointer passed to
  \<open>Sys_Trim_GetTrim\<close> is the address of a local initialised to 0; the \<open>uint32_t\<close> target
  is converted to the \<open>uint16_t\<close> parameter. The public function checks the region for
  \<open>NULL\<close> and calls the private one, which checks again.
\<close>

text \<open>
  \<open>Sys_Trim_LoadBandgap\<close> (lines 587-696). The \<open>uint16_t\<close> trims are shifted as 32-bit
  values.
\<close>

definition Sys_Trim_LoadBandgap_private ::
  "trim_hw \<Rightarrow> TRIM_Type option \<Rightarrow> uint32_t \<Rightarrow> uint32_t \<Rightarrow> machine \<Rightarrow>
     (uint32_t \<times> machine) option" where
  "Sys_Trim_LoadBandgap_private hw trim_values target_v target_i s =
     (case trim_values of
        None \<Rightarrow> Some (ERROR_NULL, s)
      | Some tr \<Rightarrow>
          (case Sys_Trim_GetTrim (Some (bandgap tr)) (ucast target_v) (TRIM_RECORDS hw) (Some 0) of
             (Some e1, Some trim_voltage16) \<Rightarrow>
               (case Sys_Trim_GetTrim
                       (Some (\<lambda>i. bandgap tr (TRIM_BANDGAP_CURRENT_OFFSET hw + i)))
                       (ucast target_i) (TRIM_RECORDS hw) (Some 0) of
                  (Some e2, Some trim_current16) \<Rightarrow>
                    let ret1 = (if e1 \<noteq> 0 then ERROR_NO_ERROR OR ERROR_BG_V_INVALID
                                else ERROR_NO_ERROR);
                        ret_val = (if e2 \<noteq> 0 then ret1 OR ERROR_BG_I_INVALID else ret1);
                        trim_voltage = (ucast trim_voltage16 :: uint32_t);
                        trim_current = (ucast trim_current16 :: uint32_t);
                        pos = ACS_BG_CTRL_ITRIM_Pos hw;
                        legacy = (CHECKSUM tr \<le> MAX_16_BIT)
                    in
                      if ret_val = ERROR_NO_ERROR then
                        if legacy then
                          Some (ret_val, write32 ACS_BG_CTRL
                            ((push_bit pos trim_current AND 0xFF000000) OR
                             (push_bit (pos - 2) trim_current AND 0x00FF0000) OR
                             (trim_voltage AND 0x0000FF00) OR
                             (drop_bit 2 trim_voltage AND 0x000000FF)) s)
                        else
                          Some (ret_val, write32 ACS_BG_CTRL
                            ((push_bit pos trim_current AND 0xFFFF0000) OR
                             (trim_voltage AND 0x0000FFFF)) s)
                      else if ret_val AND ERROR_BG_I_INVALID = 0 then
                        if legacy then
                          Some (ret_val, write32 ACS_BG_CTRL
                            ((r32 s ACS_BG_CTRL AND 0x0000FFFF) OR
                             (push_bit pos trim_current AND 0xFF000000) OR
                             (push_bit (pos - 2) trim_current AND 0x00FF0000)) s)
                        else
                          Some (ret_val, write32 ACS_BG_CTRL
                            ((r32 s ACS_BG_CTRL AND 0x0000FFFF) OR
                             (push_bit pos trim_current AND 0xFFFF0000)) s)
                      else if ret_val AND ERROR_BG_V_INVALID = 0 then
                        if legacy then
                          Some (ret_val, write32 ACS_BG_CTRL
                            ((r32 s ACS_BG_CTRL AND 0xFFFF0000) OR
                             (trim_voltage AND 0x0000FF00) OR
                             (drop_bit 2 trim_voltage AND 0x000000FF)) s)
                        else
                          Some (ret_val, write32 ACS_BG_CTRL
                            ((r32 s ACS_BG_CTRL AND 0xFFFF0000) OR
                             (trim_voltage AND 0x0000FFFF)) s)
                      else Some (ret_val, s)
                | _ \<Rightarrow> None)
           | _ \<Rightarrow> None))"

definition Sys_Trim_LoadBandgap ::
  "trim_hw \<Rightarrow> TRIM_Type option \<Rightarrow> uint32_t \<Rightarrow> uint32_t \<Rightarrow> machine \<Rightarrow>
     (uint32_t \<times> machine) option" where
  "Sys_Trim_LoadBandgap hw trim_values target_v target_i s =
     (case trim_values of
        None \<Rightarrow> Some (ERROR_NULL, s)
      | Some tr \<Rightarrow> Sys_Trim_LoadBandgap_private hw trim_values target_v target_i s)"

text \<open>\<open>Sys_Trim_LoadDCDC\<close> (lines 698-746); \<open>reg_contents\<close> is read before the null check.\<close>

definition Sys_Trim_LoadDCDC_private ::
  "trim_hw \<Rightarrow> TRIM_Type option \<Rightarrow> uint32_t \<Rightarrow> machine \<Rightarrow> (uint32_t \<times> machine) option" where
  "Sys_Trim_LoadDCDC_private hw trim_values target s =
     (case trim_values of
        None \<Rightarrow> Some (ERROR_NULL, s)
      | Some tr \<Rightarrow>
          (case Sys_Trim_GetTrim (Some (dcdc tr)) (ucast target) (TRIM_RECORDS hw) (Some 0) of
             (Some ret_val, Some trim) \<Rightarrow>
               if ret_val = ERROR_NO_ERROR
               then Some (ret_val, write32 ACS_VCC_CTRL
                      ((if r32 s ACS_VCC_CTRL AND VCC_BUCK hw \<noteq> 0
                        then drop_bit 8 (ucast trim AND 0xFF00) else ucast trim AND 0x00FF) OR
                       (r32 s ACS_VCC_CTRL AND NOT (ACS_VCC_CTRL_VTRIM_Mask hw))) s)
               else Some (ret_val OR ERROR_DCDC_INVALID, s)
           | _ \<Rightarrow> None))"

definition Sys_Trim_LoadDCDC ::
  "trim_hw \<Rightarrow> TRIM_Type option \<Rightarrow> uint32_t \<Rightarrow> machine \<Rightarrow> (uint32_t \<times> machine) option" where
  "Sys_Trim_LoadDCDC hw trim_values target s =
     (case trim_values of
        None \<Rightarrow> Some (ERROR_NULL, s)
      | Some tr \<Rightarrow> Sys_Trim_LoadDCDC_private hw trim_values target s)"

text \<open>\<open>Sys_Trim_LoadVDDC\<close> (lines 748-810) and \<open>Sys_Trim_LoadVDDM\<close> (lines 812-874).\<close>

definition Sys_Trim_LoadVDDC_private ::
  "trim_hw \<Rightarrow> TRIM_Type option \<Rightarrow> uint32_t \<Rightarrow> uint32_t \<Rightarrow> machine \<Rightarrow>
     (uint32_t \<times> machine) option" where
  "Sys_Trim_LoadVDDC_private hw trim_values target target_standby s =
     (case trim_values of
        None \<Rightarrow> Some (ERROR_NULL, s)
      | Some tr \<Rightarrow>
          (case Sys_Trim_GetTrim (Some (vddc tr)) (ucast target) (TRIM_RECORDS hw) (Some 0) of
             (Some e1, Some trim) \<Rightarrow>
               (case Sys_Trim_GetTrim (Some (vddc tr)) (ucast target_standby) (TRIM_RECORDS hw)
                       (Some 0) of
                  (Some e2, Some standby_trim) \<Rightarrow>
                    let ret1 = (if e1 \<noteq> 0 then ERROR_NO_ERROR OR ERROR_VDDC_INVALID else ERROR_NO_ERROR);
                        ret_val = (if e2 \<noteq> 0 then ret1 OR ERROR_VDDC_STBY_INVALID else ret1);
                        s1 = (if ret_val AND ERROR_VDDC_INVALID = 0
                              then write8 ACS_VDDC_CTRL_VTRIM_BYTE
                                     (ucast (ucast trim AND TRIM_8_BIT_TRIM_MASK)) s
                              else s);
                        s2 = (if ret_val AND ERROR_VDDC_STBY_INVALID = 0
                              then write8 ACS_VDDC_CTRL_STANDBY_VTRIM_BYTE
                                     (ucast (ucast standby_trim AND TRIM_8_BIT_TRIM_MASK)) s1
                              else s1)
                    in Some (ret_val, s2)
                | _ \<Rightarrow> None)
           | _ \<Rightarrow> None))"

definition Sys_Trim_LoadVDDC ::
  "trim_hw \<Rightarrow> TRIM_Type option \<Rightarrow> uint32_t \<Rightarrow> uint32_t \<Rightarrow> machine \<Rightarrow>
     (uint32_t \<times> machine) option" where
  "Sys_Trim_LoadVDDC hw trim_values target target_standby s =
     (case trim_values of
        None \<Rightarrow> Some (ERROR_NULL, s)
      | Some tr \<Rightarrow> Sys_Trim_LoadVDDC_private hw trim_values target target_standby s)"

definition Sys_Trim_LoadVDDM_private ::
  "trim_hw \<Rightarrow> TRIM_Type option \<Rightarrow> uint32_t \<Rightarrow> uint32_t \<Rightarrow> machine \<Rightarrow>
     (uint32_t \<times> machine) option" where
  "Sys_Trim_LoadVDDM_private hw trim_values target target_standby s =
     (case trim_values of
        None \<Rightarrow> Some (ERROR_NULL, s)
      | Some tr \<Rightarrow>
          (case Sys_Trim_GetTrim (Some (vddm tr)) (ucast target) (TRIM_RECORDS hw) (Some 0) of
             (Some e1, Some trim) \<Rightarrow>
               (case Sys_Trim_GetTrim (Some (vddm tr)) (ucast target_standby) (TRIM_RECORDS hw)
                       (Some 0) of
                  (Some e2, Some standby_trim) \<Rightarrow>
                    let ret1 = (if e1 \<noteq> 0 then ERROR_NO_ERROR OR ERROR_VDDM_INVALID else ERROR_NO_ERROR);
                        ret_val = (if e2 \<noteq> 0 then ret1 OR ERROR_VDDM_STBY_INVALID else ret1);
                        s1 = (if ret_val AND ERROR_VDDM_INVALID = 0
                              then write8 ACS_VDDM_CTRL_VTRIM_BYTE
                                     (ucast (ucast trim AND TRIM_8_BIT_TRIM_MASK)) s
                              else s);
                        s2 = (if ret_val AND ERROR_VDDM_STBY_INVALID = 0
                              then write8 ACS_VDDM_CTRL_STANDBY_VTRIM_BYTE
                                     (ucast (ucast standby_trim AND TRIM_8_BIT_TRIM_MASK)) s1
                              else s1)
                    in Some (ret_val, s2)
                | _ \<Rightarrow> None)
           | _ \<Rightarrow> None))"

definition Sys_Trim_LoadVDDM ::
  "trim_hw \<Rightarrow> TRIM_Type option \<Rightarrow> uint32_t \<Rightarrow> uint32_t \<Rightarrow> machine \<Rightarrow>
     (uint32_t \<times> machine) option" where
  "Sys_Trim_LoadVDDM hw trim_values target target_standby s =
     (case trim_values of
        None \<Rightarrow> Some (ERROR_NULL, s)
      | Some tr \<Rightarrow> Sys_Trim_LoadVDDM_private hw trim_values target target_standby s)"

text \<open>
  \<open>Sys_Trim_LoadVDDPA\<close> (lines 876-924): a failed lookup is reported as
  \<open>ERROR_VDDPA_INVALID | ERROR_NO_TRIM_FOUND\<close>. \<open>VTRIM_BYTE\<close> is a byte view of
  \<open>ACS->VDDPA_CTRL\<close>.
\<close>

definition Sys_Trim_LoadVDDPA_private ::
  "trim_hw \<Rightarrow> TRIM_Type option \<Rightarrow> uint32_t \<Rightarrow> machine \<Rightarrow> (uint32_t \<times> machine) option" where
  "Sys_Trim_LoadVDDPA_private hw trim_values target s =
     (case trim_values of
        None \<Rightarrow> Some (ERROR_NULL, s)
      | Some tr \<Rightarrow>
          (case Sys_Trim_GetTrim (Some (vddpa tr)) (ucast target) (TRIM_RECORDS hw) (Some 0) of
             (Some e, Some trim) \<Rightarrow>
               let ret_val = (if e \<noteq> 0 then ERROR_NO_ERROR OR ERROR_VDDPA_INVALID
                              else ERROR_NO_ERROR)
               in if ret_val = ERROR_NO_ERROR
                  then Some (ret_val,
                         write_lane ACS_VDDPA_CTRL (ACS_VDDPA_CTRL_VTRIM_BYTE_lane hw) (ucast trim) s)
                  else Some (ret_val OR ERROR_NO_TRIM_FOUND, s)
           | _ \<Rightarrow> None))"

definition Sys_Trim_LoadVDDPA ::
  "trim_hw \<Rightarrow> TRIM_Type option \<Rightarrow> uint32_t \<Rightarrow> machine \<Rightarrow> (uint32_t \<times> machine) option" where
  "Sys_Trim_LoadVDDPA hw trim_values target s =
     (case trim_values of
        None \<Rightarrow> Some (ERROR_NULL, s)
      | Some tr \<Rightarrow> Sys_Trim_LoadVDDPA_private hw trim_values target s)"

text \<open>\<open>Sys_Trim_LoadVDDRF\<close> (lines 926-965) and \<open>Sys_Trim_LoadVDDFLASH\<close> (lines 967-1006).\<close>

definition Sys_Trim_LoadVDDRF_private ::
  "trim_hw \<Rightarrow> TRIM_Type option \<Rightarrow> uint32_t \<Rightarrow> machine \<Rightarrow> (uint32_t \<times> machine) option" where
  "Sys_Trim_LoadVDDRF_private hw trim_values target s =
     (case trim_values of
        None \<Rightarrow> Some (ERROR_NULL, s)
      | Some tr \<Rightarrow>
          (case Sys_Trim_GetTrim (Some (vddrf tr)) (ucast target) (TRIM_RECORDS hw) (Some 0) of
             (Some ret_val, Some trim) \<Rightarrow>
               if ret_val = ERROR_NO_ERROR
               then Some (ret_val, write8 ACS_VDDRF_CTRL_VTRIM_BYTE
                      (ucast (ucast trim AND TRIM_8_BIT_TRIM_MASK)) s)
               else Some (ret_val, s)
           | _ \<Rightarrow> None))"

definition Sys_Trim_LoadVDDRF ::
  "trim_hw \<Rightarrow> TRIM_Type option \<Rightarrow> uint32_t \<Rightarrow> machine \<Rightarrow> (uint32_t \<times> machine) option" where
  "Sys_Trim_LoadVDDRF hw trim_values target s =
     (case trim_values of
        None \<Rightarrow> Some (ERROR_NULL, s)
      | Some tr \<Rightarrow> Sys_Trim_LoadVDDRF_private hw trim_values target s)"

definition Sys_Trim_LoadVDDFLASH_private ::
  "trim_hw \<Rightarrow> TRIM_Type option \<Rightarrow> uint32_t \<Rightarrow> machine \<Rightarrow> (uint32_t \<times> machine) option" where
  "Sys_Trim_LoadVDDFLASH_private hw trim_values target s =
     (case trim_values of
        None \<Rightarrow> Some (ERROR_NULL, s)
      | Some tr \<Rightarrow>
          (case Sys_Trim_GetTrim (Some (vddflash tr)) (ucast target) (TRIM_RECORDS hw) (Some 0) of
             (Some ret_val, Some trim) \<Rightarrow>
               if ret_val = ERROR_NO_ERROR
               then Some (ret_val, write8 ACS_VDDFLASH_CTRL_VTRIM_BYTE
                      (ucast (ucast trim AND TRIM_8_BIT_TRIM_MASK)) s)
               else Some (ret_val, s)
           | _ \<Rightarrow> None))"

definition Sys_Trim_LoadVDDFLASH ::
  "trim_hw \<Rightarrow> TRIM_Type option \<Rightarrow> uint32_t \<Rightarrow> machine \<Rightarrow> (uint32_t \<times> machine) option" where
  "Sys_Trim_LoadVDDFLASH hw trim_values target s =
     (case trim_values of
        None \<Rightarrow> Some (ERROR_NULL, s)
      | Some tr \<Rightarrow> Sys_Trim_LoadVDDFLASH_private hw trim_values target s)"

text \<open>
  \<open>Sys_Trim_LoadRCOSC\<close> (lines 1008-1046) scans \<open>TRIM_RC_RECORDS * 4\<close> words and writes the
  byte view \<open>RC_FTRIM_BYTE\<close> of \<open>ACS->RCOSC_CTRL\<close>; \<open>Sys_Trim_LoadRCOSC32\<close>
  (lines 1048-1088) writes the whole register.
\<close>

definition Sys_Trim_LoadRCOSC_private ::
  "trim_hw \<Rightarrow> TRIM_Type option \<Rightarrow> uint32_t \<Rightarrow> machine \<Rightarrow> (uint32_t \<times> machine) option" where
  "Sys_Trim_LoadRCOSC_private hw trim_values target s =
     (case trim_values of
        None \<Rightarrow> Some (ERROR_NULL, s)
      | Some tr \<Rightarrow>
          (case Sys_Trim_GetTrim (Some (rcosc tr)) (ucast target) (TRIM_RC_RECORDS hw * 4) (Some 0) of
             (Some ret_val, Some trim) \<Rightarrow>
               if ret_val = ERROR_NO_ERROR
               then Some (ret_val, write_lane ACS_RCOSC_CTRL (ACS_RCOSC_CTRL_RC_FTRIM_BYTE_lane hw)
                      (ucast (ucast trim AND TRIM_8_BIT_TRIM_MASK)) s)
               else Some (ret_val, s)
           | _ \<Rightarrow> None))"

definition Sys_Trim_LoadRCOSC ::
  "trim_hw \<Rightarrow> TRIM_Type option \<Rightarrow> uint32_t \<Rightarrow> machine \<Rightarrow> (uint32_t \<times> machine) option" where
  "Sys_Trim_LoadRCOSC hw trim_values target s =
     (case trim_values of
        None \<Rightarrow> Some (ERROR_NULL, s)
      | Some tr \<Rightarrow> Sys_Trim_LoadRCOSC_private hw trim_values target s)"

definition Sys_Trim_LoadRCOSC32_private ::
  "trim_hw \<Rightarrow> TRIM_Type option \<Rightarrow> uint32_t \<Rightarrow> machine \<Rightarrow> (uint32_t \<times> machine) option" where
  "Sys_Trim_LoadRCOSC32_private hw trim_values target s =
     (case trim_values of
        None \<Rightarrow> Some (ERROR_NULL, s)
      | Some tr \<Rightarrow>
          (case Sys_Trim_GetTrim (Some (rcosc32 tr)) (ucast target) (TRIM_RECORDS hw) (Some 0) of
             (Some ret_val, Some trim) \<Rightarrow>
               if ret_val = ERROR_NO_ERROR
               then Some (ret_val, write32 ACS_RCOSC_CTRL
                      (ucast trim OR (r32 s ACS_RCOSC_CTRL AND 0xFFFFFF00)) s)
               else Some (ret_val, s)
           | _ \<Rightarrow> None))"

definition Sys_Trim_LoadRCOSC32 ::
  "trim_hw \<Rightarrow> TRIM_Type option \<Rightarrow> uint32_t \<Rightarrow> machine \<Rightarrow> (uint32_t \<times> machine) option" where
  "Sys_Trim_LoadRCOSC32 hw trim_values target s =
     (case trim_values of
        None \<Rightarrow> Some (ERROR_NULL, s)
      | Some tr \<Rightarrow> Sys_Trim_LoadRCOSC32_private hw trim_values target s)"

text \<open>\<open>Sys_Trim_LoadThermistor\<close> (lines 1090-1130); its target is a \<open>uint16_t\<close>.\<close>

definition Sys_Trim_LoadThermistor_private ::
  "trim_hw \<Rightarrow> TRIM_Type option \<Rightarrow> uint16_t \<Rightarrow> machine \<Rightarrow> (uint32_t \<times> machine) option" where
  "Sys_Trim_LoadThermistor_private hw trim_values target s =
     (case trim_values of
        None \<Rightarrow> Some (ERROR_NULL, s)
      | Some tr \<Rightarrow>
          (case Sys_Trim_GetTrim (Some (thermistor tr)) target (TRIM_THERMISTOR_RECORDS hw)
                  (Some 0) of
             (Some ret_val, Some trim) \<Rightarrow>
               if ret_val = ERROR_NO_ERROR
               then Some (ret_val, write32 ACS_TEMP_CURR_CFG
                      (push_bit 8 (ucast trim) OR (r32 s ACS_TEMP_CURR_CFG AND 0xFF)) s)
               else Some (ret_val, s)
           | _ \<Rightarrow> None))"

definition Sys_Trim_LoadThermistor ::
  "trim_hw \<Rightarrow> TRIM_Type option \<Rightarrow> uint16_t \<Rightarrow> machine \<Rightarrow> (uint32_t \<times> machine) option" where
  "Sys_Trim_LoadThermistor hw trim_values target s =
     (case trim_values of
        None \<Rightarrow> Some (ERROR_NULL, s)
      | Some tr \<Rightarrow> Sys_Trim_LoadThermistor_private hw trim_values target s)"

text \<open>
  \<open>Sys_Trim_LoadVDDIF\<close>. With \<open>RSL15_CID\<close> defined it is the inline function of trim.h
  (lines 439-443), which ignores its arguments and returns \<open>ERROR_NO_TRIM_FOUND\<close>;
  otherwise it is the loader of trim_vddif.c.
\<close>

definition Sys_Trim_LoadVDDIF_private ::
  "trim_hw \<Rightarrow> TRIM_Type option \<Rightarrow> uint32_t \<Rightarrow> machine \<Rightarrow> (uint32_t \<times> machine) option" where
  "Sys_Trim_LoadVDDIF_private hw trim_values target s =
     (case trim_values of
        None \<Rightarrow> Some (ERROR_NULL, s)
      | Some tr \<Rightarrow>
          (case Sys_Trim_GetTrim (Some (vddif tr)) (ucast target) (TRIM_RECORDS hw) (Some 0) of
             (Some ret_val, Some trim) \<Rightarrow>
               if ret_val = ERROR_NO_ERROR
               then Some (ret_val, write8 ACS_VDDIF_CTRL_VTRIM_BYTE
                      (ucast (ucast trim AND TRIM_8_BIT_TRIM_MASK)) s)
               else Some (ret_val, s)
           | _ \<Rightarrow> None))"

definition Sys_Trim_LoadVDDIF ::
  "trim_hw \<Rightarrow> TRIM_Type option \<Rightarrow> uint32_t \<Rightarrow> machine \<Rightarrow> (uint32_t \<times> machine) option" where
  "Sys_Trim_LoadVDDIF hw trim_values target s =
     (if RSL15_CID_defined hw then Some (ERROR_NO_TRIM_FOUND, s)
      else case trim_values of
             None \<Rightarrow> Some (ERROR_NULL, s)
           | Some tr \<Rightarrow> Sys_Trim_LoadVDDIF_private hw trim_values target s)"

subsection \<open>Sys_Trim_LoadTrims\<close>

text \<open>
  The tables of function pointers \<open>load_trim_functions_2_args\<close> and
  \<open>load_trim_functions_1_arg\<close> (lines 53-70), in their order.
\<close>

definition load_trim_functions_2_args ::
  "trim_hw \<Rightarrow> (TRIM_Type option \<Rightarrow> uint32_t \<Rightarrow> uint32_t \<Rightarrow> machine \<Rightarrow>
                (uint32_t \<times> machine) option) list" where
  "load_trim_functions_2_args hw =
     [Sys_Trim_LoadBandgap_private hw,
      Sys_Trim_LoadVDDC_private hw,
      Sys_Trim_LoadVDDM_private hw]"

definition load_trim_functions_1_arg ::
  "trim_hw \<Rightarrow> (TRIM_Type option \<Rightarrow> uint32_t \<Rightarrow> machine \<Rightarrow> (uint32_t \<times> machine) option) list" where
  "load_trim_functions_1_arg hw =
     [Sys_Trim_LoadDCDC_private hw,
      Sys_Trim_LoadVDDRF_private hw,
      Sys_Trim_LoadVDDPA_private hw,
      Sys_Trim_LoadVDDIF hw,
      Sys_Trim_LoadVDDFLASH_private hw,
      Sys_Trim_LoadRCOSC_private hw,
      Sys_Trim_LoadRCOSC32_private hw]"

text \<open>
  The two loops of lines 106-115 over the remaining table entries, from index \<open>i\<close>:
  \<open>ret_val |= load_trim_functions[i] (trim_region, targets[i] ...)\<close>.
\<close>

fun LoadTrims_loop_2 ::
  "(TRIM_Type option \<Rightarrow> uint32_t \<Rightarrow> uint32_t \<Rightarrow> machine \<Rightarrow> (uint32_t \<times> machine) option) list \<Rightarrow>
     TRIM_Type option \<Rightarrow> (nat \<Rightarrow> nat \<Rightarrow> uint32_t) \<Rightarrow> nat \<Rightarrow> uint32_t \<times> machine \<Rightarrow>
     (uint32_t \<times> machine) option" where
  "LoadTrims_loop_2 [] trim_region targets_2 i st = Some st"
| "LoadTrims_loop_2 (f # fs) trim_region targets_2 i (ret_val, s) =
     (case f trim_region (targets_2 i 0) (targets_2 i 1) s of
        None \<Rightarrow> None
      | Some (e, s') \<Rightarrow> LoadTrims_loop_2 fs trim_region targets_2 (Suc i) (ret_val OR e, s'))"

fun LoadTrims_loop_1 ::
  "(TRIM_Type option \<Rightarrow> uint32_t \<Rightarrow> machine \<Rightarrow> (uint32_t \<times> machine) option) list \<Rightarrow>
     TRIM_Type option \<Rightarrow> (nat \<Rightarrow> uint32_t) \<Rightarrow> nat \<Rightarrow> uint32_t \<times> machine \<Rightarrow>
     (uint32_t \<times> machine) option" where
  "LoadTrims_loop_1 [] trim_region targets_1 i st = Some st"
| "LoadTrims_loop_1 (f # fs) trim_region targets_1 i (ret_val, s) =
     (case f trim_region (targets_1 i) s of
        None \<Rightarrow> None
      | Some (e, s') \<Rightarrow> LoadTrims_loop_1 fs trim_region targets_1 (Suc i) (ret_val OR e, s'))"

definition Sys_Trim_LoadTrims ::
  "trim_hw \<Rightarrow> crc_hw \<Rightarrow> TRIM_Type option \<Rightarrow> (nat \<Rightarrow> uint32_t) \<Rightarrow> (nat \<Rightarrow> nat \<Rightarrow> uint32_t) \<Rightarrow>
     machine \<Rightarrow> (uint32_t \<times> machine) option" where
  "Sys_Trim_LoadTrims hw c trim_region targets_1 targets_2 s =
     (case trim_region of
        None \<Rightarrow> Some (ERROR_NULL, s)
      | Some tr \<Rightarrow>
          (case LoadTrims_loop_2 (load_trim_functions_2_args hw) trim_region targets_2 0
                  (Sys_Trim_VerifyTrims hw c trim_region s) of
             None \<Rightarrow> None
           | Some st \<Rightarrow>
               LoadTrims_loop_1 (load_trim_functions_1_arg hw) trim_region targets_1 0 st))"

subsection \<open>What the specification says about a record lookup\<close>

text \<open>
  A word is a sentinel when all its bits are zero or all are one. The decoding rules of
  section 4.1, read as a lookup of a target key in one record word: a record whose
  16-bit target equals the key gives its trim; a record whose target is wider than 8 bits
  packs two byte-wide targets and trims, and gives the low trim byte for the low target
  byte and the high trim byte for the high target byte.
\<close>

definition is_sentinel :: "uint32_t \<Rightarrow> bool" where
  "is_sentinel w = (w = MIN_32_BIT \<or> w = MAX_32_BIT)"

definition spec_record_lookup :: "uint16_t \<Rightarrow> uint32_t \<Rightarrow> uint16_t option" where
  "spec_record_lookup key w =
     (let tgt = (ucast (drop_bit 16 w) :: uint16_t); trm = (ucast w :: uint16_t)
      in if key = tgt then Some trm
         else if 0xFF < tgt \<and> key = tgt AND 0xFF then Some (trm AND 0xFF)
         else if 0xFF < tgt \<and> key = drop_bit 8 tgt then Some (drop_bit 8 trm)
         else None)"

subsection \<open>Sample data for evaluating the trim loader\<close>

definition trim_hw_sample :: trim_hw where
  "trim_hw_sample =
     \<lparr>RSL15_CID_defined = True,
      VCC_BUCK = 0x1000,
      ACS_VDDPA_CTRL_VTRIM_BYTE_lane = 0,
      ACS_RCOSC_CTRL_RC_FTRIM_BYTE_lane = 0,
      TRIM_RECORDS = 4,
      TRIM_RC_RECORDS = 4,
      TRIM_THERMISTOR_RECORDS = 2,
      TRIM_BANDGAP_CURRENT_OFFSET = 4,
      ACS_BG_CTRL_ITRIM_Pos = 16,
      ACS_VCC_CTRL_VTRIM_Mask = 0xFF\<rparr>"

text \<open>
  A stand-in for the CRC hardware: it folds a word in by exclusive or and finalises by the
  identity. It only serves to run the model on concrete data.
\<close>

definition xor_add :: "uint32_t \<Rightarrow> uint32_t \<Rightarrow> uint32_t \<Rightarrow> uint32_t" where
  "xor_add cfg v d = v XOR d"

definition id_final :: "uint32_t \<Rightarrow> uint32_t \<Rightarrow> uint32_t" where
  "id_final cfg v = v"

definition crc_hw_sample :: crc_hw where
  "crc_hw_sample =
     \<lparr>CRC_CCITT = 0, CRC_32 = 1, CRC_BIG_ENDIAN = 0, CRC_BIT_ORDER_STANDARD = 0,
      CRC_CCITT_INIT_VALUE = 0xFFFF, CRC_32_INIT_VALUE = 0xFFFFFFFF,
      crc_add32 = xor_add, crc_final = id_final\<rparr>"

text \<open>Tables of record words: all zero, all one, and a four-record VDDC table.\<close>

definition table_zero :: "nat \<Rightarrow> uint32_t" where
  "table_zero i = 0"

definition table_ones :: "nat \<Rightarrow> uint32_t" where
  "table_ones i = 0xFFFFFFFF"

text \<open>
  Record 0 is erased; record 1 holds the target 115 (1.15 V) with trim \<open>0x2A\<close>, paired with
  a standby target 0x50 (0.80 V) with trim \<open>0x11\<close>; records 2 and 3 are erased.
\<close>

definition table_vddc :: "nat \<Rightarrow> uint32_t" where
  "table_vddc i = (if i = 1 then 0x5073112A else 0xFFFFFFFF)"

text \<open>A table whose only programmed record holds the normal target 115 and trim \<open>0x2A\<close>.\<close>

definition table_vddc_normal_only :: "nat \<Rightarrow> uint32_t" where
  "table_vddc_normal_only i = (if i = 1 then 0x0073002A else 0xFFFFFFFF)"

text \<open>A region whose records are all erased (all ones), with an empty CRC range.\<close>

definition trim_region_erased :: TRIM_Type where
  "trim_region_erased =
     \<lparr>CHECKSUM = 0xFFFFFFFF, crc_words = [],
      bandgap = table_ones, dcdc = table_ones, vddc = table_ones, vddm = table_ones,
      vddrf = table_ones, vddpa = table_ones, vddif = table_ones, vddflash = table_ones,
      rcosc = table_ones, rcosc32 = table_ones, thermistor = table_ones,
      lsad_trim_hf_offset = 0xFFFF, lsad_trim_hf_gain = 0xFFFFFFFF,
      lsad_trim_lf_gain = 0xFFFFFFFF, temp_sensor_offset = 0xFFFFFFFF,
      measured_temp_sensor_30C = 0xFFFF, measured_bandgap_vref_0_75V = 0xFFFF,
      measured_lsad_vref_1_0V_internal = 0xFFFF, measured_wedac_600mV = 0xFFFF\<rparr>"

text \<open>
  A machine whose normal VDDC trim register already holds \<open>0x2A\<close>; its standby trim register
  holds \<open>0x07\<close>.
\<close>

definition machine_vddc_2A :: machine where
  "machine_vddc_2A =
     machine0\<lparr>r8 := (\<lambda>_. 0)(ACS_VDDC_CTRL_VTRIM_BYTE := 0x2A,
                               ACS_VDDC_CTRL_STANDBY_VTRIM_BYTE := 0x07)\<rparr>"

text \<open>
  What the specification says \<open>Sys_Trim_CheckCRC\<close> computes: the engine is CRC-CCITT when
  the stored checksum fits in 16 bits and CRC-32 otherwise, started from that engine's
  initial value, fed every word of the covered range in address order, and finalised.
\<close>

definition spec_region_crc :: "crc_hw \<Rightarrow> TRIM_Type \<Rightarrow> uint32_t" where
  "spec_region_crc c tr =
     (let cfg = (if CHECKSUM tr \<le> 0xFFFF then CRC_CCITT c else CRC_32 c);
          init = (if CHECKSUM tr \<le> 0xFFFF then CRC_CCITT_INIT_VALUE c else CRC_32_INIT_VALUE c)
      in crc_final c cfg (foldl (crc_add32 c cfg) init (crc_words tr)))"

text \<open>
  A region erased but for its VDDC table, which holds the normal target 115 only; and
  a region with a three-word CRC range and the matching CRC-32 checksum of the stand-in.
\<close>

definition trim_region_vddc_normal_only :: TRIM_Type where
  "trim_region_vddc_normal_only = trim_region_erased\<lparr>vddc := table_vddc_normal_only\<rparr>"

definition trim_region_crc_sample :: TRIM_Type where
  "trim_region_crc_sample =
     trim_region_erased\<lparr>CHECKSUM := 0xFFFCFFFC, crc_words := [0x00010000, 0x00020000, 0x00000003]\<rparr>"

text \<open>
  A partly programmed region. Its RC oscillator table has record 0 programmed (target
  3000, the 3 MHz setting) and the other records erased. Its VDDIF, VDDFLASH, RC32K and
  thermistor tables have record 0 erased and record 1 programmed (key \<open>0x6E\<close>, value
  \<open>0x18\<close>). Of its measured references only \<open>temp_sensor_30C\<close> is programmed. Everything
  else is erased.
\<close>

definition table_rcosc_3MHz_only :: "nat \<Rightarrow> uint32_t" where
  "table_rcosc_3MHz_only i = (if i = 0 then 0x0BB80020 else 0xFFFFFFFF)"

definition table_record_1_only :: "nat \<Rightarrow> uint32_t" where
  "table_record_1_only i = (if i = 1 then 0x006E0018 else 0xFFFFFFFF)"

definition trim_region_partly_programmed :: TRIM_Type where
  "trim_region_partly_programmed =
     trim_region_erased\<lparr>vddif := table_record_1_only, vddflash := table_record_1_only,
                         rcosc := table_rcosc_3MHz_only, rcosc32 := table_record_1_only,
                         thermistor := table_record_1_only,
                         measured_temp_sensor_30C := 0x0123\<rparr>"
section \<open>RF front end: TX power (rffe.h, rffe.c)\<close>

subsection \<open>Constants of rffe.h\<close>

type_synonym int8_t = "8 word"

definition MAX_LSAD_CHANNEL :: uint8_t where "MAX_LSAD_CHANNEL = 7"
definition VCC_VDDRF_MARGIN :: uint32_t where "VCC_VDDRF_MARGIN = 50"
definition MV_PER_DBM_VDDRF :: int where "MV_PER_DBM_VDDRF = 75"
definition STEPS_PER_DBM_VDDRF :: int where "STEPS_PER_DBM_VDDRF = 6"
definition STEPS_PER_DBM_VDDPA :: int where "STEPS_PER_DBM_VDDPA = 10"
definition RF_MAX_POWER :: int where "RF_MAX_POWER = 6"
definition RF_MAX_POWER_NO_VDDPA :: int where "RF_MAX_POWER_NO_VDDPA = 2"
definition RF_NO_VDDPA_TYPICAL_POWER :: int where "RF_NO_VDDPA_TYPICAL_POWER = 0"
definition RF_MIN_POWER :: int where "RF_MIN_POWER = - 17"
definition PA_PWR_BYTE_0DBM :: int where "PA_PWR_BYTE_0DBM = 0x0C"
definition PA_ENABLE_BIAS_SETTING :: uint8_t where "PA_ENABLE_BIAS_SETTING = 0xF3"
definition PA_DISABLE_BIAS_SETTING :: uint8_t where "PA_DISABLE_BIAS_SETTING = 0x73"
definition SW_CTRL_DELAY_3_BYTE :: uint8_t where "SW_CTRL_DELAY_3_BYTE = 0x2"
definition RAMPUP_DELAY_3_BYTE :: uint8_t where "RAMPUP_DELAY_3_BYTE = 0x2"
definition DISABLE_DELAY_3_BYTE :: uint8_t where "DISABLE_DELAY_3_BYTE = 0x2"

definition ERRNO_TX_POWER_MARKER :: uint32_t where "ERRNO_TX_POWER_MARKER = 0x30"
definition ERRNO_RFFE_INVALIDSETTING_ERROR :: uint32_t where
  "ERRNO_RFFE_INVALIDSETTING_ERROR = 0x03 OR ERRNO_TX_POWER_MARKER"
definition ERRNO_RFFE_VCC_INSUFFICIENT :: uint32_t where
  "ERRNO_RFFE_VCC_INSUFFICIENT = 0x04 OR ERRNO_TX_POWER_MARKER"

text \<open>The register constants of \<open>hw.h\<close> that rffe.c uses, as parameters.\<close>

record rffe_hw = hw_common +
  RSL15_CID_is_202 :: bool
  LSAD_NORMAL :: uint32_t
  LSAD_PRESCALE_200 :: uint32_t
  VBAT_DIV2_ENABLE :: uint32_t
  LSAD_POS_INPUT_AOUT :: uint32_t
  LSAD_NEG_INPUT_GND :: uint32_t
  ACS_AOUT_CTRL_TEST_AOUT_Mask :: uint32_t
  ACS_AOUT_CTRL_AOUT_TO_GPIO_Mask :: uint32_t
  AOUT_NOT_CONNECTED_TO_GPIO :: uint32_t
  SEL_AOUT_TO_GPIO :: uint32_t
  AOUT_VCC :: uint32_t
  DYNAMIC_CTRL_DISABLE_BYTE :: uint8_t
  DYNAMIC_CTRL_ENABLE_BYTE :: uint8_t
  VDDPA_INITIAL_TRIM_1P10V :: uint32_t
  VDDPA_SW_VDDRF :: uint32_t
  VDDPA_SW_HIZ :: uint32_t
  VDDPA_ISENSE_DISABLE :: uint32_t
  VDDPA_DISABLE :: uint32_t
  ACS_VDDPA_CTRL_VTRIM_Pos :: nat

subsection \<open>C arithmetic\<close>

text \<open>
  Integer division and remainder of C truncate towards zero. A conversion of a
  floating-point value to \<open>uint8_t\<close> is defined only when the truncated value is in
  \<open>0 .. 255\<close>; the floating-point values of rffe.c that are converted are whole numbers
  (small multiples of one half are exact in \<open>float\<close>, and the products converted are whole),
  so they are modelled by integers.
\<close>

definition c_div :: "int \<Rightarrow> int \<Rightarrow> int" where
  "c_div a b = sgn a * sgn b * (\<bar>a\<bar> div \<bar>b\<bar>)"

definition c_rem :: "int \<Rightarrow> int \<Rightarrow> int" where
  "c_rem a b = a - b * c_div a b"

definition float_to_uint8 :: "int \<Rightarrow> uint8_t option" where
  "float_to_uint8 v = (if 0 \<le> v \<and> v \<le> 255 then Some (word_of_int v) else None)"

subsection \<open>Sys_RFFE_SetTXPower_NoVDDPA\<close>

text \<open>
  The write \<open>ACS->VDDPA_CTRL = VDDPA_INITIAL_TRIM_1P10V | VDDPA_SW_VDDRF |
  VDDPA_ISENSE_DISABLE | VDDPA_DISABLE | (trims->vddpa[2].trim_voltage << VTRIM_Pos)\<close>
  preceded by \<open>SYSCTRL_VDDPA_CFG0->DYNAMIC_CTRL_BYTE = DYNAMIC_CTRL_DISABLE_BYTE\<close>
  (lines 241-246 and 261-266).
\<close>

definition disable_dynamic_VDDPA :: "rffe_hw \<Rightarrow> TRIM_Type \<Rightarrow> machine \<Rightarrow> machine" where
  "disable_dynamic_VDDPA hw trims s =
     write32 ACS_VDDPA_CTRL
       (VDDPA_INITIAL_TRIM_1P10V hw OR VDDPA_SW_VDDRF hw OR VDDPA_ISENSE_DISABLE hw OR
        VDDPA_DISABLE hw OR
        push_bit (ACS_VDDPA_CTRL_VTRIM_Pos hw) (rec_trim_voltage (vddpa trims 2)))
       (write8 SYSCTRL_VDDPA_CFG0_DYNAMIC_CTRL_BYTE (DYNAMIC_CTRL_DISABLE_BYTE hw) s)"

text \<open>
  Lines 274-307, for a target not above 0 dBm: the value of \<open>pa_pwr_temp\<close> and the machine
  after the compensation of \<open>ACS_VDDRF_CTRL->VTRIM_BYTE\<close>. \<open>upper_trim\<close> is
  \<open>(target + 0.5f) * 2\<close>, the whole number \<open>2 * target + 1\<close>, and \<open>lower_trim\<close> is
  \<open>2 * target - 1\<close>. \<open>power_error * STEPS_PER_DBM_VDDRF\<close> is the whole number
  \<open>6 * target - 9 * (pa_pwr_temp - PA_PWR_BYTE_0DBM)\<close>. The result is \<open>None\<close> where a
  floating-point value outside \<open>0 .. 255\<close> is converted to \<open>uint8_t\<close>.
\<close>

definition NoVDDPA_pa_pwr :: "int \<Rightarrow> machine \<Rightarrow> (uint8_t \<times> machine) option" where
  "NoVDDPA_pa_pwr target s =
     (let upper_trim = (2 * target + 1); lower_trim = (2 * target - 1)
      in
        if c_rem upper_trim 3 = 0 then
          (case float_to_uint8 (c_div upper_trim 3) of
             None \<Rightarrow> None
           | Some q \<Rightarrow>
               let pa_pwr_temp = (word_of_int (PA_PWR_BYTE_0DBM + uint q) :: uint8_t);
                   steps = STEPS_PER_DBM_VDDRF * target -
                           9 * (uint pa_pwr_temp - PA_PWR_BYTE_0DBM)
               in (case float_to_uint8 (uint (r8 s ACS_VDDRF_CTRL_VTRIM_BYTE) + steps) of
                     None \<Rightarrow> None
                   | Some v \<Rightarrow> Some (pa_pwr_temp, write8 ACS_VDDRF_CTRL_VTRIM_BYTE v s)))
        else if c_rem lower_trim 3 = 0 then
          (let pa_pwr_temp = (word_of_int (PA_PWR_BYTE_0DBM + c_div lower_trim 3) :: uint8_t);
               steps = STEPS_PER_DBM_VDDRF * target -
                       9 * (uint pa_pwr_temp - PA_PWR_BYTE_0DBM)
           in (case float_to_uint8 (uint (r8 s ACS_VDDRF_CTRL_VTRIM_BYTE) + steps) of
                 None \<Rightarrow> None
               | Some v \<Rightarrow> Some (pa_pwr_temp, write8 ACS_VDDRF_CTRL_VTRIM_BYTE v s)))
        else
          Some (word_of_int (PA_PWR_BYTE_0DBM + c_div (target * 2) 3), s))"

text \<open>
  Lines 313-322: the saved LSAD and AOUT registers are written back, and \<open>PA_PWR\<close> is
  written when \<open>pa_pwr_temp\<close> is not \<open>0xff\<close>. \<open>Device_RF_SetMaxPwrIdx\<close> is the empty weak
  function of lines 35-38.
\<close>

definition NoVDDPA_restore ::
  "nat \<Rightarrow> uint32_t \<Rightarrow> uint32_t \<Rightarrow> uint32_t \<Rightarrow> uint8_t \<Rightarrow> machine \<Rightarrow> machine" where
  "NoVDDPA_restore ch lsad_cfg_bk aout_bk lsad_bk pa_pwr_temp s =
     (let s1 = write32 (LSAD_INPUT_SEL ch) lsad_bk
                 (write32 ACS_AOUT_CTRL aout_bk (write32 LSAD_CFG lsad_cfg_bk s))
      in if pa_pwr_temp \<noteq> 0xff then write8 RF0_REG1A_PA_PWR_PA_PWR_BYTE pa_pwr_temp s1 else s1)"

text \<open>
  \<open>Sys_RFFE_SetTXPower_NoVDDPA\<close>. \<open>trims\<close> is the content of the default trim region
  \<open>TRIM\<close>. \<open>vcc\<close> is the value \<open>Sys_RFFE_MeasureSupply\<close> returns for the VCC rail: it is
  computed in floating point from three reads of the ADC data register and is an input of
  the model. \<open>target\<close> is the \<open>int8_t\<close> argument; its value is \<open>sint target\<close>.
\<close>

definition Sys_RFFE_SetTXPower_NoVDDPA ::
  "rffe_hw \<Rightarrow> TRIM_Type \<Rightarrow> uint32_t \<Rightarrow> int8_t \<Rightarrow> uint32_t \<Rightarrow> machine \<Rightarrow>
     (uint32_t \<times> machine) option" where
  "Sys_RFFE_SetTXPower_NoVDDPA hw trims vcc target lsad_channel s =
     (let ch = unat lsad_channel;
          lsad_bk = r32 s (LSAD_INPUT_SEL ch);
          aout_bk = r32 s ACS_AOUT_CTRL;
          lsad_cfg_bk = r32 s LSAD_CFG;
          s1 = write32 LSAD_CFG
                 (if RSL15_CID_is_202 hw then LSAD_NORMAL hw OR LSAD_PRESCALE_200 hw
                  else LSAD_NORMAL hw OR LSAD_PRESCALE_200 hw OR VBAT_DIV2_ENABLE hw) s;
          s2 = write32 (LSAD_INPUT_SEL ch) (LSAD_POS_INPUT_AOUT hw OR LSAD_NEG_INPUT_GND hw) s1;
          s3 = write32 ACS_AOUT_CTRL
                 (r32 s2 ACS_AOUT_CTRL AND
                  NOT (ACS_AOUT_CTRL_TEST_AOUT_Mask hw OR ACS_AOUT_CTRL_AOUT_TO_GPIO_Mask hw)) s2;
          s4 = write32 ACS_AOUT_CTRL
                 (r32 s3 ACS_AOUT_CTRL OR (AOUT_NOT_CONNECTED_TO_GPIO hw OR SEL_AOUT_TO_GPIO hw)) s3
      in
        if RF_NO_VDDPA_TYPICAL_POWER < sint target then
          let s5 = write32 ACS_AOUT_CTRL (r32 s4 ACS_AOUT_CTRL OR AOUT_VCC hw) s4;
              vddrf_max = vcc - VCC_VDDRF_MARGIN
          in
            if vddrf_max <
                 (word_of_int (TARGET_VDDRF_1070 * 10 + sint target * MV_PER_DBM_VDDRF) :: uint32_t)
            then Some (ERRNO_RFFE_VCC_INSUFFICIENT,
                       NoVDDPA_restore ch lsad_cfg_bk aout_bk lsad_bk 0xff s5)
            else
              let s6 = disable_dynamic_VDDPA hw trims s5;
                  s7 = write8 ACS_VDDRF_CTRL_VTRIM_BYTE
                         (word_of_int (uint (rec_trim (vddrf trims 1)) +
                                       sint target * STEPS_PER_DBM_VDDRF)) s6;
                  s8 = write8 RF0_BIAS_0_2_BIAS_0_IQ_RXTX_BYTE PA_DISABLE_BIAS_SETTING s7
              in Some (ERROR_NO_ERROR,
                       NoVDDPA_restore ch lsad_cfg_bk aout_bk lsad_bk
                         (word_of_int PA_PWR_BYTE_0DBM) s8)
        else
          let s5 = disable_dynamic_VDDPA hw trims s4;
              s6 = write8 ACS_VDDRF_CTRL_VTRIM_BYTE (ucast (rec_trim (vddrf trims 1))) s5
          in (case NoVDDPA_pa_pwr (sint target) s6 of
                None \<Rightarrow> None
              | Some (pa_pwr_temp, s7) \<Rightarrow>
                  let s8 = write8 RF0_BIAS_0_2_BIAS_0_IQ_RXTX_BYTE PA_DISABLE_BIAS_SETTING s7
                  in Some (ERROR_NO_ERROR,
                           NoVDDPA_restore ch lsad_cfg_bk aout_bk lsad_bk pa_pwr_temp s8)))"

subsection \<open>Sys_RFFE_SetTXPower_VDDPA\<close>

text \<open>
  \<open>Sys_RFFE_SetTXPower_VDDPA\<close> (lines 341-387). \<open>ACS_VDDPA_CTRL->VTRIM_BYTE\<close> is a byte
  view of \<open>ACS->VDDPA_CTRL\<close>. \<open>power_error * STEPS_PER_DBM_VDDPA\<close> is the whole number
  \<open>10 * (target - RF_MAX_POWER) - 15 * (pa_pwr_temp - PA_PWR_BYTE_0DBM)\<close>.
\<close>

definition Sys_RFFE_SetTXPower_VDDPA ::
  "rffe_hw \<Rightarrow> TRIM_Type \<Rightarrow> int8_t \<Rightarrow> uint32_t \<Rightarrow> machine \<Rightarrow> (uint32_t \<times> machine) option" where
  "Sys_RFFE_SetTXPower_VDDPA hw trims target lsad_channel s =
     (let s1 = write32 ACS_VDDPA_CTRL
                 (VDDPA_INITIAL_TRIM_1P10V hw OR VDDPA_SW_HIZ hw OR VDDPA_ISENSE_DISABLE hw OR
                  VDDPA_DISABLE hw OR
                  push_bit (ACS_VDDPA_CTRL_VTRIM_Pos hw) (rec_trim_voltage (vddpa trims 2))) s;
          s2 = write8 SYSCTRL_VDDPA_CFG0_DYNAMIC_CTRL_BYTE (DYNAMIC_CTRL_ENABLE_BYTE hw) s1;
          s3 = write8 SYSCTRL_VDDPA_CFG0_SW_CTRL_DELAY_BYTE SW_CTRL_DELAY_3_BYTE s2;
          s4 = write8 SYSCTRL_VDDPA_CFG0_RAMPUP_DELAY_BYTE RAMPUP_DELAY_3_BYTE s3;
          s5 = write8 SYSCTRL_VDDPA_CFG0_DISABLE_DELAY_BYTE DISABLE_DELAY_3_BYTE s4;
          s6 = write8 RF0_BIAS_0_2_BIAS_0_IQ_RXTX_BYTE PA_ENABLE_BIAS_SETTING s5;
          pa_pwr_temp = (word_of_int (PA_PWR_BYTE_0DBM +
                           c_div ((sint target - RF_MAX_POWER) * 2) 3) :: uint8_t);
          lane = ACS_VDDPA_CTRL_VTRIM_BYTE_lane hw;
          s7 = (if c_rem (sint target) 3 \<noteq> 0 then
                  (case float_to_uint8
                          (uint (byte_lane lane (r32 s6 ACS_VDDPA_CTRL)) +
                           (STEPS_PER_DBM_VDDPA * (sint target - RF_MAX_POWER) -
                            15 * (uint pa_pwr_temp - PA_PWR_BYTE_0DBM))) of
                     None \<Rightarrow> None
                   | Some v \<Rightarrow> Some (write_lane ACS_VDDPA_CTRL lane v s6))
                else Some s6)
      in case s7 of
           None \<Rightarrow> None
         | Some s8 \<Rightarrow>
             Some (ERROR_NO_ERROR,
                   if pa_pwr_temp \<noteq> 0xff then write8 RF0_REG1A_PA_PWR_PA_PWR_BYTE pa_pwr_temp s8
                   else s8))"

subsection \<open>Sys_RFFE_SetTXPower\<close>

definition Sys_RFFE_SetTXPower ::
  "rffe_hw \<Rightarrow> TRIM_Type \<Rightarrow> uint32_t \<Rightarrow> int8_t \<Rightarrow> uint8_t \<Rightarrow> bool \<Rightarrow> machine \<Rightarrow>
     (uint32_t \<times> machine) option" where
  "Sys_RFFE_SetTXPower hw trims vcc target lsad_channel pa_en s =
     (let rffe_error = ERROR_NO_ERROR in
      if MAX_LSAD_CHANNEL < lsad_channel \<or> rffe_error = ERRNO_RFFE_INVALIDSETTING_ERROR
      then Some (ERRNO_RFFE_INVALIDSETTING_ERROR, s)
      else if RF_MAX_POWER < sint target \<or> sint target < RF_MIN_POWER
      then Some (ERRNO_RFFE_INVALIDSETTING_ERROR, s)
      else if sint target \<le> RF_MAX_POWER \<and> RF_MIN_POWER \<le> sint target then
        if (\<not> pa_en \<and> sint target \<le> RF_MAX_POWER_NO_VDDPA \<and> 0 < sint target) \<or> sint target \<le> 0
        then
          (case Sys_RFFE_SetTXPower_NoVDDPA hw trims vcc target (ucast lsad_channel) s of
             None \<Rightarrow> None
           | Some (e, s1) \<Rightarrow>
               if e = ERRNO_RFFE_VCC_INSUFFICIENT then
                 (case Sys_RFFE_SetTXPower_VDDPA hw trims target (ucast lsad_channel) s1 of
                    None \<Rightarrow> None
                  | Some (e2, s2) \<Rightarrow> Some (e OR e2, s2))
               else Some (e, s1))
        else Sys_RFFE_SetTXPower_VDDPA hw trims target (ucast lsad_channel) s
      else Some (ERRNO_RFFE_INVALIDSETTING_ERROR, s))"

subsection \<open>Sample data for evaluating the TX power functions\<close>

definition rffe_hw_sample :: rffe_hw where
  "rffe_hw_sample =
     \<lparr>RSL15_CID_defined = True,
      VCC_BUCK = 0x1000,
      ACS_VDDPA_CTRL_VTRIM_BYTE_lane = 0,
      ACS_RCOSC_CTRL_RC_FTRIM_BYTE_lane = 0,
      RSL15_CID_is_202 = True,
      LSAD_NORMAL = 0,
      LSAD_PRESCALE_200 = 0x2,
      VBAT_DIV2_ENABLE = 0x10,
      LSAD_POS_INPUT_AOUT = 0x5,
      LSAD_NEG_INPUT_GND = 0xF00,
      ACS_AOUT_CTRL_TEST_AOUT_Mask = 0x1F,
      ACS_AOUT_CTRL_AOUT_TO_GPIO_Mask = 0xF00,
      AOUT_NOT_CONNECTED_TO_GPIO = 0x1000,
      SEL_AOUT_TO_GPIO = 0,
      AOUT_VCC = 0x3,
      DYNAMIC_CTRL_DISABLE_BYTE = 0,
      DYNAMIC_CTRL_ENABLE_BYTE = 1,
      VDDPA_INITIAL_TRIM_1P10V = 0x3000000,
      VDDPA_SW_VDDRF = 0x2000,
      VDDPA_SW_HIZ = 0,
      VDDPA_ISENSE_DISABLE = 0,
      VDDPA_DISABLE = 0,
      ACS_VDDPA_CTRL_VTRIM_Pos = 0\<rparr>"

text \<open>
  A default trim region whose VDDPA record 2 has the trim voltage \<open>0x20\<close> and whose VDDRF
  record 1 has the trim \<open>0x18\<close>.
\<close>

definition table_vddpa_sample :: "nat \<Rightarrow> uint32_t" where
  "table_vddpa_sample i = (if i = 2 then 0x6EA00A20 else 0xFFFFFFFF)"

definition table_vddrf_sample :: "nat \<Rightarrow> uint32_t" where
  "table_vddrf_sample i = (if i = 1 then 0x006E0018 else 0xFFFFFFFF)"

definition trims_sample :: TRIM_Type where
  "trims_sample = trim_region_erased\<lparr>vddrf := table_vddrf_sample, vddpa := table_vddpa_sample\<rparr>"

text \<open>A machine whose VDDPA control register has every bit set.\<close>

definition machine_vddpa_on :: machine where
  "machine_vddpa_on = machine0\<lparr>r32 := (\<lambda>_. 0)(ACS_VDDPA_CTRL := 0xFFFFFFFF)\<rparr>"

section \<open>Power modes (power_modes.h, power_modes.c)\<close>

subsection \<open>Configuration structures and constants\<close>

text \<open>
  \<open>sleep_mode_ret_regulator_cfg\<close> (power_modes.h 97-108), with the widths of its
  bit-fields, and the members of \<open>sleep_mode_cfg\<close> (power_modes.h 136-173) that the two
  functions below read. A function pointer is held by its address; 0 is \<open>NULL\<close>.
\<close>

record sleep_mode_ret_regulator_cfg =
  vddm_ret_trim :: "2 word"
  vddt_ret :: "1 word"
  vddacs_ret_trim :: "2 word"
  vddc_ret_trim :: "2 word"

record sleep_mode_cfg =
  ble_present :: uint8_t
  vddret_ctrl :: sleep_mode_ret_regulator_cfg
  app_addr :: uint32_t

text \<open>
  The register constants of \<open>hw.h\<close> that the two functions use, and the addresses the
  linker gives to the symbols of power_modes.c 30-48: \<open>app_ptr\<close> is the address of the
  array \<open>app_ptr[]\<close>, \<open>stack_addr\<close> is \<open>&__stack\<close>, \<open>Wakeup_addr\<close> is \<open>&__Wakeup_addr\<close> and
  \<open>WakeupFromRAM_addr\<close> is the address of the function \<open>_Sys_PowerModes_WakeupFromRAM\<close>.
  The linker script is not part of the repository, so the four addresses are parameters.
\<close>

record power_hw =
  ACS_VDDRET_CTRL_VDDMRET_VTRIM_Pos :: nat
  ACS_VDDRET_CTRL_VDDACS_VTRIM_Pos :: nat
  ACS_VDDRET_CTRL_VDDTRET_ENABLE_Pos :: nat
  ACS_VDDRET_CTRL_VDDCRET_VTRIM_Pos :: nat
  VDDMRET_ENABLE :: uint32_t
  VDDCRET_DISABLE :: uint32_t
  PWR_SLEEP_MODE :: uint32_t
  WATCHDOG_REFRESH :: uint32_t
  app_ptr :: uint32_t
  stack_addr :: uint32_t
  Wakeup_addr :: uint32_t
  WakeupFromRAM_addr :: uint32_t

text \<open>A store to the RAM word at a byte address.\<close>

definition write_ram :: "uint32_t \<Rightarrow> uint32_t \<Rightarrow> machine \<Rightarrow> machine" where
  "write_ram a v s = s\<lparr>ram := (ram s)(a := v)\<rparr>"

subsection \<open>The CRC of the wake-up configuration\<close>

text \<open>
  The loop of \<open>_Sys_PowerModes_CalculateCRC\<close> (lines 861-866) with \<open>n\<close> iterations left:
  \<open>Sys_CRC_Add (crc, *cptr, 32); cptr += 1;\<close> for a \<open>uint32_t *cptr\<close>, which advances the
  address by 4.
\<close>

fun CalculateCRC_loop :: "crc_hw \<Rightarrow> uint32_t \<Rightarrow> nat \<Rightarrow> machine \<Rightarrow> machine" where
  "CalculateCRC_loop c cptr 0 s = s"
| "CalculateCRC_loop c cptr (Suc n) s =
     CalculateCRC_loop c (cptr + 4) n (Sys_CRC_Add32 c (ram s cptr) s)"

text \<open>
  \<open>_Sys_PowerModes_CalculateCRC\<close> (lines 855-868): the returned value and the machine
  afterwards. The seven words are read from \<open>&__Wakeup_addr\<close>.
\<close>

definition Sys_PowerModes_CalculateCRC :: "power_hw \<Rightarrow> crc_hw \<Rightarrow> machine \<Rightarrow> uint32_t \<times> machine" where
  "Sys_PowerModes_CalculateCRC hw c s =
     (let s1 = Sys_Set_CRC_Config (CRC_32 c OR CRC_BIG_ENDIAN c OR CRC_BIT_ORDER_STANDARD c) s;
          s2 = Sys_CRC_32InitValue c s1;
          s3 = CalculateCRC_loop c (Wakeup_addr hw) 7 s2
      in (Sys_CRC_GetFinalValue c s3, s3))"

subsection \<open>Entering sleep with memory retention\<close>

text \<open>
  \<open>_Sys_PowerModes_Sleep_MemoryRetention\<close> (lines 221-255) up to the \<open>__WFI ()\<close> that ends
  it. \<open>p_sleep_mode_cfg\<close> is the pointer the caller passes and \<open>cfg\<close> the structure it
  points to. \<open>app_ptr[i]\<close> is the RAM word at \<open>app_ptr + 4 * i\<close>. A bit-field of the
  retention configuration has at most two bits, and a bit position of the 32-bit register
  is below 30, so no shift overflows.
\<close>

definition Sys_PowerModes_Sleep_MemoryRetention ::
  "power_hw \<Rightarrow> crc_hw \<Rightarrow> uint32_t \<Rightarrow> sleep_mode_cfg \<Rightarrow> machine \<Rightarrow> machine" where
  "Sys_PowerModes_Sleep_MemoryRetention hw c p_sleep_mode_cfg cfg s =
     (let s1 = write32 ACS_VDDRET_CTRL
                 (push_bit (ACS_VDDRET_CTRL_VDDMRET_VTRIM_Pos hw)
                    (ucast (vddm_ret_trim (vddret_ctrl cfg))) OR
                  VDDMRET_ENABLE hw OR
                  push_bit (ACS_VDDRET_CTRL_VDDACS_VTRIM_Pos hw)
                    (ucast (vddacs_ret_trim (vddret_ctrl cfg))) OR
                  push_bit (ACS_VDDRET_CTRL_VDDTRET_ENABLE_Pos hw)
                    (ucast (vddt_ret (vddret_ctrl cfg))) OR
                  push_bit (ACS_VDDRET_CTRL_VDDCRET_VTRIM_Pos hw)
                    (ucast (vddc_ret_trim (vddret_ctrl cfg))) OR
                  VDDCRET_DISABLE hw) s;
          s2 = write_ram (app_ptr hw) (stack_addr hw) s1;
          s3 = write_ram (app_ptr hw + 4) (r32 s2 SCB_VTOR) s2;
          s4 = write_ram (app_ptr hw + 8) (WakeupFromRAM_addr hw) s3;
          s5 = write_ram (app_ptr hw + 12) 0 s4;
          s6 = write_ram (app_ptr hw + 16) 0 s5;
          s7 = write_ram (app_ptr hw + 20) 0 s6;
          s8 = write_ram (app_ptr hw + 24) 0 s7;
          (crc, s9) = Sys_PowerModes_CalculateCRC hw c s8;
          s10 = write_ram (app_ptr hw + 28) crc s9;
          s11 = write32 SYSCTRL_WAKEUP_ADDR (Wakeup_addr hw) s10;
          s12 = write32 ACS_BOOT_GP_DATA (r32 s11 SYSCTRL_MEM_ACCESS_CFG) s11;
          s13 = write32 ACS_GP_DATA p_sleep_mode_cfg s12
      in write32 ACS_PWR_MODES_CTRL (PWR_SLEEP_MODE hw) s13)"

text \<open>
  The CRC-32 of a list of words as the CRC peripheral computes it in the mode
  \<open>_Sys_PowerModes_CalculateCRC\<close> selects: started from the CRC-32 initial value, fed the
  words in order, and finalised.
\<close>

definition wake_block_crc :: "crc_hw \<Rightarrow> uint32_t list \<Rightarrow> uint32_t" where
  "wake_block_crc c ws =
     crc_final c (CRC_32 c OR CRC_BIG_ENDIAN c OR CRC_BIT_ORDER_STANDARD c)
       (foldl (crc_add32 c (CRC_32 c OR CRC_BIG_ENDIAN c OR CRC_BIT_ORDER_STANDARD c))
          (CRC_32_INIT_VALUE c) ws)"

subsection \<open>Waking up from RAM\<close>

text \<open>
  The loop \<open>while (1) { }\<close> of lines 322-325 after \<open>n\<close> iterations: its body is empty.
\<close>

fun WakeupFromRAM_loop :: "nat \<Rightarrow> machine \<Rightarrow> machine" where
  "WakeupFromRAM_loop 0 s = s"
| "WakeupFromRAM_loop (Suc n) s = WakeupFromRAM_loop n s"

text \<open>
  What is observed of a run of the wake-up handler: the machine, the function pointers
  the handler has called through \<open>app_addr\<close>, in order, and whether the handler has
  returned.
\<close>

record wake_run =
  wk_machine :: machine
  wk_calls :: "uint32_t list"
  wk_returned :: bool

text \<open>
  \<open>_Sys_PowerModes_WakeupFromRAM\<close> (lines 273-327), observed when the loop of its last
  branch, if the run reaches it, has made \<open>n\<close> iterations. The interrupt mask
  (\<open>__disable_irq\<close>, line 276) is not part of the machine state.
  \<^item> \<open>cfg_at\<close> gives the \<open>sleep_mode_cfg\<close> structure stored at an address; the handler
    reads the address from \<open>ACS->GP_DATA\<close>.
  \<^item> \<open>wakeup_init\<close> stands for lines 284-310, which follow the watchdog refresh of line
    282: the interrupt controller calls of CMSIS, the coprocessor access setting and
    \<open>_Sys_PowerModes_Sleep_WakeupInit\<close>, which waits for the clock detector and the
    baseband timer of the hardware. It gives the machine afterwards, or \<open>None\<close> when one
    of these waits never ends.
  \<^item> \<open>app_call\<close> is the application function behind a function pointer: the machine
    after the call, or \<open>None\<close> when the application does not return.
\<close>

definition Sys_PowerModes_WakeupFromRAM ::
  "power_hw \<Rightarrow> (uint32_t \<Rightarrow> sleep_mode_cfg) \<Rightarrow> (sleep_mode_cfg \<Rightarrow> machine \<Rightarrow> machine option) \<Rightarrow>
     (uint32_t \<Rightarrow> machine \<Rightarrow> machine option) \<Rightarrow> nat \<Rightarrow> machine \<Rightarrow> wake_run" where
  "Sys_PowerModes_WakeupFromRAM hw cfg_at wakeup_init app_call n s =
     (let cfg = cfg_at (r32 s ACS_GP_DATA);
          s1 = write32 WATCHDOG_CTRL (WATCHDOG_REFRESH hw) s
      in case wakeup_init cfg s1 of
           None \<Rightarrow> \<lparr>wk_machine = s1, wk_calls = [], wk_returned = False\<rparr>
         | Some s2 \<Rightarrow>
             if app_addr cfg \<noteq> 0 then
               (case app_call (app_addr cfg) s2 of
                  None \<Rightarrow> \<lparr>wk_machine = s2, wk_calls = [app_addr cfg], wk_returned = False\<rparr>
                | Some s3 \<Rightarrow> \<lparr>wk_machine = s3, wk_calls = [app_addr cfg], wk_returned = True\<rparr>)
             else
               \<lparr>wk_machine =
                  WakeupFromRAM_loop n (write32 WATCHDOG_CTRL (WATCHDOG_REFRESH hw) s2),
                wk_calls = [], wk_returned = False\<rparr>)"

subsection \<open>Sample data for evaluating the power mode functions\<close>

definition power_hw_sample :: power_hw where
  "power_hw_sample =
     \<lparr>ACS_VDDRET_CTRL_VDDMRET_VTRIM_Pos = 1,
      ACS_VDDRET_CTRL_VDDACS_VTRIM_Pos = 9,
      ACS_VDDRET_CTRL_VDDTRET_ENABLE_Pos = 12,
      ACS_VDDRET_CTRL_VDDCRET_VTRIM_Pos = 17,
      VDDMRET_ENABLE = 0x1,
      VDDCRET_DISABLE = 0x0,
      PWR_SLEEP_MODE = 0x2,
      WATCHDOG_REFRESH = 0x1,
      app_ptr = 0x20000000,
      stack_addr = 0x20010000,
      Wakeup_addr = 0x20000000,
      WakeupFromRAM_addr = 0x20000401\<rparr>"

text \<open>A configuration without and one with an application return address.\<close>

definition sleep_cfg_no_app :: sleep_mode_cfg where
  "sleep_cfg_no_app =
     \<lparr>ble_present = 0,
      vddret_ctrl = \<lparr>vddm_ret_trim = 3, vddt_ret = 0, vddacs_ret_trim = 3, vddc_ret_trim = 3\<rparr>,
      app_addr = 0\<rparr>"

definition sleep_cfg_app :: sleep_mode_cfg where
  "sleep_cfg_app = sleep_cfg_no_app\<lparr>app_addr := 0x00100801\<rparr>"

text \<open>A machine whose vector table is at \<open>0x00100000\<close>.\<close>

definition machine_vtor :: machine where
  "machine_vtor = machine0\<lparr>r32 := (\<lambda>_. 0)(SCB_VTOR := 0x00100000)\<rparr>"

text \<open>
  A wake-up initialisation that returns without touching the machine, and an application
  function that returns at once.
\<close>

definition wakeup_init_returns :: "sleep_mode_cfg \<Rightarrow> machine \<Rightarrow> machine option" where
  "wakeup_init_returns cfg s = Some s"

definition app_returns :: "uint32_t \<Rightarrow> machine \<Rightarrow> machine option" where
  "app_returns a s = Some s"
section \<open>Theorems\<close>

subsection \<open>Clock divider\<close>

lemma sysclk_div_floor:
  assumes "core \<noteq> 0" "freq \<noteq> 0"
  shows "unat (sysclk_div core freq) = floor_divisor (unat core) (unat freq)"
proof (cases "core mod freq = 0")
  case True
  then have m: "unat core mod unat freq = 0"
    by (metis unat_mod unat_0)
  have "unat freq \<le> unat core"
  proof (rule ccontr)
    assume "\<not> unat freq \<le> unat core"
    then have "unat core mod unat freq = unat core" by simp
    with m have "unat core = 0" by simp
    with assms(1) show False by (simp add: unat_eq_0)
  qed
  moreover have "0 < unat freq" using assms(2) by (simp add: unat_gt_0)
  ultimately have "0 < unat core div unat freq"
    by (simp add: div_greater_zero_iff)
  then have "1 \<le> unat core div unat freq" by simp
  then have "1 \<le> unat (core div freq)" by (simp add: unat_div)
  then have "unat (core div freq - 1) = unat (core div freq) - 1"
    by (metis unat_1 unat_sub word_le_nat_alt)
  with True m show ?thesis
    by (simp add: sysclk_div_def floor_divisor_def unat_div)
next
  case False
  then have "unat core mod unat freq \<noteq> 0"
    by (metis unat_mod unat_eq_0)
  with False show ?thesis
    by (simp add: sysclk_div_def floor_divisor_def unat_div)
qed


lemma DividerConfig_Some_nonzero:
  assumes "Sys_Clocks_DividerConfig hw uartclk_freq sensorclk_freq userclk_freq s = Some s'"
  shows "uartclk_freq \<noteq> 0" and "sensorclk_freq \<noteq> 0"
  using assms by (auto simp: Sys_Clocks_DividerConfig_def Let_def write32_def split: if_splits)

lemma DividerConfig_CFG0:
  assumes "Sys_Clocks_DividerConfig hw uartclk_freq sensorclk_freq userclk_freq s = Some s'"
  shows "r32 s' CLK_DIV_CFG0 =
           push_bit (CLK_DIV_CFG0_SLOWCLK_PRESCALE_Pos hw) (sysclk_div (SystemCoreClock s) 1000000) OR
           push_bit (CLK_DIV_CFG0_BBCLK_PRESCALE_Pos hw) (sysclk_div (SystemCoreClock s) 8000000) OR
           push_bit (CLK_DIV_CFG0_UARTCLK_PRESCALE_Pos hw) (sysclk_div (SystemCoreClock s) uartclk_freq)"
  using assms by (auto simp: Sys_Clocks_DividerConfig_def Let_def write32_def split: if_splits)

lemma DividerConfig_CFG1:
  assumes "Sys_Clocks_DividerConfig hw uartclk_freq sensorclk_freq userclk_freq s = Some s'"
  shows "r32 s' CLK_DIV_CFG1 =
           push_bit (CLK_DIV_CFG1_DCCLK_PRESCALE_Pos hw) (sysclk_div (SystemCoreClock s) 4000000) OR
           CPCLK_PRESCALE_6 hw OR
           push_bit (CLK_DIV_CFG1_SENSOR_CLK_PRESCALE_Pos hw)
             (if RSL15_CID_defined hw then sysclk_div (SystemCoreClock s) sensorclk_freq
              else sensorclk_div_log2 sensorclk_freq) OR
           (if r32 s ACS_VCC_CTRL AND push_bit (ACS_VCC_CTRL_BUCK_ENABLE_Pos hw) 1 = VCC_BUCK hw
            then DCCLK_ENABLE hw else DCCLK_DISABLE hw) OR
           CPCLK_ENABLE hw OR SENSOR_CLK_ENABLE hw"
  using assms by (auto simp: Sys_Clocks_DividerConfig_def Let_def write32_def split: if_splits)

lemma DividerConfig_CFG2_sysclk:
  assumes "Sys_Clocks_DividerConfig hw uartclk_freq sensorclk_freq userclk_freq s = Some s'"
    and "\<not> (SystemCoreClock s < userclk_freq \<and>
            r8 s RF0_ANALOG_INFO_ANALOG_INFO_BYTE AND ANALOG_INFO_CLK_DIG_READY_BYTE hw =
              ANALOG_INFO_CLK_DIG_READY_BYTE hw)"
  shows "r32 s' CLK_DIV_CFG2 = sysclk_div (SystemCoreClock s) userclk_freq OR USRCLK_SRC_SYSCLK hw"
    and "userclk_freq \<noteq> 0"
  using assms by (auto simp: Sys_Clocks_DividerConfig_def Let_def write32_def split: if_splits)

lemma DividerConfig_CFG2_rfclk:
  assumes "Sys_Clocks_DividerConfig hw uartclk_freq sensorclk_freq userclk_freq s = Some s'"
    and "SystemCoreClock s < userclk_freq \<and>
            r8 s RF0_ANALOG_INFO_ANALOG_INFO_BYTE AND ANALOG_INFO_CLK_DIG_READY_BYTE hw =
              ANALOG_INFO_CLK_DIG_READY_BYTE hw"
  shows "r32 s' CLK_DIV_CFG2 =
           userclk_div_rfclk (r8 s RF0_REG33_CK_DIV_1_6_CK_DIV_1_6_BYTE) (SystemCoreClock s) userclk_freq OR
           USRCLK_SRC_RFCLK hw"
  using assms by (auto simp: Sys_Clocks_DividerConfig_def Let_def write32_def split: if_splits)

text \<open>
  In the branch that sources USERCLK from the RF clock the test of line 133 is made on
  \<open>SystemCoreClock\<close>, which is below \<open>userclk_freq\<close> there, so the quotient of the RF
  clock is written as it is.
\<close>

lemma userclk_div_rfclk_quotient:
  assumes "core \<noteq> 0" "core < userclk_freq"
  shows "userclk_div_rfclk ck_div core userclk_freq =
           (word_of_int (48000000 div uint ck_div) :: uint32_t) div userclk_freq"
  using assms by (simp add: userclk_div_rfclk_def Let_def mod_word_less)

lemma floor_divisor_inexact:
  assumes "(a :: uint32_t) mod b \<noteq> 0"
  shows "unat (a div b) = floor_divisor (unat a) (unat b)"
proof -
  have "unat a mod unat b \<noteq> 0"
    using assms by (metis unat_mod unat_eq_0)
  then show ?thesis by (simp add: floor_divisor_def unat_div)
qed

text \<open>
  Claim C9, as stated, fails for USERCLK: with a core clock of 8 MHz, a requested user
  clock of 20 MHz and the RF clock ready (prescale byte 1), the function sources USERCLK
  from the RF clock and writes the divisor 2, the quotient of the 48 MHz RF clock by the
  target, where \<open>floor (8000000 / 20000000)\<close> is 0. Neither division is exact.
\<close>

theorem DividerConfig_userclk_rfclk_counterexample:
  "map_option (\<lambda>s. r32 s CLK_DIV_CFG2)
     (Sys_Clocks_DividerConfig clock_hw_sample 1000000 1000000 20000000
        (clock_machine_sample 8000000)) =
     Some (2 OR USRCLK_SRC_RFCLK clock_hw_sample)
   \<and> SystemCoreClock (clock_machine_sample 8000000) = 8000000
   \<and> floor_divisor 8000000 20000000 = 0
   \<and> (8000000 :: nat) mod 20000000 \<noteq> 0
   \<and> floor_divisor 48000000 20000000 = 2
   \<and> (48000000 :: nat) mod 20000000 \<noteq> 0"
  by (simp add: Sys_Clocks_DividerConfig_def clock_hw_sample_def clock_machine_sample_def
      machine0_def write32_def sysclk_div_def userclk_div_rfclk_def floor_divisor_def Let_def)

text \<open>
  Claim C9 (amended). Whenever \<open>Sys_Clocks_DividerConfig\<close> completes with a non-zero
  \<open>SystemCoreClock\<close>, the divisors of SLOWCLK (1 MHz), BBCLK (8 MHz), UARTCLK and DCCLK
  (4 MHz) that it writes to \<open>CLK->DIV_CFG0\<close> and \<open>CLK->DIV_CFG1\<close> equal
  \<open>floor (SystemCoreClock / target)\<close>, one less exactly when the division is exact; so
  does the SENSORCLK divisor on builds that define \<open>RSL15_CID\<close>, and the USERCLK
  divisor when USERCLK is sourced from the system clock. When USERCLK is sourced from the
  RF clock (the target exceeds \<open>SystemCoreClock\<close> and the RF clock is ready) and the RF
  clock, 48 MHz over the RF prescale byte, is not a whole multiple of the target, the
  divisor is \<open>floor (RF clock / target)\<close>. With \<open>SystemCoreClock = 48000000\<close> a UART target
  of 1000000 Hz gives the divisor 47 and a UART target of 900000 Hz gives 53.
\<close>

theorem Sys_Clocks_DividerConfig_divisors:
  assumes ok: "Sys_Clocks_DividerConfig hw uartclk_freq sensorclk_freq userclk_freq s = Some s'"
    and core: "SystemCoreClock s \<noteq> 0"
  shows "r32 s' CLK_DIV_CFG0 =
           push_bit (CLK_DIV_CFG0_SLOWCLK_PRESCALE_Pos hw) (sysclk_div (SystemCoreClock s) 1000000) OR
           push_bit (CLK_DIV_CFG0_BBCLK_PRESCALE_Pos hw) (sysclk_div (SystemCoreClock s) 8000000) OR
           push_bit (CLK_DIV_CFG0_UARTCLK_PRESCALE_Pos hw) (sysclk_div (SystemCoreClock s) uartclk_freq)
       \<and> unat (sysclk_div (SystemCoreClock s) 1000000) = floor_divisor (unat (SystemCoreClock s)) 1000000
       \<and> unat (sysclk_div (SystemCoreClock s) 8000000) = floor_divisor (unat (SystemCoreClock s)) 8000000
       \<and> unat (sysclk_div (SystemCoreClock s) uartclk_freq) =
           floor_divisor (unat (SystemCoreClock s)) (unat uartclk_freq)
       \<and> r32 s' CLK_DIV_CFG1 =
           push_bit (CLK_DIV_CFG1_DCCLK_PRESCALE_Pos hw) (sysclk_div (SystemCoreClock s) 4000000) OR
           CPCLK_PRESCALE_6 hw OR
           push_bit (CLK_DIV_CFG1_SENSOR_CLK_PRESCALE_Pos hw)
             (if RSL15_CID_defined hw then sysclk_div (SystemCoreClock s) sensorclk_freq
              else sensorclk_div_log2 sensorclk_freq) OR
           (if r32 s ACS_VCC_CTRL AND push_bit (ACS_VCC_CTRL_BUCK_ENABLE_Pos hw) 1 = VCC_BUCK hw
            then DCCLK_ENABLE hw else DCCLK_DISABLE hw) OR
           CPCLK_ENABLE hw OR SENSOR_CLK_ENABLE hw
       \<and> unat (sysclk_div (SystemCoreClock s) 4000000) = floor_divisor (unat (SystemCoreClock s)) 4000000
       \<and> unat (sysclk_div (SystemCoreClock s) sensorclk_freq) =
           floor_divisor (unat (SystemCoreClock s)) (unat sensorclk_freq)
       \<and> (if SystemCoreClock s < userclk_freq \<and>
            r8 s RF0_ANALOG_INFO_ANALOG_INFO_BYTE AND ANALOG_INFO_CLK_DIG_READY_BYTE hw =
              ANALOG_INFO_CLK_DIG_READY_BYTE hw
         then
           (word_of_int (48000000 div uint (r8 s RF0_REG33_CK_DIV_1_6_CK_DIV_1_6_BYTE)) :: uint32_t)
              mod userclk_freq \<noteq> 0 \<longrightarrow>
           r32 s' CLK_DIV_CFG2 =
             (word_of_int (48000000 div uint (r8 s RF0_REG33_CK_DIV_1_6_CK_DIV_1_6_BYTE)) :: uint32_t)
               div userclk_freq OR USRCLK_SRC_RFCLK hw \<and>
           unat ((word_of_int (48000000 div uint (r8 s RF0_REG33_CK_DIV_1_6_CK_DIV_1_6_BYTE)) :: uint32_t)
                   div userclk_freq) =
             floor_divisor
               (unat (word_of_int (48000000 div uint (r8 s RF0_REG33_CK_DIV_1_6_CK_DIV_1_6_BYTE)) :: uint32_t))
               (unat userclk_freq)
         else r32 s' CLK_DIV_CFG2 = sysclk_div (SystemCoreClock s) userclk_freq OR USRCLK_SRC_SYSCLK hw \<and>
              unat (sysclk_div (SystemCoreClock s) userclk_freq) =
                floor_divisor (unat (SystemCoreClock s)) (unat userclk_freq))
       \<and> sysclk_div 48000000 1000000 = 47 \<and> sysclk_div 48000000 900000 = 53"
proof (intro conjI)
  note nz = DividerConfig_Some_nonzero[OF ok]
  show "r32 s' CLK_DIV_CFG0 =
           push_bit (CLK_DIV_CFG0_SLOWCLK_PRESCALE_Pos hw) (sysclk_div (SystemCoreClock s) 1000000) OR
           push_bit (CLK_DIV_CFG0_BBCLK_PRESCALE_Pos hw) (sysclk_div (SystemCoreClock s) 8000000) OR
           push_bit (CLK_DIV_CFG0_UARTCLK_PRESCALE_Pos hw) (sysclk_div (SystemCoreClock s) uartclk_freq)"
    by (rule DividerConfig_CFG0[OF ok])
  show "unat (sysclk_div (SystemCoreClock s) 1000000) = floor_divisor (unat (SystemCoreClock s)) 1000000"
    using sysclk_div_floor[OF core, of 1000000] by simp
  show "unat (sysclk_div (SystemCoreClock s) 8000000) = floor_divisor (unat (SystemCoreClock s)) 8000000"
    using sysclk_div_floor[OF core, of 8000000] by simp
  show "unat (sysclk_div (SystemCoreClock s) uartclk_freq) =
           floor_divisor (unat (SystemCoreClock s)) (unat uartclk_freq)"
    by (rule sysclk_div_floor[OF core nz(1)])
  show "r32 s' CLK_DIV_CFG1 =
           push_bit (CLK_DIV_CFG1_DCCLK_PRESCALE_Pos hw) (sysclk_div (SystemCoreClock s) 4000000) OR
           CPCLK_PRESCALE_6 hw OR
           push_bit (CLK_DIV_CFG1_SENSOR_CLK_PRESCALE_Pos hw)
             (if RSL15_CID_defined hw then sysclk_div (SystemCoreClock s) sensorclk_freq
              else sensorclk_div_log2 sensorclk_freq) OR
           (if r32 s ACS_VCC_CTRL AND push_bit (ACS_VCC_CTRL_BUCK_ENABLE_Pos hw) 1 = VCC_BUCK hw
            then DCCLK_ENABLE hw else DCCLK_DISABLE hw) OR
           CPCLK_ENABLE hw OR SENSOR_CLK_ENABLE hw"
    by (rule DividerConfig_CFG1[OF ok])
  show "unat (sysclk_div (SystemCoreClock s) 4000000) = floor_divisor (unat (SystemCoreClock s)) 4000000"
    using sysclk_div_floor[OF core, of 4000000] by simp
  show "unat (sysclk_div (SystemCoreClock s) sensorclk_freq) =
           floor_divisor (unat (SystemCoreClock s)) (unat sensorclk_freq)"
    by (rule sysclk_div_floor[OF core nz(2)])
  show "if SystemCoreClock s < userclk_freq \<and>
            r8 s RF0_ANALOG_INFO_ANALOG_INFO_BYTE AND ANALOG_INFO_CLK_DIG_READY_BYTE hw =
              ANALOG_INFO_CLK_DIG_READY_BYTE hw
         then
           (word_of_int (48000000 div uint (r8 s RF0_REG33_CK_DIV_1_6_CK_DIV_1_6_BYTE)) :: uint32_t)
              mod userclk_freq \<noteq> 0 \<longrightarrow>
           r32 s' CLK_DIV_CFG2 =
             (word_of_int (48000000 div uint (r8 s RF0_REG33_CK_DIV_1_6_CK_DIV_1_6_BYTE)) :: uint32_t)
               div userclk_freq OR USRCLK_SRC_RFCLK hw \<and>
           unat ((word_of_int (48000000 div uint (r8 s RF0_REG33_CK_DIV_1_6_CK_DIV_1_6_BYTE)) :: uint32_t)
                   div userclk_freq) =
             floor_divisor
               (unat (word_of_int (48000000 div uint (r8 s RF0_REG33_CK_DIV_1_6_CK_DIV_1_6_BYTE)) :: uint32_t))
               (unat userclk_freq)
         else r32 s' CLK_DIV_CFG2 = sysclk_div (SystemCoreClock s) userclk_freq OR USRCLK_SRC_SYSCLK hw \<and>
              unat (sysclk_div (SystemCoreClock s) userclk_freq) =
                floor_divisor (unat (SystemCoreClock s)) (unat userclk_freq)"
  proof (cases "SystemCoreClock s < userclk_freq \<and>
            r8 s RF0_ANALOG_INFO_ANALOG_INFO_BYTE AND ANALOG_INFO_CLK_DIG_READY_BYTE hw =
              ANALOG_INFO_CLK_DIG_READY_BYTE hw")
    case True
    then have lt: "SystemCoreClock s < userclk_freq" by simp
    have "r32 s' CLK_DIV_CFG2 =
             (word_of_int (48000000 div uint (r8 s RF0_REG33_CK_DIV_1_6_CK_DIV_1_6_BYTE)) :: uint32_t)
               div userclk_freq OR USRCLK_SRC_RFCLK hw"
      using DividerConfig_CFG2_rfclk[OF ok True] userclk_div_rfclk_quotient[OF core lt] by simp
    then show ?thesis unfolding if_P[OF True] using floor_divisor_inexact by blast
  next
    case False
    show ?thesis
      unfolding if_not_P[OF False]
      using DividerConfig_CFG2_sysclk[OF ok False] sysclk_div_floor[OF core, of userclk_freq]
      by simp
  qed
  show "sysclk_div 48000000 1000000 = 47"
    by (simp add: sysclk_div_def)
  show "sysclk_div 48000000 900000 = 53"
    by (simp add: sysclk_div_def)
qed

theorem Sys_Clocks_DividerConfig_divisors_witness:
  "Sys_Clocks_DividerConfig clock_hw_sample 1000000 32000 1000000 (clock_machine_sample 48000000) =
     Some (write32 CLK_DIV_CFG2 47 (write32 CLK_DIV_CFG1 98272523 (write32 CLK_DIV_CFG0 3081519
             (clock_machine_sample 48000000))))
   \<and> SystemCoreClock (clock_machine_sample 48000000) \<noteq> 0
   \<and> unat (sysclk_div (SystemCoreClock (clock_machine_sample 48000000)) 1000000) = 47
   \<and> floor_divisor 48000000 900000 = 53
   \<and> SystemCoreClock (clock_machine_sample 8000000) \<noteq> 0
   \<and> (48000000 :: uint32_t) mod 20000000 \<noteq> 0
   \<and> map_option (\<lambda>s. r32 s CLK_DIV_CFG2)
        (Sys_Clocks_DividerConfig clock_hw_sample 1000000 32000 20000000
           (clock_machine_sample 8000000)) =
        Some (2 OR USRCLK_SRC_RFCLK clock_hw_sample)
   \<and> floor_divisor 48000000 20000000 = 2"
proof -
  have ok: "Sys_Clocks_DividerConfig clock_hw_sample 1000000 32000 1000000
              (clock_machine_sample 48000000) =
            Some (write32 CLK_DIV_CFG2 47 (write32 CLK_DIV_CFG1 98272523 (write32 CLK_DIV_CFG0 3081519
              (clock_machine_sample 48000000))))"
    by (simp add: Sys_Clocks_DividerConfig_def clock_hw_sample_def clock_machine_sample_def
        machine0_def write32_def sysclk_div_def Let_def)
  have core: "SystemCoreClock (clock_machine_sample 48000000) \<noteq> 0"
    by (simp add: clock_machine_sample_def machine0_def)
  from Sys_Clocks_DividerConfig_divisors[OF ok core] ok core
  have a: "Sys_Clocks_DividerConfig clock_hw_sample 1000000 32000 1000000 (clock_machine_sample 48000000) =
     Some (write32 CLK_DIV_CFG2 47 (write32 CLK_DIV_CFG1 98272523 (write32 CLK_DIV_CFG0 3081519
             (clock_machine_sample 48000000))))
   \<and> SystemCoreClock (clock_machine_sample 48000000) \<noteq> 0
   \<and> unat (sysclk_div (SystemCoreClock (clock_machine_sample 48000000)) 1000000) = 47
   \<and> floor_divisor 48000000 900000 = 53"
    by (simp add: floor_divisor_def clock_machine_sample_def machine0_def)
  have "\<exists>s2. Sys_Clocks_DividerConfig clock_hw_sample 1000000 32000 20000000
                (clock_machine_sample 8000000) = Some s2"
    by (simp add: Sys_Clocks_DividerConfig_def clock_hw_sample_def clock_machine_sample_def
        machine0_def write32_def Let_def)
  then obtain s2 where ok2: "Sys_Clocks_DividerConfig clock_hw_sample 1000000 32000 20000000
                (clock_machine_sample 8000000) = Some s2" by (elim exE)
  have core2: "SystemCoreClock (clock_machine_sample 8000000) \<noteq> 0"
    by (simp add: clock_machine_sample_def machine0_def)
  have rf: "SystemCoreClock (clock_machine_sample 8000000) < 20000000 \<and>
            r8 (clock_machine_sample 8000000) RF0_ANALOG_INFO_ANALOG_INFO_BYTE AND
              ANALOG_INFO_CLK_DIG_READY_BYTE clock_hw_sample =
              ANALOG_INFO_CLK_DIG_READY_BYTE clock_hw_sample"
    by (simp add: clock_machine_sample_def machine0_def clock_hw_sample_def)
  have ck: "r8 (clock_machine_sample 8000000) RF0_REG33_CK_DIV_1_6_CK_DIV_1_6_BYTE = 1"
    by (simp add: clock_machine_sample_def machine0_def)
  have ne: "(48000000 :: uint32_t) mod 20000000 \<noteq> 0" by simp
  from Sys_Clocks_DividerConfig_divisors[OF ok2 core2] rf ck ne
  have "r32 s2 CLK_DIV_CFG2 = 2 OR USRCLK_SRC_RFCLK clock_hw_sample"
    by simp
  then have b: "map_option (\<lambda>s. r32 s CLK_DIV_CFG2)
        (Sys_Clocks_DividerConfig clock_hw_sample 1000000 32000 20000000
           (clock_machine_sample 8000000)) =
        Some (2 OR USRCLK_SRC_RFCLK clock_hw_sample)"
    using ok2 by simp
  have c: "floor_divisor 48000000 20000000 = 2" by (simp add: floor_divisor_def)
  from a b c core2 ne show ?thesis by simp
qed
subsection \<open>Sys_Trim_GetTrim\<close>

lemma hi_byte_16: "drop_bit 8 (x :: uint16_t) AND 0xFF = drop_bit 8 x"
proof -
  have f: "(0xFF :: uint16_t) = mask 8" by (simp add: mask_eq_exp_minus_1)
  show ?thesis unfolding f
    by (rule bit_eqI) (auto simp: bit_simps dest: bit_imp_le_length)
qed

lemma lo_byte_16: "(x :: uint16_t) AND 0xFF00 = 0 \<Longrightarrow> x AND 0xFF = x"
proof -
  assume a: "x AND 0xFF00 = 0"
  have e: "(0xFF00 :: uint16_t) = push_bit 8 (mask 8)" by (simp add: mask_eq_exp_minus_1)
  have f: "(0xFF :: uint16_t) = mask 8" by (simp add: mask_eq_exp_minus_1)
  have b: "\<not> bit (x AND push_bit 8 (mask 8)) n" for n using a e by simp
  have h: "\<not> bit x n" if "8 \<le> n" for n
  proof
    assume bx: "bit x n"
    then have "n < 16" by (auto dest: bit_imp_le_length)
    with bx that have "bit (x AND push_bit 8 (mask 8)) n"
      by (auto simp: bit_simps)
    with b show False by blast
  qed
  show ?thesis unfolding f
    by (rule bit_eqI) (use h in \<open>auto simp: bit_simps not_le[symmetric]\<close>)
qed

lemma le_FF_16: "\<not> 0xFF < (x :: uint16_t) \<Longrightarrow> x AND 0xFF = x"
proof -
  assume "\<not> 0xFF < x"
  then have "x < 2 ^ 8" by (simp add: not_less word_le_nat_alt word_less_nat_alt)
  then have "x AND mask 8 = x" by (rule less_mask_eq)
  then show ?thesis by (simp add: mask_eq_exp_minus_1)
qed

lemma ucast_hi_16:
  "(ucast (drop_bit 16 (w :: uint32_t) AND TRIM_16_BIT_TRIM_MASK) :: uint16_t) = ucast (drop_bit 16 w)"
proof -
  have f: "(0xFFFF :: uint32_t) = mask 16" by (simp add: mask_eq_exp_minus_1)
  show ?thesis unfolding TRIM_16_BIT_TRIM_MASK_def f
    by (rule bit_eqI) (auto simp: bit_simps)
qed

lemma ucast_lo_16: "(ucast ((w :: uint32_t) AND TRIM_16_BIT_TRIM_MASK) :: uint16_t) = ucast w"
proof -
  have f: "(0xFFFF :: uint32_t) = mask 16" by (simp add: mask_eq_exp_minus_1)
  show ?thesis unfolding TRIM_16_BIT_TRIM_MASK_def f
    by (rule bit_eqI) (auto simp: bit_simps)
qed

text \<open>On a word that is not a sentinel the loop body follows the decoding rules.\<close>

lemma GetTrim_iter_nonsentinel:
  assumes "\<not> is_sentinel w"
  shows "GetTrim_iter w key =
     (case spec_record_lookup key w of
        Some v \<Rightarrow> (ERROR_NO_ERROR, v, True)
      | None \<Rightarrow> (ERROR_NO_TRIM_FOUND, 0xFFFF, False))"
  using assms
  by (auto simp: GetTrim_iter_def spec_record_lookup_def is_sentinel_def Let_def
      ucast_hi_16 ucast_lo_16 hi_byte_16 lo_byte_16 le_FF_16 MAX_8_BIT_def
      ERROR_NO_ERROR_def ERROR_INVALID_TRIM_def)

text \<open>
  A sentinel word takes the last branch of the loop body: it is compared with the key by
  the low byte of its target half, so only the keys 0 and \<open>0xFF\<close> can match it.
\<close>

lemma GetTrim_iter_zero:
  "GetTrim_iter 0 key =
     (if key = 0 then (ERROR_NO_ERROR, 0, True) else (ERROR_NO_TRIM_FOUND, 0xFFFF, False))"
  by (simp add: GetTrim_iter_def Let_def MIN_32_BIT_def MAX_32_BIT_def
      TRIM_16_BIT_TRIM_MASK_def MAX_8_BIT_def ERROR_NO_ERROR_def ERROR_INVALID_TRIM_def)

lemma GetTrim_iter_ones:
  "GetTrim_iter 0xFFFFFFFF key =
     (if key = 0xFF then (ERROR_NO_ERROR, 0xFFFF, True) else (ERROR_NO_TRIM_FOUND, 0xFFFF, False))"
  by (simp add: GetTrim_iter_def Let_def MIN_32_BIT_def MAX_32_BIT_def
      TRIM_16_BIT_TRIM_MASK_def MAX_8_BIT_def ERROR_NO_ERROR_def ERROR_INVALID_TRIM_def)

lemma GetTrim_iter_sentinel:
  assumes "is_sentinel w" "key \<noteq> 0" "key \<noteq> 0xFF"
  shows "GetTrim_iter w key = (ERROR_NO_TRIM_FOUND, 0xFFFF, False)"
proof -
  from assms(1) have "w = 0 \<or> w = 0xFFFFFFFF"
    by (simp add: is_sentinel_def MIN_32_BIT_def MAX_32_BIT_def)
  then show ?thesis using assms(2,3) by (auto simp: GetTrim_iter_zero GetTrim_iter_ones)
qed

lemma GetTrim_iter_cases:
  "GetTrim_iter w key = (ERROR_NO_TRIM_FOUND, 0xFFFF, False) \<or>
   (\<exists>v. GetTrim_iter w key = (ERROR_NO_ERROR, v, True))"
proof (cases "is_sentinel w")
  case True
  then have "w = 0 \<or> w = 0xFFFFFFFF"
    by (simp add: is_sentinel_def MIN_32_BIT_def MAX_32_BIT_def)
  then show ?thesis by (auto simp: GetTrim_iter_zero GetTrim_iter_ones)
next
  case False
  then show ?thesis
    by (cases "spec_record_lookup key w") (simp_all add: GetTrim_iter_nonsentinel)
qed

text \<open>The loop when no remaining record leaves it through \<open>break\<close>.\<close>

lemma GetTrim_loop_no_match:
  assumes "\<And>j. i \<le> j \<Longrightarrow> j < i + n \<Longrightarrow>
             GetTrim_iter (addr j) key = (ERROR_NO_TRIM_FOUND, 0xFFFF, False)"
    and "0 < n"
  shows "GetTrim_loop addr key i n st = (Some ERROR_NO_TRIM_FOUND, 0xFFFF)"
  using assms
proof (induction n arbitrary: i st)
  case 0
  then show ?case by simp
next
  case (Suc n)
  obtain rv tv where st: "st = (rv, tv)" by (cases st)
  have here: "GetTrim_iter (addr i) key = (ERROR_NO_TRIM_FOUND, 0xFFFF, False)"
    using Suc.prems(1)[of i] by simp
  show ?case
  proof (cases "n = 0")
    case True
    then show ?thesis using here st by simp
  next
    case False
    have "GetTrim_loop addr key (Suc i) n (Some ERROR_NO_TRIM_FOUND, 0xFFFF) =
            (Some ERROR_NO_TRIM_FOUND, 0xFFFF)"
      using Suc.IH[of "Suc i"] Suc.prems(1) False by simp
    then show ?thesis using here st by simp
  qed
qed

text \<open>The loop when record \<open>k\<close> is the first that leaves it through \<open>break\<close>.\<close>

lemma GetTrim_loop_first_match:
  assumes "\<And>j. i \<le> j \<Longrightarrow> j < k \<Longrightarrow>
             GetTrim_iter (addr j) key = (ERROR_NO_TRIM_FOUND, 0xFFFF, False)"
    and "GetTrim_iter (addr k) key = (ERROR_NO_ERROR, v, True)"
    and "i \<le> k" "k < i + n"
  shows "GetTrim_loop addr key i n st = (Some ERROR_NO_ERROR, v)"
  using assms
proof (induction n arbitrary: i st)
  case 0
  then show ?case by simp
next
  case (Suc n)
  obtain rv tv where st: "st = (rv, tv)" by (cases st)
  show ?case
  proof (cases "i = k")
    case True
    then show ?thesis using Suc.prems(2) st by simp
  next
    case False
    then have lt: "i < k" using Suc.prems(3) by simp
    have here: "GetTrim_iter (addr i) key = (ERROR_NO_TRIM_FOUND, 0xFFFF, False)"
      using Suc.prems(1)[of i] lt by simp
    have "GetTrim_loop addr key (Suc i) n (Some ERROR_NO_TRIM_FOUND, 0xFFFF) = (Some ERROR_NO_ERROR, v)"
      using Suc.IH[of "Suc i"] Suc.prems lt by simp
    then show ?thesis using here st by simp
  qed
qed

text \<open>After at least one iteration the returned value is one of two codes.\<close>

lemma GetTrim_loop_ret:
  assumes "0 < n"
  shows "fst (GetTrim_loop addr key i n st) = Some ERROR_NO_TRIM_FOUND \<or>
         fst (GetTrim_loop addr key i n st) = Some ERROR_NO_ERROR"
  using assms
proof (induction n arbitrary: i st)
  case 0
  then show ?case by simp
next
  case (Suc n)
  obtain rv tv where st: "st = (rv, tv)" by (cases st)
  from GetTrim_iter_cases[of "addr i" key] show ?case
  proof
    assume here: "GetTrim_iter (addr i) key = (ERROR_NO_TRIM_FOUND, 0xFFFF, False)"
    show ?thesis
    proof (cases "n = 0")
      case True
      then show ?thesis using here st by simp
    next
      case False
      then show ?thesis using here st Suc.IH[of "Suc i" "(Some ERROR_NO_TRIM_FOUND, 0xFFFF)"] by simp
    qed
  next
    assume "\<exists>v. GetTrim_iter (addr i) key = (ERROR_NO_ERROR, v, True)"
    then show ?thesis using st by auto
  qed
qed

lemma GetTrim_skip:
  assumes "key \<noteq> 0" "key \<noteq> 0xFF"
    and "is_sentinel w \<or> spec_record_lookup key w = None"
  shows "GetTrim_iter w key = (ERROR_NO_TRIM_FOUND, 0xFFFF, False)"
proof (cases "is_sentinel w")
  case True
  then show ?thesis using assms(1,2) by (rule GetTrim_iter_sentinel)
next
  case False
  with assms(3) have "spec_record_lookup key w = None" by simp
  with False show ?thesis by (simp add: GetTrim_iter_nonsentinel)
qed

lemma GetTrim_no_match:
  assumes "0 < unat record_length" "key \<noteq> 0" "key \<noteq> 0xFF"
    and "\<And>j. j < unat record_length \<Longrightarrow> is_sentinel (addr j) \<or> spec_record_lookup key (addr j) = None"
  shows "Sys_Trim_GetTrim (Some addr) key record_length (Some tv) =
           (Some ERROR_NO_TRIM_FOUND, Some 0xFFFF)"
proof -
  have "GetTrim_loop addr key 0 (unat record_length) (None, tv) = (Some ERROR_NO_TRIM_FOUND, 0xFFFF)"
    by (rule GetTrim_loop_no_match) (use assms in \<open>auto intro: GetTrim_skip\<close>)
  then show ?thesis by (simp add: Sys_Trim_GetTrim_def)
qed

lemma GetTrim_unique_match:
  assumes "key \<noteq> 0" "key \<noteq> 0xFF"
    and "i < unat record_length" "\<not> is_sentinel (addr i)" "spec_record_lookup key (addr i) = Some v"
    and "\<And>j. j < unat record_length \<Longrightarrow> j \<noteq> i \<Longrightarrow>
           is_sentinel (addr j) \<or> spec_record_lookup key (addr j) = None"
  shows "Sys_Trim_GetTrim (Some addr) key record_length (Some tv) = (Some ERROR_NO_ERROR, Some v)"
proof -
  have "GetTrim_loop addr key 0 (unat record_length) (None, tv) = (Some ERROR_NO_ERROR, v)"
  proof (rule GetTrim_loop_first_match[where k = i])
    show "GetTrim_iter (addr i) key = (ERROR_NO_ERROR, v, True)"
      using assms(4,5) by (simp add: GetTrim_iter_nonsentinel)
    show "GetTrim_iter (addr j) key = (ERROR_NO_TRIM_FOUND, 0xFFFF, False)" if "0 \<le> j" "j < i" for j
      using that assms(1,2,3) assms(6)[of j] by (auto intro: GetTrim_skip)
  qed (use assms(3) in auto)
  then show ?thesis by (simp add: Sys_Trim_GetTrim_def)
qed

lemma GetTrim_never_invalid_trim:
  assumes "0 < unat record_length"
  shows "fst (Sys_Trim_GetTrim (Some addr) key record_length (Some tv)) \<noteq> Some ERROR_INVALID_TRIM"
  using GetTrim_loop_ret[OF assms, of addr key 0 "(None, tv)"]
  by (auto simp: Sys_Trim_GetTrim_def ERROR_INVALID_TRIM_def ERROR_NO_TRIM_FOUND_def
      ERROR_NO_ERROR_def split: prod.splits)


text \<open>
  For a key other than 0 and \<open>0xFF\<close> and at least one record to scan, the lookup clauses
  of claim C6 hold: a single matching record that is not a sentinel gives its trim and
  \<open>ERROR_NO_ERROR\<close>, and a table without such a record gives \<open>ERROR_NO_TRIM_FOUND\<close>.
\<close>

lemma GetTrim_lookup_ordinary_keys:
  assumes "0 < unat record_length" "key \<noteq> 0" "key \<noteq> 0xFF"
  shows
    "(\<forall>i v. i < unat record_length \<and> \<not> is_sentinel (addr i) \<and>
            spec_record_lookup key (addr i) = Some v \<and>
            (\<forall>j < unat record_length. j \<noteq> i \<longrightarrow>
               is_sentinel (addr j) \<or> spec_record_lookup key (addr j) = None) \<longrightarrow>
       Sys_Trim_GetTrim (Some addr) key record_length (Some tv) = (Some ERROR_NO_ERROR, Some v))
     \<and> ((\<forall>j < unat record_length.
            is_sentinel (addr j) \<or> spec_record_lookup key (addr j) = None) \<longrightarrow>
       Sys_Trim_GetTrim (Some addr) key record_length (Some tv) =
         (Some ERROR_NO_TRIM_FOUND, Some 0xFFFF))"
proof (intro conjI allI impI)
  fix i v
  assume a: "i < unat record_length \<and> \<not> is_sentinel (addr i) \<and>
            spec_record_lookup key (addr i) = Some v \<and>
            (\<forall>j < unat record_length. j \<noteq> i \<longrightarrow>
               is_sentinel (addr j) \<or> spec_record_lookup key (addr j) = None)"
  show "Sys_Trim_GetTrim (Some addr) key record_length (Some tv) = (Some ERROR_NO_ERROR, Some v)"
    by (rule GetTrim_unique_match[where i = i]) (use assms a in auto)
next
  assume "\<forall>j < unat record_length. is_sentinel (addr j) \<or> spec_record_lookup key (addr j) = None"
  then show "Sys_Trim_GetTrim (Some addr) key record_length (Some tv) =
         (Some ERROR_NO_TRIM_FOUND, Some 0xFFFF)"
    using assms by (intro GetTrim_no_match) auto
qed

text \<open>A sentinel word in the first record is matched by the key it shares a low byte with.\<close>

lemma GetTrim_first_record_zero:
  assumes "0 < unat record_length" "addr 0 = MIN_32_BIT"
  shows "Sys_Trim_GetTrim (Some addr) 0 record_length (Some tv) = (Some ERROR_NO_ERROR, Some 0)"
proof -
  obtain n where n: "unat record_length = Suc n"
    using assms(1) by (cases "unat record_length") simp_all
  show ?thesis
    using assms(2) by (simp add: Sys_Trim_GetTrim_def n GetTrim_iter_zero MIN_32_BIT_def)
qed

lemma GetTrim_first_record_ones:
  assumes "0 < unat record_length" "addr 0 = MAX_32_BIT"
  shows "Sys_Trim_GetTrim (Some addr) 0xFF record_length (Some tv) =
           (Some ERROR_NO_ERROR, Some 0xFFFF)"
proof -
  obtain n where n: "unat record_length = Suc n"
    using assms(1) by (cases "unat record_length") simp_all
  show ?thesis
    using assms(2) by (simp add: Sys_Trim_GetTrim_def n GetTrim_iter_ones MAX_32_BIT_def)
qed

text \<open>
  The code against claim C6 at a table of one erased record (all ones) looked up with the
  key \<open>0x73\<close>: the call returns \<open>ERROR_NO_TRIM_FOUND\<close>, not \<open>ERROR_INVALID_TRIM\<close>, because
  the loop body overwrites the \<open>ERROR_INVALID_TRIM\<close> it assigned for the sentinel word.
  At a table of one zero word looked up with the key 0 the call returns \<open>ERROR_NO_ERROR\<close>
  with the trim 0, not \<open>ERROR_NO_TRIM_FOUND\<close>.
\<close>

theorem GetTrim_sentinel_counterexample:
  "Sys_Trim_GetTrim (Some table_ones) 0x73 1 (Some 0) = (Some ERROR_NO_TRIM_FOUND, Some 0xFFFF)
   \<and> ERROR_NO_TRIM_FOUND \<noteq> ERROR_INVALID_TRIM
   \<and> is_sentinel (table_ones 0)
   \<and> Sys_Trim_GetTrim (Some table_zero) 0 1 (Some 0x1234) = (Some ERROR_NO_ERROR, Some 0)
   \<and> is_sentinel (table_zero 0)
   \<and> ERROR_NO_ERROR \<noteq> ERROR_NO_TRIM_FOUND"
  by (simp add: Sys_Trim_GetTrim_def table_ones_def table_zero_def GetTrim_iter_zero
      GetTrim_iter_ones is_sentinel_def MIN_32_BIT_def MAX_32_BIT_def
      ERROR_NO_TRIM_FOUND_def ERROR_INVALID_TRIM_def ERROR_NO_ERROR_def)

text \<open>
  Claim C6. \<open>Sys_Trim_GetTrim\<close> is to return \<open>ERROR_INVALID_TRIM\<close> for a record that is
  itself a sentinel, and \<open>ERROR_NO_TRIM_FOUND\<close> for every lookup in an empty table or a
  table of sentinel words. The code assigns \<open>ERROR_INVALID_TRIM\<close> for a sentinel word
  (lines 472-475) and guards the first two decoding branches with
  \<open>ret_val == ERROR_NO_ERROR\<close>, but the last branch is not guarded and overwrites the value.
  So, for every table and output pointer that are not \<open>NULL\<close>:
  \<^item> with at least one record to scan the call never returns \<open>ERROR_INVALID_TRIM\<close>; a
    table of sentinel words looked up with a key other than 0 and \<open>0xFF\<close> gives
    \<open>ERROR_NO_TRIM_FOUND\<close>;
  \<^item> an all-zero first record is taken as a match of the key 0, and an all-one first
    record as a match of the key \<open>0xFF\<close>: the call returns \<open>ERROR_NO_ERROR\<close> and stores the
    sentinel half-word as the trim;
  \<^item> with no record to scan (\<open>record_length = 0\<close>) the call returns \<open>ret_val\<close>
    uninitialised and leaves \<open>*trim_val\<close> as it was.
\<close>

theorem Sys_Trim_GetTrim_sentinel_record:
  "(0 < unat record_length \<longrightarrow>
      fst (Sys_Trim_GetTrim (Some addr) key record_length (Some tv)) \<noteq> Some ERROR_INVALID_TRIM
      \<and> ((\<forall>j < unat record_length. is_sentinel (addr j)) \<and> key \<noteq> 0 \<and> key \<noteq> 0xFF \<longrightarrow>
           Sys_Trim_GetTrim (Some addr) key record_length (Some tv) =
             (Some ERROR_NO_TRIM_FOUND, Some 0xFFFF))
      \<and> (addr 0 = MIN_32_BIT \<longrightarrow>
           Sys_Trim_GetTrim (Some addr) 0 record_length (Some tv) = (Some ERROR_NO_ERROR, Some 0))
      \<and> (addr 0 = MAX_32_BIT \<longrightarrow>
           Sys_Trim_GetTrim (Some addr) 0xFF record_length (Some tv) =
             (Some ERROR_NO_ERROR, Some 0xFFFF)))
   \<and> Sys_Trim_GetTrim (Some addr) key 0 (Some tv) = (None, Some tv)"
proof (intro conjI impI)
  assume n: "0 < unat record_length"
  show "fst (Sys_Trim_GetTrim (Some addr) key record_length (Some tv)) \<noteq> Some ERROR_INVALID_TRIM"
    by (rule GetTrim_never_invalid_trim[OF n])
  show "Sys_Trim_GetTrim (Some addr) key record_length (Some tv) =
          (Some ERROR_NO_TRIM_FOUND, Some 0xFFFF)"
    if "(\<forall>j < unat record_length. is_sentinel (addr j)) \<and> key \<noteq> 0 \<and> key \<noteq> 0xFF"
    using that n by (intro GetTrim_no_match) auto
  show "Sys_Trim_GetTrim (Some addr) 0 record_length (Some tv) = (Some ERROR_NO_ERROR, Some 0)"
    if "addr 0 = MIN_32_BIT"
    using n that by (rule GetTrim_first_record_zero[where addr = addr])
  show "Sys_Trim_GetTrim (Some addr) 0xFF record_length (Some tv) =
          (Some ERROR_NO_ERROR, Some 0xFFFF)"
    if "addr 0 = MAX_32_BIT"
    using n that by (rule GetTrim_first_record_ones[where addr = addr])
next
  show "Sys_Trim_GetTrim (Some addr) key 0 (Some tv) = (None, Some tv)"
    by (simp add: Sys_Trim_GetTrim_def)
qed

theorem Sys_Trim_GetTrim_sentinel_record_witness:
  "0 < unat (1 :: uint32_t)
   \<and> is_sentinel (table_ones 0) \<and> table_ones 0 = MAX_32_BIT \<and> table_zero 0 = MIN_32_BIT
   \<and> fst (Sys_Trim_GetTrim (Some table_ones) 0x73 1 (Some 0)) \<noteq> Some ERROR_INVALID_TRIM
   \<and> Sys_Trim_GetTrim (Some table_ones) 0x73 1 (Some 0) = (Some ERROR_NO_TRIM_FOUND, Some 0xFFFF)
   \<and> Sys_Trim_GetTrim (Some table_zero) 0 1 (Some 0x1234) = (Some ERROR_NO_ERROR, Some 0)
   \<and> Sys_Trim_GetTrim (Some table_ones) 0xFF 1 (Some 0) = (Some ERROR_NO_ERROR, Some 0xFFFF)
   \<and> Sys_Trim_GetTrim (Some table_ones) 0x73 0 (Some 0x1234) = (None, Some 0x1234)"
proof -
  have n: "0 < unat (1 :: uint32_t)" by simp
  have o: "table_ones 0 = MAX_32_BIT" by (simp add: table_ones_def MAX_32_BIT_def)
  have z: "table_zero 0 = MIN_32_BIT" by (simp add: table_zero_def MIN_32_BIT_def)
  have so: "\<forall>j < unat (1 :: uint32_t). is_sentinel (table_ones j)"
    by (simp add: is_sentinel_def table_ones_def MAX_32_BIT_def)
  have k: "(0x73 :: uint16_t) \<noteq> 0 \<and> (0x73 :: uint16_t) \<noteq> 0xFF" by simp
  note a = Sys_Trim_GetTrim_sentinel_record[of 1 table_ones "0x73" 0]
  note b = Sys_Trim_GetTrim_sentinel_record[of 1 table_zero 0 "0x1234"]
  note c = Sys_Trim_GetTrim_sentinel_record[of 1 table_ones "0x73" "0x1234"]
  from a n so k have
    "fst (Sys_Trim_GetTrim (Some table_ones) 0x73 1 (Some 0)) \<noteq> Some ERROR_INVALID_TRIM"
    "Sys_Trim_GetTrim (Some table_ones) 0x73 1 (Some 0) = (Some ERROR_NO_TRIM_FOUND, Some 0xFFFF)"
    "Sys_Trim_GetTrim (Some table_ones) 0xFF 1 (Some 0) = (Some ERROR_NO_ERROR, Some 0xFFFF)"
    using o by blast+
  moreover from b n z have
    "Sys_Trim_GetTrim (Some table_zero) 0 1 (Some 0x1234) = (Some ERROR_NO_ERROR, Some 0)"
    by blast
  moreover from c have
    "Sys_Trim_GetTrim (Some table_ones) 0x73 0 (Some 0x1234) = (None, Some 0x1234)"
    by blast
  moreover have "is_sentinel (table_ones 0)"
    by (simp add: is_sentinel_def table_ones_def MAX_32_BIT_def)
  ultimately show ?thesis using n o z by simp
qed

subsection \<open>Sys_Trim_LoadVDDC\<close>

lemma ucast_trim_byte:
  "(ucast ((ucast (t :: uint16_t) :: uint32_t) AND TRIM_8_BIT_TRIM_MASK) :: uint8_t) = ucast t"
proof -
  have f: "(0xFF :: uint32_t) = mask 8" by (simp add: mask_eq_exp_minus_1)
  show ?thesis unfolding TRIM_8_BIT_TRIM_MASK_def f
    by (rule bit_eqI) (auto simp: bit_simps)
qed

lemma stby_and_vddc: "ERROR_VDDC_STBY_INVALID AND ERROR_VDDC_INVALID = 0"
  "ERROR_VDDC_INVALID AND ERROR_VDDC_STBY_INVALID = 0"
  "ERROR_VDDC_INVALID \<noteq> 0" "ERROR_VDDC_STBY_INVALID \<noteq> 0"
  by (simp_all add: ERROR_VDDC_STBY_INVALID_def ERROR_VDDC_INVALID_def)

lemma LoadVDDC_normal_only:
  assumes "Sys_Trim_GetTrim (Some (vddc tr)) (ucast target) (TRIM_RECORDS hw) (Some 0) =
             (Some ERROR_NO_ERROR, Some v)"
    and "Sys_Trim_GetTrim (Some (vddc tr)) (ucast target_standby) (TRIM_RECORDS hw) (Some 0) =
             (Some e, Some v')"
    and "e \<noteq> ERROR_NO_ERROR"
  shows "Sys_Trim_LoadVDDC hw (Some tr) target target_standby s =
           Some (ERROR_VDDC_STBY_INVALID, write8 ACS_VDDC_CTRL_VTRIM_BYTE (ucast v) s)"
  using assms
  by (simp add: Sys_Trim_LoadVDDC_def Sys_Trim_LoadVDDC_private_def Let_def ucast_trim_byte
      stby_and_vddc ERROR_NO_ERROR_def)

lemma LoadVDDC_standby_only:
  assumes "Sys_Trim_GetTrim (Some (vddc tr)) (ucast target) (TRIM_RECORDS hw) (Some 0) =
             (Some e, Some v)"
    and "e \<noteq> ERROR_NO_ERROR"
    and "Sys_Trim_GetTrim (Some (vddc tr)) (ucast target_standby) (TRIM_RECORDS hw) (Some 0) =
             (Some ERROR_NO_ERROR, Some v')"
  shows "Sys_Trim_LoadVDDC hw (Some tr) target target_standby s =
           Some (ERROR_VDDC_INVALID, write8 ACS_VDDC_CTRL_STANDBY_VTRIM_BYTE (ucast v') s)"
  using assms
  by (simp add: Sys_Trim_LoadVDDC_def Sys_Trim_LoadVDDC_private_def Let_def ucast_trim_byte
      stby_and_vddc ERROR_NO_ERROR_def)

lemma vddc_sample_normal:
  "Sys_Trim_GetTrim (Some (vddc trim_region_vddc_normal_only)) (ucast TARGET_VDDC_1150)
     (TRIM_RECORDS trim_hw_sample) (Some 0) = (Some ERROR_NO_ERROR, Some 0x2A)"
proof -
  have "Sys_Trim_GetTrim (Some table_vddc_normal_only) 0x73 4 (Some 0) =
          (Some ERROR_NO_ERROR, Some 0x2A)"
    by (rule GetTrim_unique_match[where i = 1])
       (simp_all add: table_vddc_normal_only_def is_sentinel_def MIN_32_BIT_def MAX_32_BIT_def
          spec_record_lookup_def Let_def)
  then show ?thesis
    by (simp add: trim_region_vddc_normal_only_def trim_region_erased_def TARGET_VDDC_1150_def
        trim_hw_sample_def)
qed

lemma vddc_sample_standby:
  "Sys_Trim_GetTrim (Some (vddc trim_region_vddc_normal_only)) (ucast TARGET_VDDC_STANDBY)
     (TRIM_RECORDS trim_hw_sample) (Some 0) = (Some ERROR_NO_TRIM_FOUND, Some 0xFFFF)"
proof -
  have "Sys_Trim_GetTrim (Some table_vddc_normal_only) 0x50 4 (Some 0) =
          (Some ERROR_NO_TRIM_FOUND, Some 0xFFFF)"
    by (rule GetTrim_no_match)
       (simp_all add: table_vddc_normal_only_def is_sentinel_def MIN_32_BIT_def MAX_32_BIT_def
          spec_record_lookup_def Let_def)
  then show ?thesis
    by (simp add: trim_region_vddc_normal_only_def trim_region_erased_def TARGET_VDDC_STANDBY_def
        trim_hw_sample_def)
qed

text \<open>
  Claim C8, as stated, fails in "must differ from its pre-call value": when the normal
  VDDC trim register already holds the trim that the lookup finds (\<open>0x2A\<close>), the call
  writes it again and the register holds the value it held before.
\<close>

theorem LoadVDDC_same_value_counterexample:
  "Sys_Trim_GetTrim (Some (vddc trim_region_vddc_normal_only)) (ucast TARGET_VDDC_1150)
     (TRIM_RECORDS trim_hw_sample) (Some 0) = (Some ERROR_NO_ERROR, Some 0x2A)
   \<and> Sys_Trim_GetTrim (Some (vddc trim_region_vddc_normal_only)) (ucast TARGET_VDDC_STANDBY)
     (TRIM_RECORDS trim_hw_sample) (Some 0) = (Some ERROR_NO_TRIM_FOUND, Some 0xFFFF)
   \<and> Sys_Trim_LoadVDDC trim_hw_sample (Some trim_region_vddc_normal_only)
       TARGET_VDDC_1150 TARGET_VDDC_STANDBY machine_vddc_2A =
       Some (ERROR_VDDC_STBY_INVALID, write8 ACS_VDDC_CTRL_VTRIM_BYTE 0x2A machine_vddc_2A)
   \<and> r8 (write8 ACS_VDDC_CTRL_VTRIM_BYTE 0x2A machine_vddc_2A) ACS_VDDC_CTRL_VTRIM_BYTE =
       r8 machine_vddc_2A ACS_VDDC_CTRL_VTRIM_BYTE"
proof -
  have ne: "ERROR_NO_TRIM_FOUND \<noteq> ERROR_NO_ERROR"
    by (simp add: ERROR_NO_TRIM_FOUND_def ERROR_NO_ERROR_def)
  have "Sys_Trim_LoadVDDC trim_hw_sample (Some trim_region_vddc_normal_only)
       TARGET_VDDC_1150 TARGET_VDDC_STANDBY machine_vddc_2A =
       Some (ERROR_VDDC_STBY_INVALID, write8 ACS_VDDC_CTRL_VTRIM_BYTE (ucast (0x2A :: uint16_t)) machine_vddc_2A)"
    by (rule LoadVDDC_normal_only[OF vddc_sample_normal vddc_sample_standby ne])
  then show ?thesis
    by (simp add: vddc_sample_normal vddc_sample_standby write8_def machine_vddc_2A_def machine0_def)
qed

text \<open>
  Claim C8 (amended). For every call \<open>Sys_Trim_LoadVDDC (region, target, target_standby)\<close>
  on a region that is not \<open>NULL\<close> in which the normal-voltage lookup succeeds and the
  standby lookup fails, the normal-voltage trim register (\<open>VTRIM_BYTE\<close>) is written, once,
  with the low byte of the found value, the standby trim register and every other register
  are left unchanged, and the returned mask is exactly \<open>ERROR_VDDC_STBY_INVALID\<close>.
  Symmetrically, when the standby lookup succeeds and the normal lookup fails, the
  standby trim register is written with the found value, the normal one is unchanged and
  the mask is exactly \<open>ERROR_VDDC_INVALID\<close>.
\<close>

theorem Sys_Trim_LoadVDDC_partial:
  "(Sys_Trim_GetTrim (Some (vddc tr)) (ucast target) (TRIM_RECORDS hw) (Some 0) =
       (Some ERROR_NO_ERROR, Some v) \<and>
    Sys_Trim_GetTrim (Some (vddc tr)) (ucast target_standby) (TRIM_RECORDS hw) (Some 0) =
       (Some e, Some v') \<and> e \<noteq> ERROR_NO_ERROR
    \<longrightarrow> (\<exists>s'. Sys_Trim_LoadVDDC hw (Some tr) target target_standby s =
                 Some (ERROR_VDDC_STBY_INVALID, s') \<and>
               r8 s' = (r8 s)(ACS_VDDC_CTRL_VTRIM_BYTE := ucast v) \<and>
               r8 s' ACS_VDDC_CTRL_STANDBY_VTRIM_BYTE = r8 s ACS_VDDC_CTRL_STANDBY_VTRIM_BYTE \<and>
               r32 s' = r32 s \<and>
               wlog s' = wlog s @ [W8 ACS_VDDC_CTRL_VTRIM_BYTE]))
   \<and> (Sys_Trim_GetTrim (Some (vddc tr)) (ucast target) (TRIM_RECORDS hw) (Some 0) =
       (Some e, Some v) \<and> e \<noteq> ERROR_NO_ERROR \<and>
    Sys_Trim_GetTrim (Some (vddc tr)) (ucast target_standby) (TRIM_RECORDS hw) (Some 0) =
       (Some ERROR_NO_ERROR, Some v')
    \<longrightarrow> (\<exists>s'. Sys_Trim_LoadVDDC hw (Some tr) target target_standby s =
                 Some (ERROR_VDDC_INVALID, s') \<and>
               r8 s' = (r8 s)(ACS_VDDC_CTRL_STANDBY_VTRIM_BYTE := ucast v') \<and>
               r8 s' ACS_VDDC_CTRL_VTRIM_BYTE = r8 s ACS_VDDC_CTRL_VTRIM_BYTE \<and>
               r32 s' = r32 s \<and>
               wlog s' = wlog s @ [W8 ACS_VDDC_CTRL_STANDBY_VTRIM_BYTE]))"
proof (intro conjI impI)
  assume "Sys_Trim_GetTrim (Some (vddc tr)) (ucast target) (TRIM_RECORDS hw) (Some 0) =
       (Some ERROR_NO_ERROR, Some v) \<and>
    Sys_Trim_GetTrim (Some (vddc tr)) (ucast target_standby) (TRIM_RECORDS hw) (Some 0) =
       (Some e, Some v') \<and> e \<noteq> ERROR_NO_ERROR"
  then have "Sys_Trim_LoadVDDC hw (Some tr) target target_standby s =
           Some (ERROR_VDDC_STBY_INVALID, write8 ACS_VDDC_CTRL_VTRIM_BYTE (ucast v) s)"
    by (intro LoadVDDC_normal_only) auto
  then show "\<exists>s'. Sys_Trim_LoadVDDC hw (Some tr) target target_standby s =
                 Some (ERROR_VDDC_STBY_INVALID, s') \<and>
               r8 s' = (r8 s)(ACS_VDDC_CTRL_VTRIM_BYTE := ucast v) \<and>
               r8 s' ACS_VDDC_CTRL_STANDBY_VTRIM_BYTE = r8 s ACS_VDDC_CTRL_STANDBY_VTRIM_BYTE \<and>
               r32 s' = r32 s \<and>
               wlog s' = wlog s @ [W8 ACS_VDDC_CTRL_VTRIM_BYTE]"
    by (simp add: write8_def)
next
  assume "Sys_Trim_GetTrim (Some (vddc tr)) (ucast target) (TRIM_RECORDS hw) (Some 0) =
       (Some e, Some v) \<and> e \<noteq> ERROR_NO_ERROR \<and>
    Sys_Trim_GetTrim (Some (vddc tr)) (ucast target_standby) (TRIM_RECORDS hw) (Some 0) =
       (Some ERROR_NO_ERROR, Some v')"
  then have "Sys_Trim_LoadVDDC hw (Some tr) target target_standby s =
           Some (ERROR_VDDC_INVALID, write8 ACS_VDDC_CTRL_STANDBY_VTRIM_BYTE (ucast v') s)"
    by (intro LoadVDDC_standby_only) auto
  then show "\<exists>s'. Sys_Trim_LoadVDDC hw (Some tr) target target_standby s =
                 Some (ERROR_VDDC_INVALID, s') \<and>
               r8 s' = (r8 s)(ACS_VDDC_CTRL_STANDBY_VTRIM_BYTE := ucast v') \<and>
               r8 s' ACS_VDDC_CTRL_VTRIM_BYTE = r8 s ACS_VDDC_CTRL_VTRIM_BYTE \<and>
               r32 s' = r32 s \<and>
               wlog s' = wlog s @ [W8 ACS_VDDC_CTRL_STANDBY_VTRIM_BYTE]"
    by (simp add: write8_def)
qed

theorem Sys_Trim_LoadVDDC_partial_witness:
  "Sys_Trim_GetTrim (Some (vddc trim_region_vddc_normal_only)) (ucast TARGET_VDDC_1150)
     (TRIM_RECORDS trim_hw_sample) (Some 0) = (Some ERROR_NO_ERROR, Some 0x2A)
   \<and> Sys_Trim_GetTrim (Some (vddc trim_region_vddc_normal_only)) (ucast TARGET_VDDC_STANDBY)
     (TRIM_RECORDS trim_hw_sample) (Some 0) = (Some ERROR_NO_TRIM_FOUND, Some 0xFFFF)
   \<and> ERROR_NO_TRIM_FOUND \<noteq> ERROR_NO_ERROR
   \<and> (\<exists>s'. Sys_Trim_LoadVDDC trim_hw_sample (Some trim_region_vddc_normal_only)
              TARGET_VDDC_1150 TARGET_VDDC_STANDBY machine0 = Some (ERROR_VDDC_STBY_INVALID, s') \<and>
            r8 s' ACS_VDDC_CTRL_VTRIM_BYTE = 0x2A \<and>
            r8 s' ACS_VDDC_CTRL_STANDBY_VTRIM_BYTE = 0 \<and>
            wlog s' = [W8 ACS_VDDC_CTRL_VTRIM_BYTE])"
proof -
  have ne: "ERROR_NO_TRIM_FOUND \<noteq> ERROR_NO_ERROR"
    by (simp add: ERROR_NO_TRIM_FOUND_def ERROR_NO_ERROR_def)
  from Sys_Trim_LoadVDDC_partial[of trim_region_vddc_normal_only TARGET_VDDC_1150 trim_hw_sample
      "0x2A" TARGET_VDDC_STANDBY ERROR_NO_TRIM_FOUND "0xFFFF" machine0, THEN conjunct1]
    vddc_sample_normal vddc_sample_standby ne
  obtain s' where "Sys_Trim_LoadVDDC trim_hw_sample (Some trim_region_vddc_normal_only)
              TARGET_VDDC_1150 TARGET_VDDC_STANDBY machine0 = Some (ERROR_VDDC_STBY_INVALID, s')"
    and "r8 s' = (r8 machine0)(ACS_VDDC_CTRL_VTRIM_BYTE := ucast (0x2A :: uint16_t))"
    and "wlog s' = wlog machine0 @ [W8 ACS_VDDC_CTRL_VTRIM_BYTE]"
    by auto
  then show ?thesis using vddc_sample_normal vddc_sample_standby ne
    by (auto simp: machine0_def)
qed


subsection \<open>NULL arguments\<close>

text \<open>
  Claim C10, as stated, fails for \<open>Sys_Trim_LoadVDDIF\<close> on builds that define \<open>RSL15_CID\<close>:
  there the function is the inline stub of trim.h, which returns \<open>ERROR_NO_TRIM_FOUND\<close>
  whatever its arguments, also for a \<open>NULL\<close> region.
\<close>

theorem LoadVDDIF_null_counterexample:
  "RSL15_CID_defined trim_hw_sample
   \<and> Sys_Trim_LoadVDDIF trim_hw_sample None 180 machine0 = Some (ERROR_NO_TRIM_FOUND, machine0)
   \<and> ERROR_NO_TRIM_FOUND \<noteq> ERROR_NULL"
  by (simp add: Sys_Trim_LoadVDDIF_def trim_hw_sample_def ERROR_NO_TRIM_FOUND_def ERROR_NULL_def)

text \<open>
  Claim C10 (amended). Called with a \<open>NULL\<close> region pointer, \<open>Sys_Trim_LoadTrims\<close>,
  \<open>Sys_Trim_VerifyTrims\<close> and the public loaders \<open>Sys_Trim_LoadBandgap\<close>, \<open>LoadDCDC\<close>,
  \<open>LoadVDDC\<close>, \<open>LoadVDDM\<close>, \<open>LoadVDDPA\<close>, \<open>LoadVDDRF\<close>, \<open>LoadVDDFLASH\<close>, \<open>LoadRCOSC\<close>,
  \<open>LoadRCOSC32\<close> and \<open>LoadThermistor\<close> return exactly \<open>ERROR_NULL\<close> and leave the machine,
  including its log of register writes, as it was; so does \<open>Sys_Trim_LoadVDDIF\<close> on builds
  without \<open>RSL15_CID\<close>, while on builds with \<open>RSL15_CID\<close> it returns
  \<open>ERROR_NO_TRIM_FOUND\<close>, again without a register write. \<open>Sys_Trim_GetTrim\<close> called with a
  \<open>NULL\<close> table or a \<open>NULL\<close> output pointer returns \<open>ERROR_NULL\<close> and writes nothing
  through the output pointer.
\<close>

theorem Sys_Trim_null_pointer:
  "Sys_Trim_LoadTrims hw c None targets_1 targets_2 s = Some (ERROR_NULL, s)
   \<and> Sys_Trim_VerifyTrims hw c None s = (ERROR_NULL, s)
   \<and> Sys_Trim_GetTrim None key record_length trim_val = (Some ERROR_NULL, trim_val)
   \<and> Sys_Trim_GetTrim addr key record_length None = (Some ERROR_NULL, None)
   \<and> Sys_Trim_LoadBandgap hw None target target2 s = Some (ERROR_NULL, s)
   \<and> Sys_Trim_LoadDCDC hw None target s = Some (ERROR_NULL, s)
   \<and> Sys_Trim_LoadVDDC hw None target target2 s = Some (ERROR_NULL, s)
   \<and> Sys_Trim_LoadVDDM hw None target target2 s = Some (ERROR_NULL, s)
   \<and> Sys_Trim_LoadVDDPA hw None target s = Some (ERROR_NULL, s)
   \<and> Sys_Trim_LoadVDDRF hw None target s = Some (ERROR_NULL, s)
   \<and> Sys_Trim_LoadVDDFLASH hw None target s = Some (ERROR_NULL, s)
   \<and> Sys_Trim_LoadRCOSC hw None target s = Some (ERROR_NULL, s)
   \<and> Sys_Trim_LoadRCOSC32 hw None target s = Some (ERROR_NULL, s)
   \<and> Sys_Trim_LoadThermistor hw None target16 s = Some (ERROR_NULL, s)
   \<and> (\<not> RSL15_CID_defined hw \<longrightarrow> Sys_Trim_LoadVDDIF hw None target s = Some (ERROR_NULL, s))
   \<and> (RSL15_CID_defined hw \<longrightarrow>
        Sys_Trim_LoadVDDIF hw None target s = Some (ERROR_NO_TRIM_FOUND, s))"
  by (simp add: Sys_Trim_LoadTrims_def Sys_Trim_VerifyTrims_def Sys_Trim_GetTrim_def
      Sys_Trim_LoadBandgap_def Sys_Trim_LoadDCDC_def Sys_Trim_LoadVDDC_def Sys_Trim_LoadVDDM_def
      Sys_Trim_LoadVDDPA_def Sys_Trim_LoadVDDRF_def Sys_Trim_LoadVDDFLASH_def
      Sys_Trim_LoadRCOSC_def Sys_Trim_LoadRCOSC32_def Sys_Trim_LoadThermistor_def
      Sys_Trim_LoadVDDIF_def split: option.splits)

theorem Sys_Trim_null_pointer_witness:
  "RSL15_CID_defined trim_hw_sample
   \<and> Sys_Trim_LoadVDDIF trim_hw_sample None 180 machine0 = Some (ERROR_NO_TRIM_FOUND, machine0)
   \<and> \<not> RSL15_CID_defined (trim_hw_sample\<lparr>RSL15_CID_defined := False\<rparr>)
   \<and> Sys_Trim_LoadVDDIF (trim_hw_sample\<lparr>RSL15_CID_defined := False\<rparr>) None 180 machine0 =
       Some (ERROR_NULL, machine0)
   \<and> Sys_Trim_LoadVDDC trim_hw_sample None 115 80 machine0 = Some (ERROR_NULL, machine0)"
proof -
  have a: "RSL15_CID_defined trim_hw_sample" by (simp add: trim_hw_sample_def)
  have b: "\<not> RSL15_CID_defined (trim_hw_sample\<lparr>RSL15_CID_defined := False\<rparr>)" by simp
  from Sys_Trim_null_pointer[where hw = trim_hw_sample and s = machine0 and target = 180] a
  have "Sys_Trim_LoadVDDIF trim_hw_sample None 180 machine0 =
          Some (ERROR_NO_TRIM_FOUND, machine0)" by blast
  moreover
  from Sys_Trim_null_pointer[where hw = "trim_hw_sample\<lparr>RSL15_CID_defined := False\<rparr>"
      and s = machine0 and target = 180] b
  have "Sys_Trim_LoadVDDIF (trim_hw_sample\<lparr>RSL15_CID_defined := False\<rparr>)
          None 180 machine0 = Some (ERROR_NULL, machine0)" by blast
  moreover
  from Sys_Trim_null_pointer[where hw = trim_hw_sample and s = machine0 and target = 115
      and ?target2.0 = 80]
  have "Sys_Trim_LoadVDDC trim_hw_sample None 115 80 machine0 = Some (ERROR_NULL, machine0)"
    by blast
  ultimately show ?thesis using a b by blast
qed

subsection \<open>Sys_Trim_CheckCRC\<close>

lemma write32_other [simp]: "r' \<noteq> r \<Longrightarrow> r32 (write32 r v s) r' = r32 s r'"
  by (simp add: write32_def)

lemma write32_same [simp]: "r32 (write32 r v s) r = v"
  by (simp add: write32_def)

lemma Sys_CRC_Add32_CFG: "r32 (Sys_CRC_Add32 c w s) CRC_CFG = r32 s CRC_CFG"
  by (simp add: Sys_CRC_Add32_def Let_def)

lemma Sys_CRC_Add32_VALUE:
  "r32 (Sys_CRC_Add32 c w s) CRC_VALUE = crc_add32 c (r32 s CRC_CFG) (r32 s CRC_VALUE) w"
  by (simp add: Sys_CRC_Add32_def Let_def)

lemma CheckCRC_add_loop_CFG: "r32 (CheckCRC_add_loop c ws s) CRC_CFG = r32 s CRC_CFG"
  by (induction ws arbitrary: s) (simp_all add: Sys_CRC_Add32_CFG)

lemma CheckCRC_add_loop_VALUE:
  "r32 (CheckCRC_add_loop c ws s) CRC_VALUE =
     foldl (crc_add32 c (r32 s CRC_CFG)) (r32 s CRC_VALUE) ws"
  by (induction ws arbitrary: s) (simp_all add: Sys_CRC_Add32_CFG Sys_CRC_Add32_VALUE)

lemma CheckCRC_region_final:
  "Sys_CRC_GetFinalValue c
     (CheckCRC_add_loop c (crc_words tr)
        (if CHECKSUM tr \<le> MAX_16_BIT
         then Sys_CRC_CCITTInitValue c (Sys_Set_CRC_Config (CRC_CCITT c) s)
         else Sys_CRC_32InitValue c (Sys_Set_CRC_Config (CRC_32 c) s))) =
   spec_region_crc c tr"
  by (simp add: Sys_CRC_GetFinalValue_def CheckCRC_add_loop_CFG CheckCRC_add_loop_VALUE
      spec_region_crc_def Sys_CRC_CCITTInitValue_def Sys_CRC_32InitValue_def
      Sys_Set_CRC_Config_def MAX_16_BIT_def Let_def)

lemma CheckCRC_region_ret:
  "fst (CheckCRC_region c tr s) =
     (if CHECKSUM tr = spec_region_crc c tr then ERROR_NO_ERROR else ERROR_INVALID_CRC)"
  using CheckCRC_region_final[of c tr s]
  by (simp add: CheckCRC_region_def Let_def)

lemma CheckCRC_region_CFG:
  "r32 (snd (CheckCRC_region c tr s)) CRC_CFG =
     (if CHECKSUM tr \<le> 0xFFFF then CRC_CCITT c else CRC_32 c)"
  by (simp add: CheckCRC_region_def Let_def CheckCRC_add_loop_CFG Sys_CRC_CCITTInitValue_def
      Sys_CRC_32InitValue_def Sys_Set_CRC_Config_def MAX_16_BIT_def)

text \<open>
  Claim C7. For every trim region, \<open>Sys_Trim_CheckCRC\<close> returns; it leaves the CRC-CCITT
  mode in \<open>CRC->CFG\<close> when the stored \<open>CHECKSUM\<close> fits in 16 bits and the CRC-32 mode
  otherwise; the CRC it compares is that engine's CRC accumulated over every word of the
  range from the region base up to and including its last covered word; and it returns
  \<open>ERROR_NO_ERROR\<close> exactly when that CRC equals the stored \<open>CHECKSUM\<close>, and
  \<open>ERROR_INVALID_CRC\<close> otherwise.
\<close>

theorem Sys_Trim_CheckCRC_correct:
  "\<exists>ret s'. Sys_Trim_CheckCRC c (Some tr) s = Some (ret, s')
     \<and> r32 s' CRC_CFG = (if CHECKSUM tr \<le> 0xFFFF then CRC_CCITT c else CRC_32 c)
     \<and> (ret = ERROR_NO_ERROR \<longleftrightarrow> CHECKSUM tr = spec_region_crc c tr)
     \<and> (ret = ERROR_INVALID_CRC \<longleftrightarrow> CHECKSUM tr \<noteq> spec_region_crc c tr)"
proof -
  obtain ret s' where r: "CheckCRC_region c tr s = (ret, s')" by (cases "CheckCRC_region c tr s")
  have ne: "ERROR_NO_ERROR \<noteq> ERROR_INVALID_CRC"
    by (simp add: ERROR_NO_ERROR_def ERROR_INVALID_CRC_def)
  from r CheckCRC_region_ret[of c tr s] CheckCRC_region_CFG[of c tr s] ne
  show ?thesis
    by (auto simp: Sys_Trim_CheckCRC_def split: if_splits)
qed

theorem Sys_Trim_CheckCRC_correct_witness:
  "spec_region_crc crc_hw_sample trim_region_crc_sample = 0xFFFCFFFC
   \<and> CHECKSUM trim_region_crc_sample = 0xFFFCFFFC
   \<and> (\<exists>s'. Sys_Trim_CheckCRC crc_hw_sample (Some trim_region_crc_sample) machine0 =
              Some (ERROR_NO_ERROR, s') \<and> r32 s' CRC_CFG = CRC_32 crc_hw_sample)"
proof -
  have v: "spec_region_crc crc_hw_sample trim_region_crc_sample = 0xFFFCFFFC"
    by (simp add: spec_region_crc_def crc_hw_sample_def trim_region_crc_sample_def
        trim_region_erased_def xor_add_def id_final_def Let_def)
  have k: "CHECKSUM trim_region_crc_sample = 0xFFFCFFFC"
    by (simp add: trim_region_crc_sample_def trim_region_erased_def)
  from Sys_Trim_CheckCRC_correct[of crc_hw_sample trim_region_crc_sample machine0] v k
  show ?thesis by auto
qed

subsection \<open>Sys_Trim_VerifyTrims\<close>

text \<open>The error flags of \<open>Sys_Trim_VerifyTrims\<close> are distinct single bits.\<close>

lemma verify_flags_disjoint:
  "ERROR_INVALID_CRC AND ERROR_BG_INVALID = 0"
  "ERROR_INVALID_CRC AND ERROR_DCDC_INVALID = 0"
  "ERROR_INVALID_CRC AND ERROR_VDDC_INVALID = 0"
  "ERROR_INVALID_CRC AND ERROR_VDDM_INVALID = 0"
  "ERROR_INVALID_CRC AND ERROR_VDDRF_INVALID = 0"
  "ERROR_INVALID_CRC AND ERROR_VDDPA_INVALID = 0"
  "ERROR_INVALID_CRC AND ERROR_VDDIF_INVALID = 0"
  "ERROR_INVALID_CRC AND ERROR_VDDFLASH_INVALID = 0"
  "ERROR_INVALID_CRC AND ERROR_RCOSC_INVALID = 0"
  "ERROR_INVALID_CRC AND ERROR_RCOSC32_INVALID = 0"
  "ERROR_INVALID_CRC AND ERROR_LSAD_INVALID = 0"
  "ERROR_INVALID_CRC AND ERROR_TEMPERATURE_INVALID = 0"
  "ERROR_INVALID_CRC AND ERROR_THERMISTOR_INVALID = 0"
  "ERROR_INVALID_CRC AND ERROR_MEASURED_INVALID = 0"
  "ERROR_BG_INVALID AND ERROR_INVALID_CRC = 0"
  "ERROR_BG_INVALID AND ERROR_DCDC_INVALID = 0"
  "ERROR_BG_INVALID AND ERROR_VDDC_INVALID = 0"
  "ERROR_BG_INVALID AND ERROR_VDDM_INVALID = 0"
  "ERROR_BG_INVALID AND ERROR_VDDRF_INVALID = 0"
  "ERROR_BG_INVALID AND ERROR_VDDPA_INVALID = 0"
  "ERROR_BG_INVALID AND ERROR_VDDIF_INVALID = 0"
  "ERROR_BG_INVALID AND ERROR_VDDFLASH_INVALID = 0"
  "ERROR_BG_INVALID AND ERROR_RCOSC_INVALID = 0"
  "ERROR_BG_INVALID AND ERROR_RCOSC32_INVALID = 0"
  "ERROR_BG_INVALID AND ERROR_LSAD_INVALID = 0"
  "ERROR_BG_INVALID AND ERROR_TEMPERATURE_INVALID = 0"
  "ERROR_BG_INVALID AND ERROR_THERMISTOR_INVALID = 0"
  "ERROR_BG_INVALID AND ERROR_MEASURED_INVALID = 0"
  "ERROR_DCDC_INVALID AND ERROR_INVALID_CRC = 0"
  "ERROR_DCDC_INVALID AND ERROR_BG_INVALID = 0"
  "ERROR_DCDC_INVALID AND ERROR_VDDC_INVALID = 0"
  "ERROR_DCDC_INVALID AND ERROR_VDDM_INVALID = 0"
  "ERROR_DCDC_INVALID AND ERROR_VDDRF_INVALID = 0"
  "ERROR_DCDC_INVALID AND ERROR_VDDPA_INVALID = 0"
  "ERROR_DCDC_INVALID AND ERROR_VDDIF_INVALID = 0"
  "ERROR_DCDC_INVALID AND ERROR_VDDFLASH_INVALID = 0"
  "ERROR_DCDC_INVALID AND ERROR_RCOSC_INVALID = 0"
  "ERROR_DCDC_INVALID AND ERROR_RCOSC32_INVALID = 0"
  "ERROR_DCDC_INVALID AND ERROR_LSAD_INVALID = 0"
  "ERROR_DCDC_INVALID AND ERROR_TEMPERATURE_INVALID = 0"
  "ERROR_DCDC_INVALID AND ERROR_THERMISTOR_INVALID = 0"
  "ERROR_DCDC_INVALID AND ERROR_MEASURED_INVALID = 0"
  "ERROR_VDDC_INVALID AND ERROR_INVALID_CRC = 0"
  "ERROR_VDDC_INVALID AND ERROR_BG_INVALID = 0"
  "ERROR_VDDC_INVALID AND ERROR_DCDC_INVALID = 0"
  "ERROR_VDDC_INVALID AND ERROR_VDDM_INVALID = 0"
  "ERROR_VDDC_INVALID AND ERROR_VDDRF_INVALID = 0"
  "ERROR_VDDC_INVALID AND ERROR_VDDPA_INVALID = 0"
  "ERROR_VDDC_INVALID AND ERROR_VDDIF_INVALID = 0"
  "ERROR_VDDC_INVALID AND ERROR_VDDFLASH_INVALID = 0"
  "ERROR_VDDC_INVALID AND ERROR_RCOSC_INVALID = 0"
  "ERROR_VDDC_INVALID AND ERROR_RCOSC32_INVALID = 0"
  "ERROR_VDDC_INVALID AND ERROR_LSAD_INVALID = 0"
  "ERROR_VDDC_INVALID AND ERROR_TEMPERATURE_INVALID = 0"
  "ERROR_VDDC_INVALID AND ERROR_THERMISTOR_INVALID = 0"
  "ERROR_VDDC_INVALID AND ERROR_MEASURED_INVALID = 0"
  "ERROR_VDDM_INVALID AND ERROR_INVALID_CRC = 0"
  "ERROR_VDDM_INVALID AND ERROR_BG_INVALID = 0"
  "ERROR_VDDM_INVALID AND ERROR_DCDC_INVALID = 0"
  "ERROR_VDDM_INVALID AND ERROR_VDDC_INVALID = 0"
  "ERROR_VDDM_INVALID AND ERROR_VDDRF_INVALID = 0"
  "ERROR_VDDM_INVALID AND ERROR_VDDPA_INVALID = 0"
  "ERROR_VDDM_INVALID AND ERROR_VDDIF_INVALID = 0"
  "ERROR_VDDM_INVALID AND ERROR_VDDFLASH_INVALID = 0"
  "ERROR_VDDM_INVALID AND ERROR_RCOSC_INVALID = 0"
  "ERROR_VDDM_INVALID AND ERROR_RCOSC32_INVALID = 0"
  "ERROR_VDDM_INVALID AND ERROR_LSAD_INVALID = 0"
  "ERROR_VDDM_INVALID AND ERROR_TEMPERATURE_INVALID = 0"
  "ERROR_VDDM_INVALID AND ERROR_THERMISTOR_INVALID = 0"
  "ERROR_VDDM_INVALID AND ERROR_MEASURED_INVALID = 0"
  "ERROR_VDDRF_INVALID AND ERROR_INVALID_CRC = 0"
  "ERROR_VDDRF_INVALID AND ERROR_BG_INVALID = 0"
  "ERROR_VDDRF_INVALID AND ERROR_DCDC_INVALID = 0"
  "ERROR_VDDRF_INVALID AND ERROR_VDDC_INVALID = 0"
  "ERROR_VDDRF_INVALID AND ERROR_VDDM_INVALID = 0"
  "ERROR_VDDRF_INVALID AND ERROR_VDDPA_INVALID = 0"
  "ERROR_VDDRF_INVALID AND ERROR_VDDIF_INVALID = 0"
  "ERROR_VDDRF_INVALID AND ERROR_VDDFLASH_INVALID = 0"
  "ERROR_VDDRF_INVALID AND ERROR_RCOSC_INVALID = 0"
  "ERROR_VDDRF_INVALID AND ERROR_RCOSC32_INVALID = 0"
  "ERROR_VDDRF_INVALID AND ERROR_LSAD_INVALID = 0"
  "ERROR_VDDRF_INVALID AND ERROR_TEMPERATURE_INVALID = 0"
  "ERROR_VDDRF_INVALID AND ERROR_THERMISTOR_INVALID = 0"
  "ERROR_VDDRF_INVALID AND ERROR_MEASURED_INVALID = 0"
  "ERROR_VDDPA_INVALID AND ERROR_INVALID_CRC = 0"
  "ERROR_VDDPA_INVALID AND ERROR_BG_INVALID = 0"
  "ERROR_VDDPA_INVALID AND ERROR_DCDC_INVALID = 0"
  "ERROR_VDDPA_INVALID AND ERROR_VDDC_INVALID = 0"
  "ERROR_VDDPA_INVALID AND ERROR_VDDM_INVALID = 0"
  "ERROR_VDDPA_INVALID AND ERROR_VDDRF_INVALID = 0"
  "ERROR_VDDPA_INVALID AND ERROR_VDDIF_INVALID = 0"
  "ERROR_VDDPA_INVALID AND ERROR_VDDFLASH_INVALID = 0"
  "ERROR_VDDPA_INVALID AND ERROR_RCOSC_INVALID = 0"
  "ERROR_VDDPA_INVALID AND ERROR_RCOSC32_INVALID = 0"
  "ERROR_VDDPA_INVALID AND ERROR_LSAD_INVALID = 0"
  "ERROR_VDDPA_INVALID AND ERROR_TEMPERATURE_INVALID = 0"
  "ERROR_VDDPA_INVALID AND ERROR_THERMISTOR_INVALID = 0"
  "ERROR_VDDPA_INVALID AND ERROR_MEASURED_INVALID = 0"
  "ERROR_VDDIF_INVALID AND ERROR_INVALID_CRC = 0"
  "ERROR_VDDIF_INVALID AND ERROR_BG_INVALID = 0"
  "ERROR_VDDIF_INVALID AND ERROR_DCDC_INVALID = 0"
  "ERROR_VDDIF_INVALID AND ERROR_VDDC_INVALID = 0"
  "ERROR_VDDIF_INVALID AND ERROR_VDDM_INVALID = 0"
  "ERROR_VDDIF_INVALID AND ERROR_VDDRF_INVALID = 0"
  "ERROR_VDDIF_INVALID AND ERROR_VDDPA_INVALID = 0"
  "ERROR_VDDIF_INVALID AND ERROR_VDDFLASH_INVALID = 0"
  "ERROR_VDDIF_INVALID AND ERROR_RCOSC_INVALID = 0"
  "ERROR_VDDIF_INVALID AND ERROR_RCOSC32_INVALID = 0"
  "ERROR_VDDIF_INVALID AND ERROR_LSAD_INVALID = 0"
  "ERROR_VDDIF_INVALID AND ERROR_TEMPERATURE_INVALID = 0"
  "ERROR_VDDIF_INVALID AND ERROR_THERMISTOR_INVALID = 0"
  "ERROR_VDDIF_INVALID AND ERROR_MEASURED_INVALID = 0"
  "ERROR_VDDFLASH_INVALID AND ERROR_INVALID_CRC = 0"
  "ERROR_VDDFLASH_INVALID AND ERROR_BG_INVALID = 0"
  "ERROR_VDDFLASH_INVALID AND ERROR_DCDC_INVALID = 0"
  "ERROR_VDDFLASH_INVALID AND ERROR_VDDC_INVALID = 0"
  "ERROR_VDDFLASH_INVALID AND ERROR_VDDM_INVALID = 0"
  "ERROR_VDDFLASH_INVALID AND ERROR_VDDRF_INVALID = 0"
  "ERROR_VDDFLASH_INVALID AND ERROR_VDDPA_INVALID = 0"
  "ERROR_VDDFLASH_INVALID AND ERROR_VDDIF_INVALID = 0"
  "ERROR_VDDFLASH_INVALID AND ERROR_RCOSC_INVALID = 0"
  "ERROR_VDDFLASH_INVALID AND ERROR_RCOSC32_INVALID = 0"
  "ERROR_VDDFLASH_INVALID AND ERROR_LSAD_INVALID = 0"
  "ERROR_VDDFLASH_INVALID AND ERROR_TEMPERATURE_INVALID = 0"
  "ERROR_VDDFLASH_INVALID AND ERROR_THERMISTOR_INVALID = 0"
  "ERROR_VDDFLASH_INVALID AND ERROR_MEASURED_INVALID = 0"
  "ERROR_RCOSC_INVALID AND ERROR_INVALID_CRC = 0"
  "ERROR_RCOSC_INVALID AND ERROR_BG_INVALID = 0"
  "ERROR_RCOSC_INVALID AND ERROR_DCDC_INVALID = 0"
  "ERROR_RCOSC_INVALID AND ERROR_VDDC_INVALID = 0"
  "ERROR_RCOSC_INVALID AND ERROR_VDDM_INVALID = 0"
  "ERROR_RCOSC_INVALID AND ERROR_VDDRF_INVALID = 0"
  "ERROR_RCOSC_INVALID AND ERROR_VDDPA_INVALID = 0"
  "ERROR_RCOSC_INVALID AND ERROR_VDDIF_INVALID = 0"
  "ERROR_RCOSC_INVALID AND ERROR_VDDFLASH_INVALID = 0"
  "ERROR_RCOSC_INVALID AND ERROR_RCOSC32_INVALID = 0"
  "ERROR_RCOSC_INVALID AND ERROR_LSAD_INVALID = 0"
  "ERROR_RCOSC_INVALID AND ERROR_TEMPERATURE_INVALID = 0"
  "ERROR_RCOSC_INVALID AND ERROR_THERMISTOR_INVALID = 0"
  "ERROR_RCOSC_INVALID AND ERROR_MEASURED_INVALID = 0"
  "ERROR_RCOSC32_INVALID AND ERROR_INVALID_CRC = 0"
  "ERROR_RCOSC32_INVALID AND ERROR_BG_INVALID = 0"
  "ERROR_RCOSC32_INVALID AND ERROR_DCDC_INVALID = 0"
  "ERROR_RCOSC32_INVALID AND ERROR_VDDC_INVALID = 0"
  "ERROR_RCOSC32_INVALID AND ERROR_VDDM_INVALID = 0"
  "ERROR_RCOSC32_INVALID AND ERROR_VDDRF_INVALID = 0"
  "ERROR_RCOSC32_INVALID AND ERROR_VDDPA_INVALID = 0"
  "ERROR_RCOSC32_INVALID AND ERROR_VDDIF_INVALID = 0"
  "ERROR_RCOSC32_INVALID AND ERROR_VDDFLASH_INVALID = 0"
  "ERROR_RCOSC32_INVALID AND ERROR_RCOSC_INVALID = 0"
  "ERROR_RCOSC32_INVALID AND ERROR_LSAD_INVALID = 0"
  "ERROR_RCOSC32_INVALID AND ERROR_TEMPERATURE_INVALID = 0"
  "ERROR_RCOSC32_INVALID AND ERROR_THERMISTOR_INVALID = 0"
  "ERROR_RCOSC32_INVALID AND ERROR_MEASURED_INVALID = 0"
  "ERROR_LSAD_INVALID AND ERROR_INVALID_CRC = 0"
  "ERROR_LSAD_INVALID AND ERROR_BG_INVALID = 0"
  "ERROR_LSAD_INVALID AND ERROR_DCDC_INVALID = 0"
  "ERROR_LSAD_INVALID AND ERROR_VDDC_INVALID = 0"
  "ERROR_LSAD_INVALID AND ERROR_VDDM_INVALID = 0"
  "ERROR_LSAD_INVALID AND ERROR_VDDRF_INVALID = 0"
  "ERROR_LSAD_INVALID AND ERROR_VDDPA_INVALID = 0"
  "ERROR_LSAD_INVALID AND ERROR_VDDIF_INVALID = 0"
  "ERROR_LSAD_INVALID AND ERROR_VDDFLASH_INVALID = 0"
  "ERROR_LSAD_INVALID AND ERROR_RCOSC_INVALID = 0"
  "ERROR_LSAD_INVALID AND ERROR_RCOSC32_INVALID = 0"
  "ERROR_LSAD_INVALID AND ERROR_TEMPERATURE_INVALID = 0"
  "ERROR_LSAD_INVALID AND ERROR_THERMISTOR_INVALID = 0"
  "ERROR_LSAD_INVALID AND ERROR_MEASURED_INVALID = 0"
  "ERROR_TEMPERATURE_INVALID AND ERROR_INVALID_CRC = 0"
  "ERROR_TEMPERATURE_INVALID AND ERROR_BG_INVALID = 0"
  "ERROR_TEMPERATURE_INVALID AND ERROR_DCDC_INVALID = 0"
  "ERROR_TEMPERATURE_INVALID AND ERROR_VDDC_INVALID = 0"
  "ERROR_TEMPERATURE_INVALID AND ERROR_VDDM_INVALID = 0"
  "ERROR_TEMPERATURE_INVALID AND ERROR_VDDRF_INVALID = 0"
  "ERROR_TEMPERATURE_INVALID AND ERROR_VDDPA_INVALID = 0"
  "ERROR_TEMPERATURE_INVALID AND ERROR_VDDIF_INVALID = 0"
  "ERROR_TEMPERATURE_INVALID AND ERROR_VDDFLASH_INVALID = 0"
  "ERROR_TEMPERATURE_INVALID AND ERROR_RCOSC_INVALID = 0"
  "ERROR_TEMPERATURE_INVALID AND ERROR_RCOSC32_INVALID = 0"
  "ERROR_TEMPERATURE_INVALID AND ERROR_LSAD_INVALID = 0"
  "ERROR_TEMPERATURE_INVALID AND ERROR_THERMISTOR_INVALID = 0"
  "ERROR_TEMPERATURE_INVALID AND ERROR_MEASURED_INVALID = 0"
  "ERROR_THERMISTOR_INVALID AND ERROR_INVALID_CRC = 0"
  "ERROR_THERMISTOR_INVALID AND ERROR_BG_INVALID = 0"
  "ERROR_THERMISTOR_INVALID AND ERROR_DCDC_INVALID = 0"
  "ERROR_THERMISTOR_INVALID AND ERROR_VDDC_INVALID = 0"
  "ERROR_THERMISTOR_INVALID AND ERROR_VDDM_INVALID = 0"
  "ERROR_THERMISTOR_INVALID AND ERROR_VDDRF_INVALID = 0"
  "ERROR_THERMISTOR_INVALID AND ERROR_VDDPA_INVALID = 0"
  "ERROR_THERMISTOR_INVALID AND ERROR_VDDIF_INVALID = 0"
  "ERROR_THERMISTOR_INVALID AND ERROR_VDDFLASH_INVALID = 0"
  "ERROR_THERMISTOR_INVALID AND ERROR_RCOSC_INVALID = 0"
  "ERROR_THERMISTOR_INVALID AND ERROR_RCOSC32_INVALID = 0"
  "ERROR_THERMISTOR_INVALID AND ERROR_LSAD_INVALID = 0"
  "ERROR_THERMISTOR_INVALID AND ERROR_TEMPERATURE_INVALID = 0"
  "ERROR_THERMISTOR_INVALID AND ERROR_MEASURED_INVALID = 0"
  "ERROR_MEASURED_INVALID AND ERROR_INVALID_CRC = 0"
  "ERROR_MEASURED_INVALID AND ERROR_BG_INVALID = 0"
  "ERROR_MEASURED_INVALID AND ERROR_DCDC_INVALID = 0"
  "ERROR_MEASURED_INVALID AND ERROR_VDDC_INVALID = 0"
  "ERROR_MEASURED_INVALID AND ERROR_VDDM_INVALID = 0"
  "ERROR_MEASURED_INVALID AND ERROR_VDDRF_INVALID = 0"
  "ERROR_MEASURED_INVALID AND ERROR_VDDPA_INVALID = 0"
  "ERROR_MEASURED_INVALID AND ERROR_VDDIF_INVALID = 0"
  "ERROR_MEASURED_INVALID AND ERROR_VDDFLASH_INVALID = 0"
  "ERROR_MEASURED_INVALID AND ERROR_RCOSC_INVALID = 0"
  "ERROR_MEASURED_INVALID AND ERROR_RCOSC32_INVALID = 0"
  "ERROR_MEASURED_INVALID AND ERROR_LSAD_INVALID = 0"
  "ERROR_MEASURED_INVALID AND ERROR_TEMPERATURE_INVALID = 0"
  "ERROR_MEASURED_INVALID AND ERROR_THERMISTOR_INVALID = 0"
  by (simp_all add: ERROR_INVALID_CRC_def ERROR_BG_INVALID_def ERROR_DCDC_INVALID_def ERROR_VDDC_INVALID_def ERROR_VDDM_INVALID_def ERROR_VDDRF_INVALID_def ERROR_VDDPA_INVALID_def ERROR_VDDIF_INVALID_def ERROR_VDDFLASH_INVALID_def ERROR_RCOSC_INVALID_def ERROR_RCOSC32_INVALID_def ERROR_LSAD_INVALID_def ERROR_TEMPERATURE_INVALID_def ERROR_THERMISTOR_INVALID_def ERROR_MEASURED_INVALID_def)

lemma verify_flags_nonzero:
  "ERROR_INVALID_CRC \<noteq> 0"
  "ERROR_BG_INVALID \<noteq> 0"
  "ERROR_DCDC_INVALID \<noteq> 0"
  "ERROR_VDDC_INVALID \<noteq> 0"
  "ERROR_VDDM_INVALID \<noteq> 0"
  "ERROR_VDDRF_INVALID \<noteq> 0"
  "ERROR_VDDPA_INVALID \<noteq> 0"
  "ERROR_VDDIF_INVALID \<noteq> 0"
  "ERROR_VDDFLASH_INVALID \<noteq> 0"
  "ERROR_RCOSC_INVALID \<noteq> 0"
  "ERROR_RCOSC32_INVALID \<noteq> 0"
  "ERROR_LSAD_INVALID \<noteq> 0"
  "ERROR_TEMPERATURE_INVALID \<noteq> 0"
  "ERROR_THERMISTOR_INVALID \<noteq> 0"
  "ERROR_MEASURED_INVALID \<noteq> 0"
  by (simp_all add: ERROR_INVALID_CRC_def ERROR_BG_INVALID_def ERROR_DCDC_INVALID_def ERROR_VDDC_INVALID_def ERROR_VDDM_INVALID_def ERROR_VDDRF_INVALID_def ERROR_VDDPA_INVALID_def ERROR_VDDIF_INVALID_def ERROR_VDDFLASH_INVALID_def ERROR_RCOSC_INVALID_def ERROR_RCOSC32_INVALID_def ERROR_LSAD_INVALID_def ERROR_TEMPERATURE_INVALID_def ERROR_THERMISTOR_INVALID_def ERROR_MEASURED_INVALID_def)

lemma and_not_disjoint:
  fixes r :: uint32_t
  assumes "F AND E = 0"
  shows "(r AND NOT F) AND E = r AND E"
proof (rule bit_eqI)
  fix n
  from assms have "\<not> bit (F AND E) n" by simp
  then show "bit ((r AND NOT F) AND E) n = bit (r AND E) n"
    by (auto simp: bit_simps dest: bit_imp_le_length)
qed

lemma or_disjoint:
  fixes r :: uint32_t
  assumes "F AND E = 0"
  shows "(r OR F) AND E = r AND E"
  using assms by (simp add: bit.conj_disj_distrib2)

lemma or_same:
  fixes r :: uint32_t
  shows "(r OR E) AND E = E"
  by (rule bit_eqI) (auto simp: bit_simps)

lemma and_not_same:
  fixes r :: uint32_t
  shows "(r AND NOT E) AND E = 0"
  by (rule bit_eqI) (auto simp: bit_simps)

text \<open>A block of the first loop seen through one flag bit and one \<open>valid_found\<close> entry.\<close>

lemma verify_record_other_flag:
  "F AND E = 0 \<Longrightarrow> fst (verify_record d sentinel F st) AND E = fst st AND E"
  by (cases st) (simp add: verify_record_def or_disjoint and_not_disjoint)

lemma verify_record_other_found:
  "d' \<noteq> d \<Longrightarrow> snd (verify_record d' sentinel F st) d = snd st d"
  by (cases st) (simp add: verify_record_def)

lemma verify_record_own_flag:
  "fst (verify_record d sentinel E st) AND E =
     (if snd st d then fst st AND E else if sentinel then E else 0)"
  by (cases st) (simp add: verify_record_def or_same and_not_same)

lemma verify_record_own_found:
  "snd (verify_record d sentinel E st) d = (snd st d \<or> \<not> sentinel)"
  by (cases st) (simp add: verify_record_def)

lemma TRIM_names_distinct:
  "TRIM_BANDGAP \<noteq> TRIM_DCDC"
  "TRIM_BANDGAP \<noteq> TRIM_VDDC"
  "TRIM_BANDGAP \<noteq> TRIM_VDDM"
  "TRIM_BANDGAP \<noteq> TRIM_VDDRF"
  "TRIM_BANDGAP \<noteq> TRIM_VDDPA"
  "TRIM_DCDC \<noteq> TRIM_BANDGAP"
  "TRIM_DCDC \<noteq> TRIM_VDDC"
  "TRIM_DCDC \<noteq> TRIM_VDDM"
  "TRIM_DCDC \<noteq> TRIM_VDDRF"
  "TRIM_DCDC \<noteq> TRIM_VDDPA"
  "TRIM_VDDC \<noteq> TRIM_BANDGAP"
  "TRIM_VDDC \<noteq> TRIM_DCDC"
  "TRIM_VDDC \<noteq> TRIM_VDDM"
  "TRIM_VDDC \<noteq> TRIM_VDDRF"
  "TRIM_VDDC \<noteq> TRIM_VDDPA"
  "TRIM_VDDM \<noteq> TRIM_BANDGAP"
  "TRIM_VDDM \<noteq> TRIM_DCDC"
  "TRIM_VDDM \<noteq> TRIM_VDDC"
  "TRIM_VDDM \<noteq> TRIM_VDDRF"
  "TRIM_VDDM \<noteq> TRIM_VDDPA"
  "TRIM_VDDRF \<noteq> TRIM_BANDGAP"
  "TRIM_VDDRF \<noteq> TRIM_DCDC"
  "TRIM_VDDRF \<noteq> TRIM_VDDC"
  "TRIM_VDDRF \<noteq> TRIM_VDDM"
  "TRIM_VDDRF \<noteq> TRIM_VDDPA"
  "TRIM_VDDPA \<noteq> TRIM_BANDGAP"
  "TRIM_VDDPA \<noteq> TRIM_DCDC"
  "TRIM_VDDPA \<noteq> TRIM_VDDC"
  "TRIM_VDDPA \<noteq> TRIM_VDDM"
  "TRIM_VDDPA \<noteq> TRIM_VDDRF"
  by (simp_all add: TRIM_BANDGAP_def TRIM_DCDC_def TRIM_VDDC_def TRIM_VDDM_def TRIM_VDDRF_def
      TRIM_VDDPA_def)

lemma verify_voltage_iter_BG:
  "fst (verify_voltage_iter tr i st) AND ERROR_BG_INVALID =
     (if snd st TRIM_BANDGAP then fst st AND ERROR_BG_INVALID
      else if rec_target (bandgap tr i) = MIN_16_BIT \<or> rec_target (bandgap tr i) = MAX_16_BIT
      then ERROR_BG_INVALID else 0)"
  "snd (verify_voltage_iter tr i st) TRIM_BANDGAP =
     (snd st TRIM_BANDGAP \<or>
      \<not> (rec_target (bandgap tr i) = MIN_16_BIT \<or> rec_target (bandgap tr i) = MAX_16_BIT))"
  by (simp_all add: verify_voltage_iter_def Let_def verify_record_other_flag
      verify_record_other_found verify_record_own_flag verify_record_own_found
      verify_flags_disjoint TRIM_names_distinct)

lemma verify_voltage_iter_DCDC:
  "fst (verify_voltage_iter tr i st) AND ERROR_DCDC_INVALID =
     (if snd st TRIM_DCDC then fst st AND ERROR_DCDC_INVALID
      else if rec_target (dcdc tr i) = MIN_16_BIT \<or> rec_target (dcdc tr i) = MAX_16_BIT
      then ERROR_DCDC_INVALID else 0)"
  "snd (verify_voltage_iter tr i st) TRIM_DCDC =
     (snd st TRIM_DCDC \<or>
      \<not> (rec_target (dcdc tr i) = MIN_16_BIT \<or> rec_target (dcdc tr i) = MAX_16_BIT))"
  by (simp_all add: verify_voltage_iter_def Let_def verify_record_other_flag
      verify_record_other_found verify_record_own_flag verify_record_own_found
      verify_flags_disjoint TRIM_names_distinct)

lemma verify_voltage_iter_VDDC:
  "fst (verify_voltage_iter tr i st) AND ERROR_VDDC_INVALID =
     (if snd st TRIM_VDDC then fst st AND ERROR_VDDC_INVALID
      else if rec_target_voltage (vddc tr i) = MIN_8_BIT \<or> rec_target_voltage (vddc tr i) = MAX_8_BIT
      then ERROR_VDDC_INVALID else 0)"
  "snd (verify_voltage_iter tr i st) TRIM_VDDC =
     (snd st TRIM_VDDC \<or>
      \<not> (rec_target_voltage (vddc tr i) = MIN_8_BIT \<or> rec_target_voltage (vddc tr i) = MAX_8_BIT))"
  by (simp_all add: verify_voltage_iter_def Let_def verify_record_other_flag
      verify_record_other_found verify_record_own_flag verify_record_own_found
      verify_flags_disjoint TRIM_names_distinct)

lemma verify_voltage_iter_VDDM:
  "fst (verify_voltage_iter tr i st) AND ERROR_VDDM_INVALID =
     (if snd st TRIM_VDDM then fst st AND ERROR_VDDM_INVALID
      else if rec_target_voltage (vddm tr i) = MIN_8_BIT \<or> rec_target_voltage (vddm tr i) = MAX_8_BIT
      then ERROR_VDDM_INVALID else 0)"
  "snd (verify_voltage_iter tr i st) TRIM_VDDM =
     (snd st TRIM_VDDM \<or>
      \<not> (rec_target_voltage (vddm tr i) = MIN_8_BIT \<or> rec_target_voltage (vddm tr i) = MAX_8_BIT))"
  by (simp_all add: verify_voltage_iter_def Let_def verify_record_other_flag
      verify_record_other_found verify_record_own_flag verify_record_own_found
      verify_flags_disjoint TRIM_names_distinct)

lemma verify_voltage_iter_VDDRF:
  "fst (verify_voltage_iter tr i st) AND ERROR_VDDRF_INVALID =
     (if snd st TRIM_VDDRF then fst st AND ERROR_VDDRF_INVALID
      else if rec_trim (vddrf tr i) = MIN_16_BIT \<or> rec_trim (vddrf tr i) = MAX_16_BIT
      then ERROR_VDDRF_INVALID else 0)"
  "snd (verify_voltage_iter tr i st) TRIM_VDDRF =
     (snd st TRIM_VDDRF \<or>
      \<not> (rec_trim (vddrf tr i) = MIN_16_BIT \<or> rec_trim (vddrf tr i) = MAX_16_BIT))"
  by (simp_all add: verify_voltage_iter_def Let_def verify_record_other_flag
      verify_record_other_found verify_record_own_flag verify_record_own_found
      verify_flags_disjoint TRIM_names_distinct)

lemma verify_voltage_iter_VDDPA:
  "fst (verify_voltage_iter tr i st) AND ERROR_VDDPA_INVALID =
     (if snd st TRIM_VDDPA then fst st AND ERROR_VDDPA_INVALID
      else if rec_target_voltage (vddpa tr i) = MIN_8_BIT \<or> rec_target_voltage (vddpa tr i) = MAX_8_BIT
      then ERROR_VDDPA_INVALID else 0)"
  "snd (verify_voltage_iter tr i st) TRIM_VDDPA =
     (snd st TRIM_VDDPA \<or>
      \<not> (rec_target_voltage (vddpa tr i) = MIN_8_BIT \<or> rec_target_voltage (vddpa tr i) = MAX_8_BIT))"
  by (simp_all add: verify_voltage_iter_def Let_def verify_record_other_flag
      verify_record_other_found verify_record_own_flag verify_record_own_found
      verify_flags_disjoint TRIM_names_distinct)

lemma verify_voltage_iter_other:
  assumes "ERROR_BG_INVALID AND E = 0" "ERROR_DCDC_INVALID AND E = 0" "ERROR_VDDC_INVALID AND E = 0"
    "ERROR_VDDM_INVALID AND E = 0" "ERROR_VDDRF_INVALID AND E = 0" "ERROR_VDDPA_INVALID AND E = 0"
  shows "fst (verify_voltage_iter tr i st) AND E = fst st AND E"
  using assms by (simp add: verify_voltage_iter_def Let_def verify_record_other_flag)

lemma all_less_4: "(\<forall>i<4::nat. P i) \<longleftrightarrow> P 0 \<and> P 1 \<and> P 2 \<and> P 3"
proof -
  have "i < 4 \<longleftrightarrow> i = 0 \<or> i = 1 \<or> i = 2 \<or> i = 3" for i :: nat by auto
  then show ?thesis by auto
qed

text \<open>The first loop, seen through the flag of one domain.\<close>

lemma verify_voltage_loop_BG:
  "fst (verify_voltage_loop tr (r0, (\<lambda>_. False))) AND ERROR_BG_INVALID =
     (if \<forall>i<4. rec_target (bandgap tr i) = MIN_16_BIT \<or> rec_target (bandgap tr i) = MAX_16_BIT
      then ERROR_BG_INVALID else 0)"
  by (simp add: verify_voltage_loop_def verify_voltage_iter_BG all_less_4)

lemma verify_voltage_loop_DCDC:
  "fst (verify_voltage_loop tr (r0, (\<lambda>_. False))) AND ERROR_DCDC_INVALID =
     (if \<forall>i<4. rec_target (dcdc tr i) = MIN_16_BIT \<or> rec_target (dcdc tr i) = MAX_16_BIT
      then ERROR_DCDC_INVALID else 0)"
  by (simp add: verify_voltage_loop_def verify_voltage_iter_DCDC all_less_4)

lemma verify_voltage_loop_VDDC:
  "fst (verify_voltage_loop tr (r0, (\<lambda>_. False))) AND ERROR_VDDC_INVALID =
     (if \<forall>i<4. rec_target_voltage (vddc tr i) = MIN_8_BIT \<or> rec_target_voltage (vddc tr i) = MAX_8_BIT
      then ERROR_VDDC_INVALID else 0)"
  by (simp add: verify_voltage_loop_def verify_voltage_iter_VDDC all_less_4)

lemma verify_voltage_loop_VDDM:
  "fst (verify_voltage_loop tr (r0, (\<lambda>_. False))) AND ERROR_VDDM_INVALID =
     (if \<forall>i<4. rec_target_voltage (vddm tr i) = MIN_8_BIT \<or> rec_target_voltage (vddm tr i) = MAX_8_BIT
      then ERROR_VDDM_INVALID else 0)"
  by (simp add: verify_voltage_loop_def verify_voltage_iter_VDDM all_less_4)

lemma verify_voltage_loop_VDDRF:
  "fst (verify_voltage_loop tr (r0, (\<lambda>_. False))) AND ERROR_VDDRF_INVALID =
     (if \<forall>i<4. rec_trim (vddrf tr i) = MIN_16_BIT \<or> rec_trim (vddrf tr i) = MAX_16_BIT
      then ERROR_VDDRF_INVALID else 0)"
  by (simp add: verify_voltage_loop_def verify_voltage_iter_VDDRF all_less_4)

lemma verify_voltage_loop_VDDPA:
  "fst (verify_voltage_loop tr (r0, (\<lambda>_. False))) AND ERROR_VDDPA_INVALID =
     (if \<forall>i<4. rec_target_voltage (vddpa tr i) = MIN_8_BIT \<or> rec_target_voltage (vddpa tr i) = MAX_8_BIT
      then ERROR_VDDPA_INVALID else 0)"
  by (simp add: verify_voltage_loop_def verify_voltage_iter_VDDPA all_less_4)

lemma verify_voltage_loop_other:
  assumes "ERROR_BG_INVALID AND E = 0" "ERROR_DCDC_INVALID AND E = 0" "ERROR_VDDC_INVALID AND E = 0"
    "ERROR_VDDM_INVALID AND E = 0" "ERROR_VDDRF_INVALID AND E = 0" "ERROR_VDDPA_INVALID AND E = 0"
  shows "fst (verify_voltage_loop tr st) AND E = fst st AND E"
  by (simp add: verify_voltage_loop_def verify_voltage_iter_other[OF assms])

text \<open>The checks after the first loop, seen through one flag.\<close>

lemma set_flag_if_other: "F AND E = 0 \<Longrightarrow> set_flag_if cond F r AND E = r AND E"
  by (simp add: set_flag_if_def or_disjoint)

lemma set_flag_if_own: "set_flag_if cond E r AND E = (if cond then E else r AND E)"
  by (simp add: set_flag_if_def or_same)

lemma verify_rcosc_loop_other:
  "ERROR_RCOSC_INVALID AND E = 0 \<Longrightarrow> verify_rcosc_loop tr i n r AND E = r AND E"
  by (induction n arbitrary: i r) (simp_all add: set_flag_if_other)

lemma verify_rcosc_loop_own:
  "verify_rcosc_loop tr i n r AND ERROR_RCOSC_INVALID =
     (if \<exists>j<n. rec_target (rcosc tr ((i + j) * 2)) = MIN_16_BIT \<or>
                rec_target (rcosc tr ((i + j) * 2)) = MAX_16_BIT
      then ERROR_RCOSC_INVALID else r AND ERROR_RCOSC_INVALID)"
proof (induction n arbitrary: i r)
  case 0
  then show ?case by simp
next
  case (Suc n)
  let ?S = "\<lambda>k. rec_target (rcosc tr (k * 2)) = MIN_16_BIT \<or>
                rec_target (rcosc tr (k * 2)) = MAX_16_BIT"
  have split: "(\<exists>j<Suc n. ?S (i + j)) \<longleftrightarrow> ?S i \<or> (\<exists>j<n. ?S (Suc i + j))"
  proof
    assume "\<exists>j<Suc n. ?S (i + j)"
    then obtain j where j: "j < Suc n" "?S (i + j)" by blast
    show "?S i \<or> (\<exists>j<n. ?S (Suc i + j))"
    proof (cases j)
      case 0
      with j show ?thesis by simp
    next
      case (Suc k)
      with j have "k < n" "?S (Suc i + k)" by simp_all
      then show ?thesis by blast
    qed
  next
    assume "?S i \<or> (\<exists>j<n. ?S (Suc i + j))"
    then show "\<exists>j<Suc n. ?S (i + j)"
    proof
      assume "?S i"
      then have "?S (i + 0)" by simp
      then show ?thesis by blast
    next
      assume "\<exists>j<n. ?S (Suc i + j)"
      then obtain j where "j < n" "?S (Suc i + j)" by blast
      then have "Suc j < Suc n" "?S (i + Suc j)" by simp_all
      then show ?thesis by blast
    qed
  qed
  show ?case
    unfolding split using Suc.IH[of "Suc i"]
    by (auto simp: set_flag_if_own)
qed

lemma verify_single_checks_VDDIF:
  "verify_single_checks hw tr r AND ERROR_VDDIF_INVALID =
     (if rec_target (vddif tr 0) = MIN_16_BIT \<or> rec_target (vddif tr 0) = MAX_16_BIT
      then ERROR_VDDIF_INVALID else r AND ERROR_VDDIF_INVALID)"
  by (auto simp: verify_single_checks_def Let_def set_flag_if_other set_flag_if_own
      verify_rcosc_loop_other verify_rcosc_loop_own verify_flags_disjoint)

lemma verify_single_checks_VDDFLASH:
  "verify_single_checks hw tr r AND ERROR_VDDFLASH_INVALID =
     (if rec_target (vddflash tr 0) = MIN_16_BIT \<or> rec_target (vddflash tr 0) = MAX_16_BIT
      then ERROR_VDDFLASH_INVALID else r AND ERROR_VDDFLASH_INVALID)"
  by (auto simp: verify_single_checks_def Let_def set_flag_if_other set_flag_if_own
      verify_rcosc_loop_other verify_rcosc_loop_own verify_flags_disjoint)

lemma verify_single_checks_RCOSC:
  "verify_single_checks hw tr r AND ERROR_RCOSC_INVALID =
     (if \<exists>j<unat (TRIM_RC_RECORDS hw). rec_target (rcosc tr (j * 2)) = MIN_16_BIT \<or>
          rec_target (rcosc tr (j * 2)) = MAX_16_BIT
      then ERROR_RCOSC_INVALID else r AND ERROR_RCOSC_INVALID)"
  by (auto simp: verify_single_checks_def Let_def set_flag_if_other set_flag_if_own
      verify_rcosc_loop_other verify_rcosc_loop_own verify_flags_disjoint)

lemma verify_single_checks_RCOSC32:
  "verify_single_checks hw tr r AND ERROR_RCOSC32_INVALID =
     (if rec_target (rcosc32 tr 0) = MIN_16_BIT \<or> rec_target (rcosc32 tr 0) = MAX_16_BIT
      then ERROR_RCOSC32_INVALID else r AND ERROR_RCOSC32_INVALID)"
  by (auto simp: verify_single_checks_def Let_def set_flag_if_other set_flag_if_own
      verify_rcosc_loop_other verify_rcosc_loop_own verify_flags_disjoint)

lemma verify_single_checks_LSAD:
  "verify_single_checks hw tr r AND ERROR_LSAD_INVALID =
     (if lsad_trim_hf_offset tr = MIN_16_BIT \<or> lsad_trim_hf_offset tr = MAX_16_BIT \<or>
          lsad_trim_hf_gain tr = MIN_32_BIT \<or> lsad_trim_lf_gain tr = MAX_32_BIT
      then ERROR_LSAD_INVALID else r AND ERROR_LSAD_INVALID)"
  by (auto simp: verify_single_checks_def Let_def set_flag_if_other set_flag_if_own
      verify_rcosc_loop_other verify_rcosc_loop_own verify_flags_disjoint)

lemma verify_single_checks_TEMPERATURE:
  "verify_single_checks hw tr r AND ERROR_TEMPERATURE_INVALID =
     (if temp_sensor_offset tr = MIN_32_BIT \<or> temp_sensor_offset tr = MAX_32_BIT
      then ERROR_TEMPERATURE_INVALID else r AND ERROR_TEMPERATURE_INVALID)"
  by (auto simp: verify_single_checks_def Let_def set_flag_if_other set_flag_if_own
      verify_rcosc_loop_other verify_rcosc_loop_own verify_flags_disjoint)

lemma verify_single_checks_THERMISTOR:
  "verify_single_checks hw tr r AND ERROR_THERMISTOR_INVALID =
     (if rec_bias (thermistor tr 0) = MIN_16_BIT \<or> rec_bias (thermistor tr 0) = MAX_16_BIT
      then ERROR_THERMISTOR_INVALID else r AND ERROR_THERMISTOR_INVALID)"
  by (auto simp: verify_single_checks_def Let_def set_flag_if_other set_flag_if_own
      verify_rcosc_loop_other verify_rcosc_loop_own verify_flags_disjoint)

lemma verify_single_checks_MEASURED:
  "verify_single_checks hw tr r AND ERROR_MEASURED_INVALID =
     (if measured_temp_sensor_30C tr = MIN_16_BIT
          \<or> measured_temp_sensor_30C tr = MAX_16_BIT
          \<or> measured_bandgap_vref_0_75V tr = MIN_16_BIT
          \<or> measured_bandgap_vref_0_75V tr = MAX_16_BIT
          \<or> measured_lsad_vref_1_0V_internal tr = MIN_16_BIT
          \<or> measured_lsad_vref_1_0V_internal tr = MAX_16_BIT
          \<or> measured_wedac_600mV tr = MIN_16_BIT
          \<or> measured_wedac_600mV tr = MAX_16_BIT
      then ERROR_MEASURED_INVALID else r AND ERROR_MEASURED_INVALID)"
  by (auto simp: verify_single_checks_def Let_def set_flag_if_other set_flag_if_own
      verify_rcosc_loop_other verify_rcosc_loop_own verify_flags_disjoint)

lemma verify_single_checks_other:
  assumes "ERROR_VDDIF_INVALID AND E = 0" "ERROR_VDDFLASH_INVALID AND E = 0"
    "ERROR_RCOSC_INVALID AND E = 0" "ERROR_RCOSC32_INVALID AND E = 0" "ERROR_LSAD_INVALID AND E = 0"
    "ERROR_TEMPERATURE_INVALID AND E = 0" "ERROR_THERMISTOR_INVALID AND E = 0"
    "ERROR_MEASURED_INVALID AND E = 0"
  shows "verify_single_checks hw tr r AND E = r AND E"
  using assms
  by (simp add: verify_single_checks_def Let_def set_flag_if_other verify_rcosc_loop_other)

lemma VerifyTrims_eq:
  "Sys_Trim_VerifyTrims hw c (Some tr) s = (verify_ret hw c tr s, snd (CheckCRC_region c tr s))"
  by (simp add: Sys_Trim_VerifyTrims_def verify_ret_def Let_def split: prod.splits)

lemma verify_ret_CRC:
  "verify_ret hw c tr s AND ERROR_INVALID_CRC =
     (if fst (CheckCRC_region c tr s) \<noteq> ERROR_NO_ERROR then ERROR_INVALID_CRC else 0)"
  by (simp add: verify_ret_def verify_single_checks_other verify_voltage_loop_other
      verify_flags_disjoint set_flag_if_own ERROR_NO_ERROR_def)

lemma verify_ret_BG:
  "verify_ret hw c tr s AND ERROR_BG_INVALID =
     (if \<forall>i<4. rec_target (bandgap tr i) = MIN_16_BIT \<or> rec_target (bandgap tr i) = MAX_16_BIT
      then ERROR_BG_INVALID else 0)"
  unfolding verify_ret_def
  by (simp only: verify_single_checks_other verify_flags_disjoint verify_voltage_loop_BG)

lemma verify_ret_DCDC:
  "verify_ret hw c tr s AND ERROR_DCDC_INVALID =
     (if \<forall>i<4. rec_target (dcdc tr i) = MIN_16_BIT \<or> rec_target (dcdc tr i) = MAX_16_BIT
      then ERROR_DCDC_INVALID else 0)"
  unfolding verify_ret_def
  by (simp only: verify_single_checks_other verify_flags_disjoint verify_voltage_loop_DCDC)

lemma verify_ret_VDDC:
  "verify_ret hw c tr s AND ERROR_VDDC_INVALID =
     (if \<forall>i<4. rec_target_voltage (vddc tr i) = MIN_8_BIT \<or> rec_target_voltage (vddc tr i) = MAX_8_BIT
      then ERROR_VDDC_INVALID else 0)"
  unfolding verify_ret_def
  by (simp only: verify_single_checks_other verify_flags_disjoint verify_voltage_loop_VDDC)

lemma verify_ret_VDDM:
  "verify_ret hw c tr s AND ERROR_VDDM_INVALID =
     (if \<forall>i<4. rec_target_voltage (vddm tr i) = MIN_8_BIT \<or> rec_target_voltage (vddm tr i) = MAX_8_BIT
      then ERROR_VDDM_INVALID else 0)"
  unfolding verify_ret_def
  by (simp only: verify_single_checks_other verify_flags_disjoint verify_voltage_loop_VDDM)

text \<open>The VDDRF check of lines 288-301 tests the \<open>trim\<close> member, not the target.\<close>

lemma verify_ret_VDDRF:
  "verify_ret hw c tr s AND ERROR_VDDRF_INVALID =
     (if \<forall>i<4. rec_trim (vddrf tr i) = MIN_16_BIT \<or> rec_trim (vddrf tr i) = MAX_16_BIT
      then ERROR_VDDRF_INVALID else 0)"
  unfolding verify_ret_def
  by (simp only: verify_single_checks_other verify_flags_disjoint verify_voltage_loop_VDDRF)

lemma verify_ret_VDDPA:
  "verify_ret hw c tr s AND ERROR_VDDPA_INVALID =
     (if \<forall>i<4. rec_target_voltage (vddpa tr i) = MIN_8_BIT \<or> rec_target_voltage (vddpa tr i) = MAX_8_BIT
      then ERROR_VDDPA_INVALID else 0)"
  unfolding verify_ret_def
  by (simp only: verify_single_checks_other verify_flags_disjoint verify_voltage_loop_VDDPA)

lemma verify_ret_VDDIF:
  "verify_ret hw c tr s AND ERROR_VDDIF_INVALID =
     (if rec_target (vddif tr 0) = MIN_16_BIT \<or> rec_target (vddif tr 0) = MAX_16_BIT
      then ERROR_VDDIF_INVALID else 0)"
  unfolding verify_ret_def
  by (simp add: verify_single_checks_VDDIF verify_voltage_loop_other verify_flags_disjoint
      set_flag_if_other ERROR_NO_ERROR_def)

lemma verify_ret_VDDFLASH:
  "verify_ret hw c tr s AND ERROR_VDDFLASH_INVALID =
     (if rec_target (vddflash tr 0) = MIN_16_BIT \<or> rec_target (vddflash tr 0) = MAX_16_BIT
      then ERROR_VDDFLASH_INVALID else 0)"
  unfolding verify_ret_def
  by (simp add: verify_single_checks_VDDFLASH verify_voltage_loop_other verify_flags_disjoint
      set_flag_if_other ERROR_NO_ERROR_def)

lemma verify_ret_RCOSC:
  "verify_ret hw c tr s AND ERROR_RCOSC_INVALID =
     (if \<exists>j<unat (TRIM_RC_RECORDS hw). rec_target (rcosc tr (j * 2)) = MIN_16_BIT \<or>
          rec_target (rcosc tr (j * 2)) = MAX_16_BIT
      then ERROR_RCOSC_INVALID else 0)"
  unfolding verify_ret_def
  by (auto simp: verify_single_checks_RCOSC verify_voltage_loop_other verify_flags_disjoint
      set_flag_if_other ERROR_NO_ERROR_def)

lemma verify_ret_RCOSC32:
  "verify_ret hw c tr s AND ERROR_RCOSC32_INVALID =
     (if rec_target (rcosc32 tr 0) = MIN_16_BIT \<or> rec_target (rcosc32 tr 0) = MAX_16_BIT
      then ERROR_RCOSC32_INVALID else 0)"
  unfolding verify_ret_def
  by (simp add: verify_single_checks_RCOSC32 verify_voltage_loop_other verify_flags_disjoint
      set_flag_if_other ERROR_NO_ERROR_def)

text \<open>
  The LSAD gain check of lines 357-362 tests \<open>hf_gain\<close> against \<open>MIN_32_BIT\<close> and
  \<open>lf_gain\<close> against \<open>MAX_32_BIT\<close>.
\<close>

lemma verify_ret_LSAD:
  "verify_ret hw c tr s AND ERROR_LSAD_INVALID =
     (if lsad_trim_hf_offset tr = MIN_16_BIT \<or> lsad_trim_hf_offset tr = MAX_16_BIT \<or>
          lsad_trim_hf_gain tr = MIN_32_BIT \<or> lsad_trim_lf_gain tr = MAX_32_BIT
      then ERROR_LSAD_INVALID else 0)"
  unfolding verify_ret_def
  by (simp add: verify_single_checks_LSAD verify_voltage_loop_other verify_flags_disjoint
      set_flag_if_other ERROR_NO_ERROR_def)

lemma verify_ret_TEMPERATURE:
  "verify_ret hw c tr s AND ERROR_TEMPERATURE_INVALID =
     (if temp_sensor_offset tr = MIN_32_BIT \<or> temp_sensor_offset tr = MAX_32_BIT
      then ERROR_TEMPERATURE_INVALID else 0)"
  unfolding verify_ret_def
  by (simp add: verify_single_checks_TEMPERATURE verify_voltage_loop_other verify_flags_disjoint
      set_flag_if_other ERROR_NO_ERROR_def)

lemma verify_ret_THERMISTOR:
  "verify_ret hw c tr s AND ERROR_THERMISTOR_INVALID =
     (if rec_bias (thermistor tr 0) = MIN_16_BIT \<or> rec_bias (thermistor tr 0) = MAX_16_BIT
      then ERROR_THERMISTOR_INVALID else 0)"
  unfolding verify_ret_def
  by (simp add: verify_single_checks_THERMISTOR verify_voltage_loop_other verify_flags_disjoint
      set_flag_if_other ERROR_NO_ERROR_def)

lemma verify_ret_MEASURED:
  "verify_ret hw c tr s AND ERROR_MEASURED_INVALID =
     (if measured_temp_sensor_30C tr = MIN_16_BIT
          \<or> measured_temp_sensor_30C tr = MAX_16_BIT
          \<or> measured_bandgap_vref_0_75V tr = MIN_16_BIT
          \<or> measured_bandgap_vref_0_75V tr = MAX_16_BIT
          \<or> measured_lsad_vref_1_0V_internal tr = MIN_16_BIT
          \<or> measured_lsad_vref_1_0V_internal tr = MAX_16_BIT
          \<or> measured_wedac_600mV tr = MIN_16_BIT
          \<or> measured_wedac_600mV tr = MAX_16_BIT
      then ERROR_MEASURED_INVALID else 0)"
  unfolding verify_ret_def
  by (simp add: verify_single_checks_MEASURED verify_voltage_loop_other verify_flags_disjoint
      set_flag_if_other ERROR_NO_ERROR_def)


text \<open>
  Claim C5, as stated, fails for the domains that \<open>Sys_Trim_VerifyTrims\<close> checks outside
  its loop over the four voltage records. In the region below every one of these domains
  has a programmed record with a non-sentinel key, and its flag is set all the same:
  \<^item> the RC oscillator flag is raised when any one of the inspected records is a sentinel
    (record 0 is programmed, record 2 is erased);
  \<^item> the VDDIF, VDDFLASH, RC32K and thermistor checks look at record 0 only (record 0 is
    erased, record 1 is programmed);
  \<^item> the measured-reference flag is raised when any one of the four references is a
    sentinel (\<open>temp_sensor_30C\<close> is programmed, the other three are erased).
\<close>

theorem VerifyTrims_partly_programmed_counterexample:
  "MIN_16_BIT = 0 \<and> MAX_16_BIT = 0xFFFF
   \<and> rec_target (rcosc trim_region_partly_programmed 0) = 0x0BB8
   \<and> fst (Sys_Trim_VerifyTrims trim_hw_sample crc_hw_sample (Some trim_region_partly_programmed)
            machine0) AND ERROR_RCOSC_INVALID = ERROR_RCOSC_INVALID
   \<and> ERROR_RCOSC_INVALID \<noteq> 0
   \<and> rec_target (vddif trim_region_partly_programmed 1) = 0x6E
   \<and> fst (Sys_Trim_VerifyTrims trim_hw_sample crc_hw_sample (Some trim_region_partly_programmed)
            machine0) AND ERROR_VDDIF_INVALID = ERROR_VDDIF_INVALID
   \<and> ERROR_VDDIF_INVALID \<noteq> 0
   \<and> rec_target (vddflash trim_region_partly_programmed 1) = 0x6E
   \<and> fst (Sys_Trim_VerifyTrims trim_hw_sample crc_hw_sample (Some trim_region_partly_programmed)
            machine0) AND ERROR_VDDFLASH_INVALID = ERROR_VDDFLASH_INVALID
   \<and> ERROR_VDDFLASH_INVALID \<noteq> 0
   \<and> rec_target (rcosc32 trim_region_partly_programmed 1) = 0x6E
   \<and> fst (Sys_Trim_VerifyTrims trim_hw_sample crc_hw_sample (Some trim_region_partly_programmed)
            machine0) AND ERROR_RCOSC32_INVALID = ERROR_RCOSC32_INVALID
   \<and> ERROR_RCOSC32_INVALID \<noteq> 0
   \<and> rec_bias (thermistor trim_region_partly_programmed 1) = 0x6E
   \<and> fst (Sys_Trim_VerifyTrims trim_hw_sample crc_hw_sample (Some trim_region_partly_programmed)
            machine0) AND ERROR_THERMISTOR_INVALID = ERROR_THERMISTOR_INVALID
   \<and> ERROR_THERMISTOR_INVALID \<noteq> 0
   \<and> measured_temp_sensor_30C trim_region_partly_programmed = 0x0123
   \<and> fst (Sys_Trim_VerifyTrims trim_hw_sample crc_hw_sample (Some trim_region_partly_programmed)
            machine0) AND ERROR_MEASURED_INVALID = ERROR_MEASURED_INVALID
   \<and> ERROR_MEASURED_INVALID \<noteq> 0"
proof -
  let ?R = trim_region_partly_programmed
  let ?ret = "verify_ret trim_hw_sample crc_hw_sample ?R machine0"
  have vals: "rec_target (rcosc ?R 0) = 0x0BB8" "rec_target (vddif ?R 1) = 0x6E"
    "rec_target (vddflash ?R 1) = 0x6E" "rec_target (rcosc32 ?R 1) = 0x6E"
    "rec_bias (thermistor ?R 1) = 0x6E" "measured_temp_sensor_30C ?R = 0x0123"
    by (simp_all add: trim_region_partly_programmed_def trim_region_erased_def
        table_rcosc_3MHz_only_def table_record_1_only_def rec_target_def rec_bias_def)
  have e: "\<exists>j<unat (TRIM_RC_RECORDS trim_hw_sample).
             rec_target (rcosc ?R (j * 2)) = MIN_16_BIT \<or>
             rec_target (rcosc ?R (j * 2)) = MAX_16_BIT"
  proof (intro exI conjI)
    show "(1::nat) < unat (TRIM_RC_RECORDS trim_hw_sample)" by (simp add: trim_hw_sample_def)
    show "rec_target (rcosc ?R (1 * 2)) = MIN_16_BIT \<or>
          rec_target (rcosc ?R (1 * 2)) = MAX_16_BIT"
      by (simp add: trim_region_partly_programmed_def trim_region_erased_def
          table_rcosc_3MHz_only_def rec_target_def MAX_16_BIT_def)
  qed
  have rc: "?ret AND ERROR_RCOSC_INVALID = ERROR_RCOSC_INVALID"
    using e by (simp only: verify_ret_RCOSC if_True)
  have first: "rec_target (vddif ?R 0) = MAX_16_BIT" "rec_target (vddflash ?R 0) = MAX_16_BIT"
    "rec_target (rcosc32 ?R 0) = MAX_16_BIT" "rec_bias (thermistor ?R 0) = MAX_16_BIT"
    "measured_bandgap_vref_0_75V ?R = MAX_16_BIT"
    by (simp_all add: trim_region_partly_programmed_def trim_region_erased_def
        table_record_1_only_def rec_target_def rec_bias_def MAX_16_BIT_def)
  have fl: "?ret AND ERROR_VDDIF_INVALID = ERROR_VDDIF_INVALID"
    "?ret AND ERROR_VDDFLASH_INVALID = ERROR_VDDFLASH_INVALID"
    "?ret AND ERROR_RCOSC32_INVALID = ERROR_RCOSC32_INVALID"
    "?ret AND ERROR_THERMISTOR_INVALID = ERROR_THERMISTOR_INVALID"
    "?ret AND ERROR_MEASURED_INVALID = ERROR_MEASURED_INVALID"
    by (simp_all add: verify_ret_VDDIF verify_ret_VDDFLASH verify_ret_RCOSC32
        verify_ret_THERMISTOR verify_ret_MEASURED first)
  have c: "MIN_16_BIT = 0" "MAX_16_BIT = 0xFFFF"
    by (simp_all add: MIN_16_BIT_def MAX_16_BIT_def)
  show ?thesis
    using vals rc fl c by (simp add: VerifyTrims_eq verify_flags_nonzero)
qed

text \<open>
  Claim C5 (amended). For every non-null trim region \<open>Sys_Trim_VerifyTrims\<close> returns a
  bitmask in which
  \<^item> \<open>ERROR_INVALID_CRC\<close> is set exactly when \<open>Sys_Trim_CheckCRC\<close> does not return
    \<open>ERROR_NO_ERROR\<close>;
  \<^item> the bandgap, DCDC, VDDC, VDDM and VDDPA flags are set exactly when none of the
    domain's four redundant records has a non-sentinel target;
  \<^item> the VDDIF, VDDFLASH and RC32K flags are set exactly when the domain's first record
    has a sentinel target, and the thermistor flag exactly when its first record has a
    sentinel bias;
  \<^item> the RC oscillator flag is set exactly when at least one of the \<open>TRIM_RC_RECORDS\<close>
    records at the even indices has a sentinel target;
  \<^item> the temperature flag is set exactly when the temperature sensor offset is all zero
    bits or all one bits, and the measured-reference flag exactly when at least one of
    the four measured references is.
  Every one of these flags is decided by its own domain's data alone. The statement does
  not cover the VDDRF and LSAD flags.
\<close>

theorem Sys_Trim_VerifyTrims_mask:
  "\<exists>ret s'. Sys_Trim_VerifyTrims hw c (Some tr) s = (ret, s')
     \<and> (ret AND ERROR_INVALID_CRC \<noteq> 0 \<longleftrightarrow>
          map_option fst (Sys_Trim_CheckCRC c (Some tr) s) \<noteq> Some ERROR_NO_ERROR)
     \<and> (ret AND ERROR_BG_INVALID \<noteq> 0 \<longleftrightarrow>
          (\<forall>i<4. rec_target (bandgap tr i) = MIN_16_BIT \<or> rec_target (bandgap tr i) = MAX_16_BIT))
     \<and> (ret AND ERROR_DCDC_INVALID \<noteq> 0 \<longleftrightarrow>
          (\<forall>i<4. rec_target (dcdc tr i) = MIN_16_BIT \<or> rec_target (dcdc tr i) = MAX_16_BIT))
     \<and> (ret AND ERROR_VDDC_INVALID \<noteq> 0 \<longleftrightarrow>
          (\<forall>i<4. rec_target_voltage (vddc tr i) = MIN_8_BIT \<or>
                  rec_target_voltage (vddc tr i) = MAX_8_BIT))
     \<and> (ret AND ERROR_VDDM_INVALID \<noteq> 0 \<longleftrightarrow>
          (\<forall>i<4. rec_target_voltage (vddm tr i) = MIN_8_BIT \<or>
                  rec_target_voltage (vddm tr i) = MAX_8_BIT))
     \<and> (ret AND ERROR_VDDPA_INVALID \<noteq> 0 \<longleftrightarrow>
          (\<forall>i<4. rec_target_voltage (vddpa tr i) = MIN_8_BIT \<or>
                  rec_target_voltage (vddpa tr i) = MAX_8_BIT))
     \<and> (ret AND ERROR_VDDIF_INVALID \<noteq> 0 \<longleftrightarrow>
          rec_target (vddif tr 0) = MIN_16_BIT \<or> rec_target (vddif tr 0) = MAX_16_BIT)
     \<and> (ret AND ERROR_VDDFLASH_INVALID \<noteq> 0 \<longleftrightarrow>
          rec_target (vddflash tr 0) = MIN_16_BIT \<or> rec_target (vddflash tr 0) = MAX_16_BIT)
     \<and> (ret AND ERROR_RCOSC_INVALID \<noteq> 0 \<longleftrightarrow>
          (\<exists>j<unat (TRIM_RC_RECORDS hw). rec_target (rcosc tr (j * 2)) = MIN_16_BIT \<or>
                  rec_target (rcosc tr (j * 2)) = MAX_16_BIT))
     \<and> (ret AND ERROR_RCOSC32_INVALID \<noteq> 0 \<longleftrightarrow>
          rec_target (rcosc32 tr 0) = MIN_16_BIT \<or> rec_target (rcosc32 tr 0) = MAX_16_BIT)
     \<and> (ret AND ERROR_TEMPERATURE_INVALID \<noteq> 0 \<longleftrightarrow>
          temp_sensor_offset tr = MIN_32_BIT \<or> temp_sensor_offset tr = MAX_32_BIT)
     \<and> (ret AND ERROR_THERMISTOR_INVALID \<noteq> 0 \<longleftrightarrow>
          rec_bias (thermistor tr 0) = MIN_16_BIT \<or> rec_bias (thermistor tr 0) = MAX_16_BIT)
     \<and> (ret AND ERROR_MEASURED_INVALID \<noteq> 0 \<longleftrightarrow>
          measured_temp_sensor_30C tr = MIN_16_BIT
          \<or> measured_temp_sensor_30C tr = MAX_16_BIT
          \<or> measured_bandgap_vref_0_75V tr = MIN_16_BIT
          \<or> measured_bandgap_vref_0_75V tr = MAX_16_BIT
          \<or> measured_lsad_vref_1_0V_internal tr = MIN_16_BIT
          \<or> measured_lsad_vref_1_0V_internal tr = MAX_16_BIT
          \<or> measured_wedac_600mV tr = MIN_16_BIT
          \<or> measured_wedac_600mV tr = MAX_16_BIT)"
proof (intro exI conjI)
  show "Sys_Trim_VerifyTrims hw c (Some tr) s =
          (verify_ret hw c tr s, snd (CheckCRC_region c tr s))"
    by (rule VerifyTrims_eq)
  show "verify_ret hw c tr s AND ERROR_INVALID_CRC \<noteq> 0 \<longleftrightarrow>
          map_option fst (Sys_Trim_CheckCRC c (Some tr) s) \<noteq> Some ERROR_NO_ERROR"
    by (simp add: verify_ret_CRC verify_flags_nonzero Sys_Trim_CheckCRC_def)
qed (simp_all add: verify_ret_BG verify_ret_DCDC verify_ret_VDDC verify_ret_VDDM
      verify_ret_VDDPA verify_ret_VDDIF verify_ret_VDDFLASH verify_ret_RCOSC verify_ret_RCOSC32
      verify_ret_TEMPERATURE verify_ret_THERMISTOR verify_ret_MEASURED
      verify_flags_nonzero)

theorem Sys_Trim_VerifyTrims_mask_witness:
  "rec_target (bandgap trim_region_vddc_normal_only 0) = MAX_16_BIT
   \<and> rec_target (bandgap trim_region_vddc_normal_only 1) = MAX_16_BIT
   \<and> rec_target (bandgap trim_region_vddc_normal_only 2) = MAX_16_BIT
   \<and> rec_target (bandgap trim_region_vddc_normal_only 3) = MAX_16_BIT
   \<and> rec_target_voltage (vddc trim_region_vddc_normal_only 1) = 0x73
   \<and> fst (Sys_Trim_VerifyTrims trim_hw_sample crc_hw_sample (Some trim_region_vddc_normal_only)
            machine0) AND ERROR_BG_INVALID \<noteq> 0
   \<and> fst (Sys_Trim_VerifyTrims trim_hw_sample crc_hw_sample (Some trim_region_vddc_normal_only)
            machine0) AND ERROR_VDDC_INVALID = 0"
proof -
  have bg: "\<forall>i<4. rec_target (bandgap trim_region_vddc_normal_only i) = MIN_16_BIT \<or>
           rec_target (bandgap trim_region_vddc_normal_only i) = MAX_16_BIT"
    by (simp add: trim_region_vddc_normal_only_def trim_region_erased_def table_ones_def
        rec_target_def MAX_16_BIT_def)
  have "\<not> (rec_target_voltage (vddc trim_region_vddc_normal_only 1) = MIN_8_BIT \<or>
            rec_target_voltage (vddc trim_region_vddc_normal_only 1) = MAX_8_BIT)"
    by (simp add: trim_region_vddc_normal_only_def trim_region_erased_def
        table_vddc_normal_only_def rec_target_voltage_def MIN_8_BIT_def MAX_8_BIT_def)
  then have vddc: "\<not> (\<forall>i<4. rec_target_voltage (vddc trim_region_vddc_normal_only i) = MIN_8_BIT \<or>
               rec_target_voltage (vddc trim_region_vddc_normal_only i) = MAX_8_BIT)"
    by (intro notI) (drule spec[of _ 1], simp)
  from Sys_Trim_VerifyTrims_mask[of trim_hw_sample crc_hw_sample trim_region_vddc_normal_only
      machine0]
  have "fst (Sys_Trim_VerifyTrims trim_hw_sample crc_hw_sample (Some trim_region_vddc_normal_only)
            machine0) AND ERROR_BG_INVALID \<noteq> 0
   \<and> fst (Sys_Trim_VerifyTrims trim_hw_sample crc_hw_sample (Some trim_region_vddc_normal_only)
            machine0) AND ERROR_VDDC_INVALID = 0"
  proof (elim exE conjE)
    fix ret s'
    assume r: "Sys_Trim_VerifyTrims trim_hw_sample crc_hw_sample
        (Some trim_region_vddc_normal_only) machine0 = (ret, s')"
    and b: "ret AND ERROR_BG_INVALID \<noteq> 0 \<longleftrightarrow>
          (\<forall>i<4. rec_target (bandgap trim_region_vddc_normal_only i) = MIN_16_BIT \<or>
                  rec_target (bandgap trim_region_vddc_normal_only i) = MAX_16_BIT)"
    and v: "ret AND ERROR_VDDC_INVALID \<noteq> 0 \<longleftrightarrow>
          (\<forall>i<4. rec_target_voltage (vddc trim_region_vddc_normal_only i) = MIN_8_BIT \<or>
                  rec_target_voltage (vddc trim_region_vddc_normal_only i) = MAX_8_BIT)"
    from b bg have "ret AND ERROR_BG_INVALID \<noteq> 0" by blast
    moreover from v vddc have "ret AND ERROR_VDDC_INVALID = 0" by blast
    ultimately show ?thesis using r by simp
  qed
  moreover have "rec_target (bandgap trim_region_vddc_normal_only i) = MAX_16_BIT" for i
    by (simp add: trim_region_vddc_normal_only_def trim_region_erased_def table_ones_def
        rec_target_def MAX_16_BIT_def)
  moreover have "rec_target_voltage (vddc trim_region_vddc_normal_only 1) = 0x73"
    by (simp add: trim_region_vddc_normal_only_def trim_region_erased_def
        table_vddc_normal_only_def rec_target_voltage_def)
  ultimately show ?thesis by simp
qed
section \<open>RF front end: TX power\<close>

subsection \<open>Sys_RFFE_SetTXPower\<close>

lemma write8_r8 [simp]: "r8 (write8 r v s) = (r8 s)(r := v)"
  and write8_r32 [simp]: "r32 (write8 r v s) = r32 s"
  and write8_wlog [simp]: "wlog (write8 r v s) = wlog s @ [W8 r]"
  and write32_r8 [simp]: "r8 (write32 q w s) = r8 s"
  and write32_r32 [simp]: "r32 (write32 q w s) = (r32 s)(q := w)"
  and write32_wlog [simp]: "wlog (write32 q w s) = wlog s @ [W32 q]"
  by (simp_all add: write8_def write32_def)

lemma sint_small [simp]: "sint (0 :: int8_t) = 0" "sint (1 :: int8_t) = 1" "sint (3 :: int8_t) = 3"
  by simp_all

lemma c_arith_0 [simp]: "c_rem 1 3 = 1" "c_rem (- 1) 3 = - 1" "c_div 0 3 = 0"
  by (simp_all add: c_rem_def c_div_def)

text \<open>A target of +3 dBm takes the PA path whatever \<open>pa_en\<close> is.\<close>

lemma SetTXPower_target_3:
  assumes "lsad_channel \<le> MAX_LSAD_CHANNEL"
  shows "Sys_RFFE_SetTXPower hw trims vcc 3 lsad_channel pa_en s =
           Sys_RFFE_SetTXPower_VDDPA hw trims 3 (ucast lsad_channel) s"
  using assms
  by (simp add: Sys_RFFE_SetTXPower_def Let_def not_less[symmetric] RF_MAX_POWER_def
      RF_MIN_POWER_def RF_MAX_POWER_NO_VDDPA_def ERROR_NO_ERROR_def
      ERRNO_RFFE_INVALIDSETTING_ERROR_def ERRNO_TX_POWER_MARKER_def)

lemma NoVDDPA_target_0:
  "Sys_RFFE_SetTXPower_NoVDDPA hw trims vcc 0 lsad_channel s =
     Some (ERROR_NO_ERROR,
       NoVDDPA_restore (unat lsad_channel) (r32 s LSAD_CFG) (r32 s ACS_AOUT_CTRL)
         (r32 s (LSAD_INPUT_SEL (unat lsad_channel))) 0x0C
         (write8 RF0_BIAS_0_2_BIAS_0_IQ_RXTX_BYTE PA_DISABLE_BIAS_SETTING
           (write8 ACS_VDDRF_CTRL_VTRIM_BYTE (ucast (rec_trim (vddrf trims 1)))
             (disable_dynamic_VDDPA hw trims
               (write32 ACS_AOUT_CTRL
                 ((r32 s ACS_AOUT_CTRL AND
                   NOT (ACS_AOUT_CTRL_TEST_AOUT_Mask hw OR ACS_AOUT_CTRL_AOUT_TO_GPIO_Mask hw)) OR
                  (AOUT_NOT_CONNECTED_TO_GPIO hw OR SEL_AOUT_TO_GPIO hw))
                 (write32 ACS_AOUT_CTRL
                   (r32 s ACS_AOUT_CTRL AND
                    NOT (ACS_AOUT_CTRL_TEST_AOUT_Mask hw OR ACS_AOUT_CTRL_AOUT_TO_GPIO_Mask hw))
                   (write32 (LSAD_INPUT_SEL (unat lsad_channel))
                     (LSAD_POS_INPUT_AOUT hw OR LSAD_NEG_INPUT_GND hw)
                     (write32 LSAD_CFG
                       (if RSL15_CID_is_202 hw then LSAD_NORMAL hw OR LSAD_PRESCALE_200 hw
                        else LSAD_NORMAL hw OR LSAD_PRESCALE_200 hw OR VBAT_DIV2_ENABLE hw)
                       s))))))))"
  by (simp add: Sys_RFFE_SetTXPower_NoVDDPA_def Let_def RF_NO_VDDPA_TYPICAL_POWER_def
      NoVDDPA_pa_pwr_def PA_PWR_BYTE_0DBM_def)

lemma SetTXPower_target_0:
  assumes "lsad_channel \<le> MAX_LSAD_CHANNEL"
  shows "Sys_RFFE_SetTXPower hw trims vcc 0 lsad_channel pa_en s =
           Sys_RFFE_SetTXPower_NoVDDPA hw trims vcc 0 (ucast lsad_channel) s"
  using assms
  by (simp add: Sys_RFFE_SetTXPower_def Let_def not_less[symmetric] RF_MAX_POWER_def
      RF_MIN_POWER_def RF_MAX_POWER_NO_VDDPA_def ERROR_NO_ERROR_def NoVDDPA_target_0
      ERRNO_RFFE_INVALIDSETTING_ERROR_def ERRNO_RFFE_VCC_INSUFFICIENT_def
      ERRNO_TX_POWER_MARKER_def)


lemma unat_ucast_8_32 [simp]: "unat (ucast (c :: uint8_t) :: uint32_t) = unat c"
  by transfer simp

lemma NoVDDPA_restore_wlog:
  "wlog (NoVDDPA_restore ch a b c 0x0C s) =
     wlog s @ [W32 LSAD_CFG, W32 ACS_AOUT_CTRL, W32 (LSAD_INPUT_SEL ch),
               W8 RF0_REG1A_PA_PWR_PA_PWR_BYTE]"
  by (simp add: NoVDDPA_restore_def Let_def)

lemma NoVDDPA_restore_r8:
  "r8 (NoVDDPA_restore ch a b c 0x0C s) = (r8 s)(RF0_REG1A_PA_PWR_PA_PWR_BYTE := 0x0C)"
  by (simp add: NoVDDPA_restore_def Let_def)

lemma NoVDDPA_restore_r32:
  "r32 (NoVDDPA_restore ch a b c 0x0C s) =
     (r32 s)(LSAD_CFG := a, ACS_AOUT_CTRL := b, LSAD_INPUT_SEL ch := c)"
  by (simp add: NoVDDPA_restore_def Let_def)

lemma disable_dynamic_VDDPA_wlog:
  "wlog (disable_dynamic_VDDPA hw trims s) =
     wlog s @ [W8 SYSCTRL_VDDPA_CFG0_DYNAMIC_CTRL_BYTE, W32 ACS_VDDPA_CTRL]"
  by (simp add: disable_dynamic_VDDPA_def)

lemma disable_dynamic_VDDPA_r8:
  "r8 (disable_dynamic_VDDPA hw trims s) =
     (r8 s)(SYSCTRL_VDDPA_CFG0_DYNAMIC_CTRL_BYTE := DYNAMIC_CTRL_DISABLE_BYTE hw)"
  by (simp add: disable_dynamic_VDDPA_def)

lemma disable_dynamic_VDDPA_r32:
  "r32 (disable_dynamic_VDDPA hw trims s) =
     (r32 s)(ACS_VDDPA_CTRL :=
       VDDPA_INITIAL_TRIM_1P10V hw OR VDDPA_SW_VDDRF hw OR VDDPA_ISENSE_DISABLE hw OR
       VDDPA_DISABLE hw OR
       push_bit (ACS_VDDPA_CTRL_VTRIM_Pos hw) (rec_trim_voltage (vddpa trims 2)))"
  by (simp add: disable_dynamic_VDDPA_def)

lemma NoVDDPA_target_0_effect:
  "\<exists>s'. Sys_RFFE_SetTXPower_NoVDDPA hw trims vcc 0 lsad_channel s = Some (ERROR_NO_ERROR, s')
     \<and> wlog s' = wlog s @
          [W32 LSAD_CFG, W32 (LSAD_INPUT_SEL (unat lsad_channel)), W32 ACS_AOUT_CTRL,
           W32 ACS_AOUT_CTRL, W8 SYSCTRL_VDDPA_CFG0_DYNAMIC_CTRL_BYTE, W32 ACS_VDDPA_CTRL,
           W8 ACS_VDDRF_CTRL_VTRIM_BYTE, W8 RF0_BIAS_0_2_BIAS_0_IQ_RXTX_BYTE,
           W32 LSAD_CFG, W32 ACS_AOUT_CTRL, W32 (LSAD_INPUT_SEL (unat lsad_channel)),
           W8 RF0_REG1A_PA_PWR_PA_PWR_BYTE]
     \<and> r8 s' = (r8 s)
          (SYSCTRL_VDDPA_CFG0_DYNAMIC_CTRL_BYTE := DYNAMIC_CTRL_DISABLE_BYTE hw,
           ACS_VDDRF_CTRL_VTRIM_BYTE := ucast (rec_trim (vddrf trims 1)),
           RF0_BIAS_0_2_BIAS_0_IQ_RXTX_BYTE := PA_DISABLE_BIAS_SETTING,
           RF0_REG1A_PA_PWR_PA_PWR_BYTE := 0x0C)
     \<and> r32 s' = (r32 s)
          (ACS_VDDPA_CTRL :=
             VDDPA_INITIAL_TRIM_1P10V hw OR VDDPA_SW_VDDRF hw OR VDDPA_ISENSE_DISABLE hw OR
             VDDPA_DISABLE hw OR
             push_bit (ACS_VDDPA_CTRL_VTRIM_Pos hw) (rec_trim_voltage (vddpa trims 2)))"
  unfolding NoVDDPA_target_0
proof (intro exI conjI)
  let ?s' = "NoVDDPA_restore (unat lsad_channel) (r32 s LSAD_CFG) (r32 s ACS_AOUT_CTRL)
         (r32 s (LSAD_INPUT_SEL (unat lsad_channel))) 0x0C
         (write8 RF0_BIAS_0_2_BIAS_0_IQ_RXTX_BYTE PA_DISABLE_BIAS_SETTING
           (write8 ACS_VDDRF_CTRL_VTRIM_BYTE (ucast (rec_trim (vddrf trims 1)))
             (disable_dynamic_VDDPA hw trims
               (write32 ACS_AOUT_CTRL
                 ((r32 s ACS_AOUT_CTRL AND
                   NOT (ACS_AOUT_CTRL_TEST_AOUT_Mask hw OR ACS_AOUT_CTRL_AOUT_TO_GPIO_Mask hw)) OR
                  (AOUT_NOT_CONNECTED_TO_GPIO hw OR SEL_AOUT_TO_GPIO hw))
                 (write32 ACS_AOUT_CTRL
                   (r32 s ACS_AOUT_CTRL AND
                    NOT (ACS_AOUT_CTRL_TEST_AOUT_Mask hw OR ACS_AOUT_CTRL_AOUT_TO_GPIO_Mask hw))
                   (write32 (LSAD_INPUT_SEL (unat lsad_channel))
                     (LSAD_POS_INPUT_AOUT hw OR LSAD_NEG_INPUT_GND hw)
                     (write32 LSAD_CFG
                       (if RSL15_CID_is_202 hw then LSAD_NORMAL hw OR LSAD_PRESCALE_200 hw
                        else LSAD_NORMAL hw OR LSAD_PRESCALE_200 hw OR VBAT_DIV2_ENABLE hw)
                       s)))))))"
  show "Some (ERROR_NO_ERROR, ?s') = Some (ERROR_NO_ERROR, ?s')" by (rule refl)
  show "wlog ?s' = wlog s @
          [W32 LSAD_CFG, W32 (LSAD_INPUT_SEL (unat lsad_channel)), W32 ACS_AOUT_CTRL,
           W32 ACS_AOUT_CTRL, W8 SYSCTRL_VDDPA_CFG0_DYNAMIC_CTRL_BYTE, W32 ACS_VDDPA_CTRL,
           W8 ACS_VDDRF_CTRL_VTRIM_BYTE, W8 RF0_BIAS_0_2_BIAS_0_IQ_RXTX_BYTE,
           W32 LSAD_CFG, W32 ACS_AOUT_CTRL, W32 (LSAD_INPUT_SEL (unat lsad_channel)),
           W8 RF0_REG1A_PA_PWR_PA_PWR_BYTE]"
    by (simp add: NoVDDPA_restore_wlog disable_dynamic_VDDPA_wlog)
  show "r8 ?s' = (r8 s)
          (SYSCTRL_VDDPA_CFG0_DYNAMIC_CTRL_BYTE := DYNAMIC_CTRL_DISABLE_BYTE hw,
           ACS_VDDRF_CTRL_VTRIM_BYTE := ucast (rec_trim (vddrf trims 1)),
           RF0_BIAS_0_2_BIAS_0_IQ_RXTX_BYTE := PA_DISABLE_BIAS_SETTING,
           RF0_REG1A_PA_PWR_PA_PWR_BYTE := 0x0C)"
    by (simp add: NoVDDPA_restore_r8 disable_dynamic_VDDPA_r8)
  show "r32 ?s' = (r32 s)
          (ACS_VDDPA_CTRL :=
             VDDPA_INITIAL_TRIM_1P10V hw OR VDDPA_SW_VDDRF hw OR VDDPA_ISENSE_DISABLE hw OR
             VDDPA_DISABLE hw OR
             push_bit (ACS_VDDPA_CTRL_VTRIM_Pos hw) (rec_trim_voltage (vddpa trims 2)))"
    by (rule ext) (simp add: NoVDDPA_restore_r32 disable_dynamic_VDDPA_r32)
qed


subsection \<open>The No-PA path for a target above 0 dBm\<close>

lemma target_1_or_2:
  fixes target :: int8_t
  assumes "0 < sint target" "sint target \<le> 2"
  shows "target = 1 \<or> target = 2"
proof -
  have "sint target = 1 \<or> sint target = 2" using assms by arith
  moreover have "word_of_int (sint target) = target" by simp
  ultimately show ?thesis by (metis word_of_int_1 word_of_int_numeral)
qed

lemma sint_2 [simp]: "sint (2 :: int8_t) = 2"
  by simp

text \<open>
  The comparison of line 232 is made in \<open>uint32_t\<close>: when the measured VCC is at least
  the margin it is the comparison of the whole numbers, and when the measured VCC is below
  the margin the subtraction of line 230 wraps and the comparison is false.
\<close>

lemma vddrf_max_compare:
  fixes target :: int8_t and vcc :: uint32_t
  assumes "target = 1 \<or> target = 2"
  shows "vcc - VCC_VDDRF_MARGIN <
           (word_of_int (TARGET_VDDRF_1070 * 10 + sint target * MV_PER_DBM_VDDRF) :: uint32_t)
         \<longleftrightarrow> 50 \<le> uint vcc \<and> uint vcc - 50 < 1070 + sint target * 75"
proof -
  have b: "uint vcc < 4294967296" using uint_bounded[of vcc] by simp
  show ?thesis
    using assms b
    apply (auto simp: word_less_def uint_sub_if' uint_word_of_int VCC_VDDRF_MARGIN_def
        TARGET_VDDRF_1070_def MV_PER_DBM_VDDRF_def)
    using uint_nonnegative[of vcc] apply arith+
    done
qed

lemma NoVDDPA_restore_ff_wlog:
  "wlog (NoVDDPA_restore ch a b c 0xff s) =
     wlog s @ [W32 LSAD_CFG, W32 ACS_AOUT_CTRL, W32 (LSAD_INPUT_SEL ch)]"
  by (simp add: NoVDDPA_restore_def Let_def)

lemma NoVDDPA_restore_ff_r8:
  "r8 (NoVDDPA_restore ch a b c 0xff s) = r8 s"
  by (simp add: NoVDDPA_restore_def Let_def)

lemma NoVDDPA_restore_ff_r32:
  "r32 (NoVDDPA_restore ch a b c 0xff s) =
     (r32 s)(LSAD_CFG := a, ACS_AOUT_CTRL := b, LSAD_INPUT_SEL ch := c)"
  by (simp add: NoVDDPA_restore_def Let_def)

text \<open>
  When the comparison of line 232 holds, the No-PA attempt returns
  \<open>ERRNO_RFFE_VCC_INSUFFICIENT\<close>; it has written the LSAD and AOUT configuration
  registers only, and has restored them.
\<close>

lemma NoVDDPA_insufficient:
  assumes t: "target = 1 \<or> target = 2"
    and v: "50 \<le> uint vcc" "uint vcc - 50 < 1070 + sint target * 75"
  shows "\<exists>s1. Sys_RFFE_SetTXPower_NoVDDPA hw trims vcc target lsad_channel s =
                 Some (ERRNO_RFFE_VCC_INSUFFICIENT, s1)
            \<and> r32 s1 = r32 s \<and> r8 s1 = r8 s
            \<and> wlog s1 = wlog s @
                 [W32 LSAD_CFG, W32 (LSAD_INPUT_SEL (unat lsad_channel)), W32 ACS_AOUT_CTRL,
                  W32 ACS_AOUT_CTRL, W32 ACS_AOUT_CTRL,
                  W32 LSAD_CFG, W32 ACS_AOUT_CTRL, W32 (LSAD_INPUT_SEL (unat lsad_channel))]"
proof -
  have pos: "RF_NO_VDDPA_TYPICAL_POWER < sint target"
    using t by (auto simp: RF_NO_VDDPA_TYPICAL_POWER_def)
  have cmp: "vcc - VCC_VDDRF_MARGIN <
           (word_of_int (TARGET_VDDRF_1070 * 10 + sint target * MV_PER_DBM_VDDRF) :: uint32_t)"
    using vddrf_max_compare[OF t] v by simp
  show ?thesis
    unfolding Sys_RFFE_SetTXPower_NoVDDPA_def Let_def
    apply (simp only: pos cmp if_True)
    apply (intro exI conjI)
        apply (rule refl)
       apply (rule ext)
       apply (simp add: NoVDDPA_restore_ff_r32)
      apply (simp add: NoVDDPA_restore_ff_r8)
     apply (simp add: NoVDDPA_restore_ff_wlog)
    done
qed

text \<open>
  When the measured VCC is below the margin, the No-PA attempt finds the supply sufficient:
  it writes the VDDPA control registers, raises the VDDRF trim, disables the PA bias and
  sets \<open>PA_PWR\<close>.
\<close>

lemma NoVDDPA_below_margin:
  assumes t: "target = 1 \<or> target = 2"
    and v: "vcc < VCC_VDDRF_MARGIN"
  shows "\<exists>s1. Sys_RFFE_SetTXPower_NoVDDPA hw trims vcc target lsad_channel s =
                 Some (ERROR_NO_ERROR, s1)
            \<and> r32 s1 = (r32 s)
                 (ACS_VDDPA_CTRL :=
                    VDDPA_INITIAL_TRIM_1P10V hw OR VDDPA_SW_VDDRF hw OR VDDPA_ISENSE_DISABLE hw OR
                    VDDPA_DISABLE hw OR
                    push_bit (ACS_VDDPA_CTRL_VTRIM_Pos hw) (rec_trim_voltage (vddpa trims 2)))
            \<and> r8 s1 = (r8 s)
                 (SYSCTRL_VDDPA_CFG0_DYNAMIC_CTRL_BYTE := DYNAMIC_CTRL_DISABLE_BYTE hw,
                  ACS_VDDRF_CTRL_VTRIM_BYTE :=
                    word_of_int (uint (rec_trim (vddrf trims 1)) + sint target * STEPS_PER_DBM_VDDRF),
                  RF0_BIAS_0_2_BIAS_0_IQ_RXTX_BYTE := PA_DISABLE_BIAS_SETTING,
                  RF0_REG1A_PA_PWR_PA_PWR_BYTE := 0x0C)"
proof -
  have pos: "RF_NO_VDDPA_TYPICAL_POWER < sint target"
    using t by (auto simp: RF_NO_VDDPA_TYPICAL_POWER_def)
  have "\<not> 50 \<le> uint vcc"
    using v by (simp add: word_less_def VCC_VDDRF_MARGIN_def)
  hence cmp: "\<not> vcc - VCC_VDDRF_MARGIN <
           (word_of_int (TARGET_VDDRF_1070 * 10 + sint target * MV_PER_DBM_VDDRF) :: uint32_t)"
    using vddrf_max_compare[OF t] by simp
  have pa: "(word_of_int PA_PWR_BYTE_0DBM :: uint8_t) = 0x0C"
    by (simp add: PA_PWR_BYTE_0DBM_def)
  show ?thesis
    unfolding Sys_RFFE_SetTXPower_NoVDDPA_def Let_def
    apply (simp only: pos cmp if_True if_False pa)
    apply (intro exI conjI)
      apply (rule refl)
     apply (rule ext)
     apply (simp add: NoVDDPA_restore_r32 disable_dynamic_VDDPA_r32)
    apply (simp add: NoVDDPA_restore_r8 disable_dynamic_VDDPA_r8)
    done
qed

lemma SetTXPower_NoPA_positive:
  assumes ch: "lsad_channel \<le> MAX_LSAD_CHANNEL" and t: "target = 1 \<or> target = 2"
  shows "Sys_RFFE_SetTXPower hw trims vcc target lsad_channel False s =
          (case Sys_RFFE_SetTXPower_NoVDDPA hw trims vcc target (ucast lsad_channel) s of
             None \<Rightarrow> None
           | Some (e, s1) \<Rightarrow>
               if e = ERRNO_RFFE_VCC_INSUFFICIENT then
                 (case Sys_RFFE_SetTXPower_VDDPA hw trims target (ucast lsad_channel) s1 of
                    None \<Rightarrow> None
                  | Some (e2, s2) \<Rightarrow> Some (e OR e2, s2))
               else Some (e, s1))"
  using ch t
  by (auto simp: Sys_RFFE_SetTXPower_def Let_def not_less[symmetric] RF_MAX_POWER_def
      RF_MIN_POWER_def RF_MAX_POWER_NO_VDDPA_def ERROR_NO_ERROR_def
      ERRNO_RFFE_INVALIDSETTING_ERROR_def ERRNO_TX_POWER_MARKER_def)

text \<open>
  The fallback of lines 66-70: for a measured VCC of at least the margin that is too low for
  the target, \<open>Sys_RFFE_SetTXPower\<close> runs the PA path on the restored registers and returns
  \<open>ERRNO_RFFE_VCC_INSUFFICIENT\<close> or-ed with the PA path's result.
\<close>

lemma SetTXPower_insufficient_fallback:
  assumes ch: "lsad_channel \<le> MAX_LSAD_CHANNEL" and t: "target = 1 \<or> target = 2"
    and v: "50 \<le> uint vcc" "uint vcc - 50 < 1070 + sint target * 75"
  shows "\<exists>s1. Sys_RFFE_SetTXPower_NoVDDPA hw trims vcc target (ucast lsad_channel) s =
                 Some (ERRNO_RFFE_VCC_INSUFFICIENT, s1)
            \<and> r32 s1 = r32 s \<and> r8 s1 = r8 s
            \<and> Sys_RFFE_SetTXPower hw trims vcc target lsad_channel False s =
                (case Sys_RFFE_SetTXPower_VDDPA hw trims target (ucast lsad_channel) s1 of
                   None \<Rightarrow> None
                 | Some (e2, s2) \<Rightarrow> Some (ERRNO_RFFE_VCC_INSUFFICIENT OR e2, s2))"
proof -
  obtain s1 where r: "Sys_RFFE_SetTXPower_NoVDDPA hw trims vcc target (ucast lsad_channel) s =
                 Some (ERRNO_RFFE_VCC_INSUFFICIENT, s1)"
    and k: "r32 s1 = r32 s" "r8 s1 = r8 s"
    using NoVDDPA_insufficient[OF t v, of hw trims "ucast lsad_channel" s] by blast
  have "Sys_RFFE_SetTXPower hw trims vcc target lsad_channel False s =
                (case Sys_RFFE_SetTXPower_VDDPA hw trims target (ucast lsad_channel) s1 of
                   None \<Rightarrow> None
                 | Some (e2, s2) \<Rightarrow> Some (ERRNO_RFFE_VCC_INSUFFICIENT OR e2, s2))"
    unfolding SetTXPower_NoPA_positive[OF ch t] r by simp
  with r k show ?thesis by blast
qed

lemma SetTXPower_below_margin:
  assumes ch: "lsad_channel \<le> MAX_LSAD_CHANNEL" and t: "target = 1 \<or> target = 2"
    and v: "vcc < VCC_VDDRF_MARGIN"
  shows "\<exists>s1. Sys_RFFE_SetTXPower hw trims vcc target lsad_channel False s =
                 Some (ERROR_NO_ERROR, s1)
            \<and> r32 s1 = (r32 s)
                 (ACS_VDDPA_CTRL :=
                    VDDPA_INITIAL_TRIM_1P10V hw OR VDDPA_SW_VDDRF hw OR VDDPA_ISENSE_DISABLE hw OR
                    VDDPA_DISABLE hw OR
                    push_bit (ACS_VDDPA_CTRL_VTRIM_Pos hw) (rec_trim_voltage (vddpa trims 2)))
            \<and> r8 s1 = (r8 s)
                 (SYSCTRL_VDDPA_CFG0_DYNAMIC_CTRL_BYTE := DYNAMIC_CTRL_DISABLE_BYTE hw,
                  ACS_VDDRF_CTRL_VTRIM_BYTE :=
                    word_of_int (uint (rec_trim (vddrf trims 1)) + sint target * STEPS_PER_DBM_VDDRF),
                  RF0_BIAS_0_2_BIAS_0_IQ_RXTX_BYTE := PA_DISABLE_BIAS_SETTING,
                  RF0_REG1A_PA_PWR_PA_PWR_BYTE := 0x0C)"
proof -
  have ne: "ERROR_NO_ERROR \<noteq> ERRNO_RFFE_VCC_INSUFFICIENT"
    by (simp add: ERROR_NO_ERROR_def ERRNO_RFFE_VCC_INSUFFICIENT_def ERRNO_TX_POWER_MARKER_def)
  obtain s1 where r: "Sys_RFFE_SetTXPower_NoVDDPA hw trims vcc target (ucast lsad_channel) s =
                 Some (ERROR_NO_ERROR, s1)"
    and k: "r32 s1 = (r32 s)
                 (ACS_VDDPA_CTRL :=
                    VDDPA_INITIAL_TRIM_1P10V hw OR VDDPA_SW_VDDRF hw OR VDDPA_ISENSE_DISABLE hw OR
                    VDDPA_DISABLE hw OR
                    push_bit (ACS_VDDPA_CTRL_VTRIM_Pos hw) (rec_trim_voltage (vddpa trims 2)))"
       "r8 s1 = (r8 s)
                 (SYSCTRL_VDDPA_CFG0_DYNAMIC_CTRL_BYTE := DYNAMIC_CTRL_DISABLE_BYTE hw,
                  ACS_VDDRF_CTRL_VTRIM_BYTE :=
                    word_of_int (uint (rec_trim (vddrf trims 1)) + sint target * STEPS_PER_DBM_VDDRF),
                  RF0_BIAS_0_2_BIAS_0_IQ_RXTX_BYTE := PA_DISABLE_BIAS_SETTING,
                  RF0_REG1A_PA_PWR_PA_PWR_BYTE := 0x0C)"
    using NoVDDPA_below_margin[OF t v, of hw trims "ucast lsad_channel" s] by blast
  have "Sys_RFFE_SetTXPower hw trims vcc target lsad_channel False s = Some (ERROR_NO_ERROR, s1)"
    unfolding SetTXPower_NoPA_positive[OF ch t] r using ne by simp
  with k show ?thesis by blast
qed

text \<open>
  Claim C1. A call \<open>Sys_RFFE_SetTXPower (target, lsad_channel, pa_en)\<close> that takes the No-PA
  path with a target above 0 dBm (\<open>pa_en\<close> false, target 1 or 2, a valid LSAD channel) and
  measures a VCC that, less the 50 mV margin, is below the VDDRF level the target needs,
  is to return \<open>ERRNO_RFFE_VCC_INSUFFICIENT\<close> or-ed with the result of the PA path, the
  No-PA attempt leaving every register as it was. Lemma
  \<open>SetTXPower_insufficient_fallback\<close> shows this for a measured VCC of at least 50 mV.
  For a measured VCC below 50 mV the code does otherwise: \<open>vddrf_max\<close> is a \<open>uint32_t\<close>, the
  subtraction of line 230 wraps, the test of line 232 finds the supply sufficient, and the
  call returns \<open>ERROR_NO_ERROR\<close> from the No-PA path with the VDDPA control, VDDRF trim,
  PA bias and \<open>PA_PWR\<close> registers written and the PA path never run, against the comment of
  lines 234-235 (\<open>If VCC is too low to support the required VDDRF, return an error. Do not
  change any settings.\<close>).
\<close>

theorem Sys_RFFE_SetTXPower_vcc_below_margin:
  "lsad_channel \<le> MAX_LSAD_CHANNEL \<and> (target = 1 \<or> target = 2) \<and> vcc < VCC_VDDRF_MARGIN \<longrightarrow>
     (\<exists>s1. Sys_RFFE_SetTXPower hw trims vcc target lsad_channel False s =
              Some (ERROR_NO_ERROR, s1)
         \<and> r32 s1 = (r32 s)
              (ACS_VDDPA_CTRL :=
                 VDDPA_INITIAL_TRIM_1P10V hw OR VDDPA_SW_VDDRF hw OR VDDPA_ISENSE_DISABLE hw OR
                 VDDPA_DISABLE hw OR
                 push_bit (ACS_VDDPA_CTRL_VTRIM_Pos hw) (rec_trim_voltage (vddpa trims 2)))
         \<and> r8 s1 = (r8 s)
              (SYSCTRL_VDDPA_CFG0_DYNAMIC_CTRL_BYTE := DYNAMIC_CTRL_DISABLE_BYTE hw,
               ACS_VDDRF_CTRL_VTRIM_BYTE :=
                 word_of_int (uint (rec_trim (vddrf trims 1)) + sint target * STEPS_PER_DBM_VDDRF),
               RF0_BIAS_0_2_BIAS_0_IQ_RXTX_BYTE := PA_DISABLE_BIAS_SETTING,
               RF0_REG1A_PA_PWR_PA_PWR_BYTE := 0x0C))"
  using SetTXPower_below_margin[of lsad_channel target vcc hw trims s] by blast

theorem Sys_RFFE_SetTXPower_vcc_below_margin_witness:
  "(6 :: uint8_t) \<le> MAX_LSAD_CHANNEL \<and> (20 :: uint32_t) < VCC_VDDRF_MARGIN
   \<and> Sys_RFFE_SetTXPower rffe_hw_sample trims_sample 20 1 6 False machine0 \<noteq> None
   \<and> fst (the (Sys_RFFE_SetTXPower rffe_hw_sample trims_sample 20 1 6 False machine0)) =
       ERROR_NO_ERROR
   \<and> ERROR_NO_ERROR \<noteq> ERRNO_RFFE_VCC_INSUFFICIENT
   \<and> r32 machine0 ACS_VDDPA_CTRL = 0
   \<and> r32 (snd (the (Sys_RFFE_SetTXPower rffe_hw_sample trims_sample 20 1 6 False machine0)))
        ACS_VDDPA_CTRL = 0x03002020
   \<and> r8 machine0 ACS_VDDRF_CTRL_VTRIM_BYTE = 0
   \<and> r8 (snd (the (Sys_RFFE_SetTXPower rffe_hw_sample trims_sample 20 1 6 False machine0)))
        ACS_VDDRF_CTRL_VTRIM_BYTE = 0x1E
   \<and> r8 (snd (the (Sys_RFFE_SetTXPower rffe_hw_sample trims_sample 20 1 6 False machine0)))
        RF0_REG1A_PA_PWR_PA_PWR_BYTE = 0x0C"
proof -
  have ch: "(6 :: uint8_t) \<le> MAX_LSAD_CHANNEL" by (simp add: MAX_LSAD_CHANNEL_def)
  have v: "(20 :: uint32_t) < VCC_VDDRF_MARGIN" by (simp add: VCC_VDDRF_MARGIN_def)
  have ne: "ERROR_NO_ERROR \<noteq> ERRNO_RFFE_VCC_INSUFFICIENT"
    by (simp add: ERROR_NO_ERROR_def ERRNO_RFFE_VCC_INSUFFICIENT_def ERRNO_TX_POWER_MARKER_def)
  have m: "r32 machine0 ACS_VDDPA_CTRL = 0" "r8 machine0 ACS_VDDRF_CTRL_VTRIM_BYTE = 0"
    by (simp_all add: machine0_def)
  have "\<exists>s1. Sys_RFFE_SetTXPower rffe_hw_sample trims_sample 20 1 6 False machine0 =
              Some (ERROR_NO_ERROR, s1)
         \<and> r32 s1 = (r32 machine0)
              (ACS_VDDPA_CTRL :=
                 VDDPA_INITIAL_TRIM_1P10V rffe_hw_sample OR VDDPA_SW_VDDRF rffe_hw_sample OR
                 VDDPA_ISENSE_DISABLE rffe_hw_sample OR VDDPA_DISABLE rffe_hw_sample OR
                 push_bit (ACS_VDDPA_CTRL_VTRIM_Pos rffe_hw_sample)
                   (rec_trim_voltage (vddpa trims_sample 2)))
         \<and> r8 s1 = (r8 machine0)
              (SYSCTRL_VDDPA_CFG0_DYNAMIC_CTRL_BYTE := DYNAMIC_CTRL_DISABLE_BYTE rffe_hw_sample,
               ACS_VDDRF_CTRL_VTRIM_BYTE :=
                 word_of_int (uint (rec_trim (vddrf trims_sample 1)) + sint (1 :: int8_t) * STEPS_PER_DBM_VDDRF),
               RF0_BIAS_0_2_BIAS_0_IQ_RXTX_BYTE := PA_DISABLE_BIAS_SETTING,
               RF0_REG1A_PA_PWR_PA_PWR_BYTE := 0x0C)"
    using Sys_RFFE_SetTXPower_vcc_below_margin[of 6 1 20 rffe_hw_sample trims_sample machine0]
      ch v by blast
  then obtain s1 where r: "Sys_RFFE_SetTXPower rffe_hw_sample trims_sample 20 1 6 False machine0 =
              Some (ERROR_NO_ERROR, s1)"
    and k32: "r32 s1 = (r32 machine0)
              (ACS_VDDPA_CTRL :=
                 VDDPA_INITIAL_TRIM_1P10V rffe_hw_sample OR VDDPA_SW_VDDRF rffe_hw_sample OR
                 VDDPA_ISENSE_DISABLE rffe_hw_sample OR VDDPA_DISABLE rffe_hw_sample OR
                 push_bit (ACS_VDDPA_CTRL_VTRIM_Pos rffe_hw_sample)
                   (rec_trim_voltage (vddpa trims_sample 2)))"
    and k8: "r8 s1 = (r8 machine0)
              (SYSCTRL_VDDPA_CFG0_DYNAMIC_CTRL_BYTE := DYNAMIC_CTRL_DISABLE_BYTE rffe_hw_sample,
               ACS_VDDRF_CTRL_VTRIM_BYTE :=
                 word_of_int (uint (rec_trim (vddrf trims_sample 1)) + sint (1 :: int8_t) * STEPS_PER_DBM_VDDRF),
               RF0_BIAS_0_2_BIAS_0_IQ_RXTX_BYTE := PA_DISABLE_BIAS_SETTING,
               RF0_REG1A_PA_PWR_PA_PWR_BYTE := 0x0C)"
    by (elim exE conjE)
  have a: "r32 s1 ACS_VDDPA_CTRL = 0x03002020"
    unfolding k32
    by (simp add: rffe_hw_sample_def trims_sample_def trim_region_erased_def table_vddpa_sample_def
        rec_trim_voltage_def)
  have b: "r8 s1 ACS_VDDRF_CTRL_VTRIM_BYTE = 0x1E"
    unfolding k8
    by (simp add: trims_sample_def trim_region_erased_def table_vddrf_sample_def
        rec_trim_def STEPS_PER_DBM_VDDRF_def)
  have c: "r8 s1 RF0_REG1A_PA_PWR_PA_PWR_BYTE = 0x0C"
    unfolding k8 by simp
  show ?thesis using ch v ne m r a b c by simp
qed

text \<open>
  Claim C4, as stated, fails in its last part: for a target of 0 dBm the No-PA path does
  not write only the VDDRF trim and \<open>PA_PWR\<close>. It also writes the dynamic VDDPA control
  byte and the whole of \<open>ACS->VDDPA_CTRL\<close>, enable bits included (line 262), the PA bias
  byte, and the LSAD and AOUT configuration registers, which it restores. On a machine
  whose \<open>ACS->VDDPA_CTRL\<close> is all ones the register is \<open>0x03002020\<close> afterwards.
\<close>

theorem SetTXPower_target_0_writes_VDDPA_counterexample:
  "Sys_RFFE_SetTXPower rffe_hw_sample trims_sample 0 0 6 False machine_vddpa_on \<noteq> None
   \<and> fst (the (Sys_RFFE_SetTXPower rffe_hw_sample trims_sample 0 0 6 False machine_vddpa_on)) =
       ERROR_NO_ERROR
   \<and> wlog (snd (the (Sys_RFFE_SetTXPower rffe_hw_sample trims_sample 0 0 6 False
                       machine_vddpa_on))) =
       [W32 LSAD_CFG, W32 (LSAD_INPUT_SEL 6), W32 ACS_AOUT_CTRL, W32 ACS_AOUT_CTRL,
        W8 SYSCTRL_VDDPA_CFG0_DYNAMIC_CTRL_BYTE, W32 ACS_VDDPA_CTRL,
        W8 ACS_VDDRF_CTRL_VTRIM_BYTE, W8 RF0_BIAS_0_2_BIAS_0_IQ_RXTX_BYTE,
        W32 LSAD_CFG, W32 ACS_AOUT_CTRL, W32 (LSAD_INPUT_SEL 6),
        W8 RF0_REG1A_PA_PWR_PA_PWR_BYTE]
   \<and> r32 machine_vddpa_on ACS_VDDPA_CTRL = 0xFFFFFFFF
   \<and> r32 (snd (the (Sys_RFFE_SetTXPower rffe_hw_sample trims_sample 0 0 6 False
                      machine_vddpa_on))) ACS_VDDPA_CTRL = 0x03002020"
proof -
  have ch: "(6 :: uint8_t) \<le> MAX_LSAD_CHANNEL" by (simp add: MAX_LSAD_CHANNEL_def)
  obtain s' where r: "Sys_RFFE_SetTXPower_NoVDDPA rffe_hw_sample trims_sample 0 0 (ucast (6 :: uint8_t))
                        machine_vddpa_on = Some (ERROR_NO_ERROR, s')"
    and w: "wlog s' = wlog machine_vddpa_on @
          [W32 LSAD_CFG, W32 (LSAD_INPUT_SEL (unat (ucast (6 :: uint8_t) :: uint32_t))),
           W32 ACS_AOUT_CTRL,
           W32 ACS_AOUT_CTRL, W8 SYSCTRL_VDDPA_CFG0_DYNAMIC_CTRL_BYTE, W32 ACS_VDDPA_CTRL,
           W8 ACS_VDDRF_CTRL_VTRIM_BYTE, W8 RF0_BIAS_0_2_BIAS_0_IQ_RXTX_BYTE,
           W32 LSAD_CFG, W32 ACS_AOUT_CTRL,
           W32 (LSAD_INPUT_SEL (unat (ucast (6 :: uint8_t) :: uint32_t))),
           W8 RF0_REG1A_PA_PWR_PA_PWR_BYTE]"
    and v: "r32 s' = (r32 machine_vddpa_on)
          (ACS_VDDPA_CTRL :=
             VDDPA_INITIAL_TRIM_1P10V rffe_hw_sample OR VDDPA_SW_VDDRF rffe_hw_sample OR
             VDDPA_ISENSE_DISABLE rffe_hw_sample OR VDDPA_DISABLE rffe_hw_sample OR
             push_bit (ACS_VDDPA_CTRL_VTRIM_Pos rffe_hw_sample)
               (rec_trim_voltage (vddpa trims_sample 2)))"
    using NoVDDPA_target_0_effect[of rffe_hw_sample trims_sample 0 "ucast (6 :: uint8_t)"
        machine_vddpa_on] by blast
  have "Sys_RFFE_SetTXPower rffe_hw_sample trims_sample 0 0 6 False machine_vddpa_on =
          Some (ERROR_NO_ERROR, s')"
    using SetTXPower_target_0[OF ch] r by simp
  moreover have "r32 s' ACS_VDDPA_CTRL = 0x03002020"
    unfolding v
    by (simp add: rffe_hw_sample_def trims_sample_def trim_region_erased_def table_vddpa_sample_def
        rec_trim_voltage_def)
  moreover have "wlog machine_vddpa_on = []" "r32 machine_vddpa_on ACS_VDDPA_CTRL = 0xFFFFFFFF"
    by (simp_all add: machine_vddpa_on_def machine0_def)
  ultimately show ?thesis using w by simp
qed

text \<open>
  Claim C4 (amended). For every valid LSAD channel,
  \<open>Sys_RFFE_SetTXPower (target = 3, lsad_channel, pa_en = false)\<close> selects the PA path
  (\<open>Sys_RFFE_SetTXPower_VDDPA\<close>), and
  \<open>Sys_RFFE_SetTXPower (target = 0, lsad_channel, pa_en = false)\<close> selects the No-PA path,
  which succeeds and leaves the nominal trim in the VDDRF trim register and \<open>0x0C\<close> in
  \<open>PA_PWR\<close>. The No-PA path also switches VDDPA off: it writes
  \<open>DYNAMIC_CTRL_DISABLE_BYTE\<close> to the dynamic VDDPA control byte and rewrites
  \<open>ACS->VDDPA_CTRL\<close> with \<open>VDDPA_DISABLE\<close>, \<open>VDDPA_SW_VDDRF\<close> and the VDDPA trim; it writes
  the PA bias byte; and it writes the LSAD and AOUT configuration registers and restores
  them. It writes no other register.
\<close>

theorem Sys_RFFE_SetTXPower_path_selection:
  "lsad_channel \<le> MAX_LSAD_CHANNEL \<longrightarrow>
     Sys_RFFE_SetTXPower hw trims vcc 3 lsad_channel False s =
       Sys_RFFE_SetTXPower_VDDPA hw trims 3 (ucast lsad_channel) s
     \<and> Sys_RFFE_SetTXPower hw trims vcc 0 lsad_channel False s =
         Sys_RFFE_SetTXPower_NoVDDPA hw trims vcc 0 (ucast lsad_channel) s
     \<and> (\<exists>s'. Sys_RFFE_SetTXPower hw trims vcc 0 lsad_channel False s = Some (ERROR_NO_ERROR, s')
          \<and> wlog s' = wlog s @
               [W32 LSAD_CFG, W32 (LSAD_INPUT_SEL (unat lsad_channel)), W32 ACS_AOUT_CTRL,
                W32 ACS_AOUT_CTRL, W8 SYSCTRL_VDDPA_CFG0_DYNAMIC_CTRL_BYTE, W32 ACS_VDDPA_CTRL,
                W8 ACS_VDDRF_CTRL_VTRIM_BYTE, W8 RF0_BIAS_0_2_BIAS_0_IQ_RXTX_BYTE,
                W32 LSAD_CFG, W32 ACS_AOUT_CTRL, W32 (LSAD_INPUT_SEL (unat lsad_channel)),
                W8 RF0_REG1A_PA_PWR_PA_PWR_BYTE]
          \<and> r8 s' = (r8 s)
               (SYSCTRL_VDDPA_CFG0_DYNAMIC_CTRL_BYTE := DYNAMIC_CTRL_DISABLE_BYTE hw,
                ACS_VDDRF_CTRL_VTRIM_BYTE := ucast (rec_trim (vddrf trims 1)),
                RF0_BIAS_0_2_BIAS_0_IQ_RXTX_BYTE := PA_DISABLE_BIAS_SETTING,
                RF0_REG1A_PA_PWR_PA_PWR_BYTE := 0x0C)
          \<and> r32 s' = (r32 s)
               (ACS_VDDPA_CTRL :=
                  VDDPA_INITIAL_TRIM_1P10V hw OR VDDPA_SW_VDDRF hw OR VDDPA_ISENSE_DISABLE hw OR
                  VDDPA_DISABLE hw OR
                  push_bit (ACS_VDDPA_CTRL_VTRIM_Pos hw) (rec_trim_voltage (vddpa trims 2))))"
proof (intro impI conjI)
  assume ch: "lsad_channel \<le> MAX_LSAD_CHANNEL"
  show "Sys_RFFE_SetTXPower hw trims vcc 3 lsad_channel False s =
       Sys_RFFE_SetTXPower_VDDPA hw trims 3 (ucast lsad_channel) s"
    by (rule SetTXPower_target_3[OF ch])
  show eq0: "Sys_RFFE_SetTXPower hw trims vcc 0 lsad_channel False s =
         Sys_RFFE_SetTXPower_NoVDDPA hw trims vcc 0 (ucast lsad_channel) s"
    by (rule SetTXPower_target_0[OF ch])
  show "\<exists>s'. Sys_RFFE_SetTXPower hw trims vcc 0 lsad_channel False s = Some (ERROR_NO_ERROR, s')
          \<and> wlog s' = wlog s @
               [W32 LSAD_CFG, W32 (LSAD_INPUT_SEL (unat lsad_channel)), W32 ACS_AOUT_CTRL,
                W32 ACS_AOUT_CTRL, W8 SYSCTRL_VDDPA_CFG0_DYNAMIC_CTRL_BYTE, W32 ACS_VDDPA_CTRL,
                W8 ACS_VDDRF_CTRL_VTRIM_BYTE, W8 RF0_BIAS_0_2_BIAS_0_IQ_RXTX_BYTE,
                W32 LSAD_CFG, W32 ACS_AOUT_CTRL, W32 (LSAD_INPUT_SEL (unat lsad_channel)),
                W8 RF0_REG1A_PA_PWR_PA_PWR_BYTE]
          \<and> r8 s' = (r8 s)
               (SYSCTRL_VDDPA_CFG0_DYNAMIC_CTRL_BYTE := DYNAMIC_CTRL_DISABLE_BYTE hw,
                ACS_VDDRF_CTRL_VTRIM_BYTE := ucast (rec_trim (vddrf trims 1)),
                RF0_BIAS_0_2_BIAS_0_IQ_RXTX_BYTE := PA_DISABLE_BIAS_SETTING,
                RF0_REG1A_PA_PWR_PA_PWR_BYTE := 0x0C)
          \<and> r32 s' = (r32 s)
               (ACS_VDDPA_CTRL :=
                  VDDPA_INITIAL_TRIM_1P10V hw OR VDDPA_SW_VDDRF hw OR VDDPA_ISENSE_DISABLE hw OR
                  VDDPA_DISABLE hw OR
                  push_bit (ACS_VDDPA_CTRL_VTRIM_Pos hw) (rec_trim_voltage (vddpa trims 2)))"
    unfolding eq0
    using NoVDDPA_target_0_effect[of hw trims vcc "ucast lsad_channel" s] by simp
qed

theorem Sys_RFFE_SetTXPower_path_selection_witness:
  "(6 :: uint8_t) \<le> MAX_LSAD_CHANNEL
   \<and> Sys_RFFE_SetTXPower rffe_hw_sample trims_sample 3300 3 6 False machine0 =
       Sys_RFFE_SetTXPower_VDDPA rffe_hw_sample trims_sample 3 6 machine0
   \<and> Sys_RFFE_SetTXPower rffe_hw_sample trims_sample 3300 0 6 False machine0 =
       Sys_RFFE_SetTXPower_NoVDDPA rffe_hw_sample trims_sample 3300 0 6 machine0"
proof -
  have ch: "(6 :: uint8_t) \<le> MAX_LSAD_CHANNEL" by (simp add: MAX_LSAD_CHANNEL_def)
  from Sys_RFFE_SetTXPower_path_selection[of 6 rffe_hw_sample trims_sample 3300 machine0] ch
  show ?thesis by simp
qed
subsection \<open>Power modes\<close>

lemma write_ram_ram [simp]: "ram (write_ram a v s) = (ram s)(a := v)"
  and write_ram_r32 [simp]: "r32 (write_ram a v s) = r32 s"
  and write_ram_r8 [simp]: "r8 (write_ram a v s) = r8 s"
  and write_ram_wlog [simp]: "wlog (write_ram a v s) = wlog s"
  and write32_ram [simp]: "ram (write32 q w s) = ram s"
  by (simp_all add: write_ram_def write32_def)

lemma Sys_CRC_Add32_ram [simp]: "ram (Sys_CRC_Add32 c w s) = ram s"
  by (simp add: Sys_CRC_Add32_def Let_def)

lemma Sys_CRC_Add32_other:
  "q \<noteq> CRC_ADD_32 \<Longrightarrow> q \<noteq> CRC_VALUE \<Longrightarrow> r32 (Sys_CRC_Add32 c w s) q = r32 s q"
  by (simp add: Sys_CRC_Add32_def Let_def)

lemma CalculateCRC_loop_ram [simp]: "ram (CalculateCRC_loop c p n s) = ram s"
  by (induction n arbitrary: p s) simp_all

lemma CalculateCRC_loop_other:
  "q \<noteq> CRC_ADD_32 \<Longrightarrow> q \<noteq> CRC_VALUE \<Longrightarrow> r32 (CalculateCRC_loop c p n s) q = r32 s q"
  by (induction n arbitrary: p s) (simp_all add: Sys_CRC_Add32_other)

text \<open>The loop folds the words at \<open>cptr\<close>, \<open>cptr + 4\<close>, ... into \<open>CRC->VALUE\<close>.\<close>

lemma CalculateCRC_loop_VALUE:
  "r32 (CalculateCRC_loop c p n s) CRC_VALUE =
     foldl (crc_add32 c (r32 s CRC_CFG)) (r32 s CRC_VALUE)
       (map (\<lambda>i. ram s (p + 4 * of_nat i)) [0..<n])"
proof (induction n arbitrary: p s)
  case 0
  show ?case by simp
next
  case (Suc n)
  have l: "[0..<Suc n] = 0 # map Suc [0..<n]"
    by (simp add: upt_conv_Cons map_Suc_upt del: upt_Suc)
  have a: "p + 4 + 4 * of_nat i = p + 4 * of_nat (Suc i)" for i
    by (simp add: algebra_simps)
  show ?case
    unfolding l
    by (simp add: Suc.IH Sys_CRC_Add32_CFG Sys_CRC_Add32_VALUE a comp_def del: upt_Suc of_nat_Suc)
qed

lemma upt_7: "[0..<7] = [0, 1, 2, 3, 4, 5, 6]"
  by (simp add: upt_rec)

text \<open>
  \<open>_Sys_PowerModes_CalculateCRC\<close> returns the CRC-32 of the seven words at
  \<open>&__Wakeup_addr\<close> and leaves the RAM and every register outside the CRC peripheral as
  they are.
\<close>

lemma CalculateCRC_value:
  "fst (Sys_PowerModes_CalculateCRC hw c s) =
     wake_block_crc c
       [ram s (Wakeup_addr hw), ram s (Wakeup_addr hw + 4), ram s (Wakeup_addr hw + 8),
        ram s (Wakeup_addr hw + 12), ram s (Wakeup_addr hw + 16), ram s (Wakeup_addr hw + 20),
        ram s (Wakeup_addr hw + 24)]"
  by (simp add: Sys_PowerModes_CalculateCRC_def Let_def Sys_CRC_GetFinalValue_def
      CalculateCRC_loop_VALUE CalculateCRC_loop_other wake_block_crc_def upt_7
      Sys_CRC_32InitValue_def Sys_Set_CRC_Config_def)

lemma CalculateCRC_ram [simp]: "ram (snd (Sys_PowerModes_CalculateCRC hw c s)) = ram s"
  by (simp add: Sys_PowerModes_CalculateCRC_def Let_def Sys_CRC_32InitValue_def
      Sys_Set_CRC_Config_def)

lemma CalculateCRC_other:
  "q \<noteq> CRC_ADD_32 \<Longrightarrow> q \<noteq> CRC_VALUE \<Longrightarrow> q \<noteq> CRC_CFG \<Longrightarrow>
     r32 (snd (Sys_PowerModes_CalculateCRC hw c s)) q = r32 s q"
  by (simp add: Sys_PowerModes_CalculateCRC_def Let_def Sys_CRC_32InitValue_def
      Sys_Set_CRC_Config_def CalculateCRC_loop_other)

text \<open>The RAM after \<open>_Sys_PowerModes_Sleep_MemoryRetention\<close>.\<close>

lemma MemoryRetention_ram:
  "ram (Sys_PowerModes_Sleep_MemoryRetention hw c p cfg s) =
     (let m = (ram s)(app_ptr hw := stack_addr hw, app_ptr hw + 4 := r32 s SCB_VTOR,
                      app_ptr hw + 8 := WakeupFromRAM_addr hw, app_ptr hw + 12 := 0,
                      app_ptr hw + 16 := 0, app_ptr hw + 20 := 0, app_ptr hw + 24 := 0)
      in m(app_ptr hw + 28 :=
             wake_block_crc c
               [m (Wakeup_addr hw), m (Wakeup_addr hw + 4), m (Wakeup_addr hw + 8),
                m (Wakeup_addr hw + 12), m (Wakeup_addr hw + 16), m (Wakeup_addr hw + 20),
                m (Wakeup_addr hw + 24)]))"
  by (simp add: Sys_PowerModes_Sleep_MemoryRetention_def Let_def split_beta CalculateCRC_value)

lemma MemoryRetention_WAKEUP_ADDR:
  "r32 (Sys_PowerModes_Sleep_MemoryRetention hw c p cfg s) SYSCTRL_WAKEUP_ADDR = Wakeup_addr hw"
  by (simp add: Sys_PowerModes_Sleep_MemoryRetention_def Let_def split_beta)

lemma WakeupFromRAM_loop_id: "WakeupFromRAM_loop n s = s"
  by (induction n) simp_all

text \<open>
  Claim C2, as stated, fails in the number of reserved words: the block has four reserved
  zero words, \<open>app_ptr[3]\<close> to \<open>app_ptr[6]\<close> (lines 236-239, \<open>Reserved 0\<close> to
  \<open>Reserved 3\<close>), and the CRC is \<open>app_ptr[7]\<close>. With the stack at \<open>0x20010000\<close>, the
  vector table at \<open>0x00100000\<close> and the wake entry at \<open>0x20000401\<close> the word after three
  reserved zero words, \<open>app_ptr[6]\<close>, is zero and not the CRC, which is \<open>0xFFEEFBFE\<close> under
  the stand-in for the CRC hardware.
\<close>

theorem MemoryRetention_reserved_words_counterexample:
  "app_ptr power_hw_sample = 0x20000000
   \<and> ram (Sys_PowerModes_Sleep_MemoryRetention power_hw_sample crc_hw_sample 0x20000800
            sleep_cfg_no_app machine_vtor) 0x2000000C = 0
   \<and> ram (Sys_PowerModes_Sleep_MemoryRetention power_hw_sample crc_hw_sample 0x20000800
            sleep_cfg_no_app machine_vtor) 0x20000010 = 0
   \<and> ram (Sys_PowerModes_Sleep_MemoryRetention power_hw_sample crc_hw_sample 0x20000800
            sleep_cfg_no_app machine_vtor) 0x20000014 = 0
   \<and> ram (Sys_PowerModes_Sleep_MemoryRetention power_hw_sample crc_hw_sample 0x20000800
            sleep_cfg_no_app machine_vtor) 0x20000018 = 0
   \<and> ram (Sys_PowerModes_Sleep_MemoryRetention power_hw_sample crc_hw_sample 0x20000800
            sleep_cfg_no_app machine_vtor) 0x2000001C = 0xFFEEFBFE
   \<and> wake_block_crc crc_hw_sample [0x20010000, 0x00100000, 0x20000401, 0, 0, 0, 0] = 0xFFEEFBFE"
  by (simp add: MemoryRetention_ram Let_def power_hw_sample_def machine_vtor_def machine0_def
      wake_block_crc_def crc_hw_sample_def xor_add_def id_final_def)

text \<open>
  Claim C2 (amended). When entering sleep with memory retention,
  \<open>_Sys_PowerModes_Sleep_MemoryRetention\<close> writes the wake configuration block into the
  linker-reserved RAM region, at \<open>app_ptr\<close>, as 8 contiguous 32-bit words: the stack
  pointer (\<open>&__stack\<close>), the vector table base (\<open>SCB->VTOR\<close>), the wake entry address
  (\<open>_Sys_PowerModes_WakeupFromRAM\<close>), 4 reserved zero words, and a CRC as the final word;
  and it sets the hardware wakeup-address register (\<open>SYSCTRL->WAKEUP_ADDR\<close>) to the
  address the linker gives the region as \<open>__Wakeup_addr\<close>. The CRC is the CRC-32 of the
  seven words at \<open>&__Wakeup_addr\<close>, read after the first seven words of the block are
  written: where \<open>__Wakeup_addr\<close> is at \<open>app_ptr\<close> it is the CRC-32 of the first seven
  words of the block. No other RAM word is changed.
\<close>

theorem Sys_PowerModes_Sleep_MemoryRetention_block:
  "ram (Sys_PowerModes_Sleep_MemoryRetention hw c p cfg s) (app_ptr hw) = stack_addr hw
   \<and> ram (Sys_PowerModes_Sleep_MemoryRetention hw c p cfg s) (app_ptr hw + 4) = r32 s SCB_VTOR
   \<and> ram (Sys_PowerModes_Sleep_MemoryRetention hw c p cfg s) (app_ptr hw + 8) =
       WakeupFromRAM_addr hw
   \<and> ram (Sys_PowerModes_Sleep_MemoryRetention hw c p cfg s) (app_ptr hw + 12) = 0
   \<and> ram (Sys_PowerModes_Sleep_MemoryRetention hw c p cfg s) (app_ptr hw + 16) = 0
   \<and> ram (Sys_PowerModes_Sleep_MemoryRetention hw c p cfg s) (app_ptr hw + 20) = 0
   \<and> ram (Sys_PowerModes_Sleep_MemoryRetention hw c p cfg s) (app_ptr hw + 24) = 0
   \<and> ram (Sys_PowerModes_Sleep_MemoryRetention hw c p cfg s) (app_ptr hw + 28) =
       (let m = (ram s)(app_ptr hw := stack_addr hw, app_ptr hw + 4 := r32 s SCB_VTOR,
                        app_ptr hw + 8 := WakeupFromRAM_addr hw, app_ptr hw + 12 := 0,
                        app_ptr hw + 16 := 0, app_ptr hw + 20 := 0, app_ptr hw + 24 := 0)
        in wake_block_crc c
             [m (Wakeup_addr hw), m (Wakeup_addr hw + 4), m (Wakeup_addr hw + 8),
              m (Wakeup_addr hw + 12), m (Wakeup_addr hw + 16), m (Wakeup_addr hw + 20),
              m (Wakeup_addr hw + 24)])
   \<and> (Wakeup_addr hw = app_ptr hw \<longrightarrow>
        ram (Sys_PowerModes_Sleep_MemoryRetention hw c p cfg s) (app_ptr hw + 28) =
          wake_block_crc c
            [stack_addr hw, r32 s SCB_VTOR, WakeupFromRAM_addr hw, 0, 0, 0, 0])
   \<and> (\<forall>a. a \<noteq> app_ptr hw \<and> a \<noteq> app_ptr hw + 4 \<and> a \<noteq> app_ptr hw + 8 \<and>
            a \<noteq> app_ptr hw + 12 \<and> a \<noteq> app_ptr hw + 16 \<and> a \<noteq> app_ptr hw + 20 \<and>
            a \<noteq> app_ptr hw + 24 \<and> a \<noteq> app_ptr hw + 28 \<longrightarrow>
          ram (Sys_PowerModes_Sleep_MemoryRetention hw c p cfg s) a = ram s a)
   \<and> r32 (Sys_PowerModes_Sleep_MemoryRetention hw c p cfg s) SYSCTRL_WAKEUP_ADDR =
       Wakeup_addr hw"
proof (intro conjI impI allI)
  show "r32 (Sys_PowerModes_Sleep_MemoryRetention hw c p cfg s) SYSCTRL_WAKEUP_ADDR =
       Wakeup_addr hw"
    by (rule MemoryRetention_WAKEUP_ADDR)
next
  assume "Wakeup_addr hw = app_ptr hw"
  then show "ram (Sys_PowerModes_Sleep_MemoryRetention hw c p cfg s) (app_ptr hw + 28) =
          wake_block_crc c
            [stack_addr hw, r32 s SCB_VTOR, WakeupFromRAM_addr hw, 0, 0, 0, 0]"
    by (simp add: MemoryRetention_ram Let_def)
qed (simp_all add: MemoryRetention_ram Let_def)

theorem Sys_PowerModes_Sleep_MemoryRetention_block_witness:
  "Wakeup_addr power_hw_sample = app_ptr power_hw_sample
   \<and> ram (Sys_PowerModes_Sleep_MemoryRetention power_hw_sample crc_hw_sample 0x20000800
            sleep_cfg_no_app machine_vtor) (app_ptr power_hw_sample + 28) =
       wake_block_crc crc_hw_sample [0x20010000, 0x00100000, 0x20000401, 0, 0, 0, 0]
   \<and> wake_block_crc crc_hw_sample [0x20010000, 0x00100000, 0x20000401, 0, 0, 0, 0] = 0xFFEEFBFE
   \<and> (0x20000020 :: uint32_t) \<noteq> app_ptr power_hw_sample + 28
   \<and> ram (Sys_PowerModes_Sleep_MemoryRetention power_hw_sample crc_hw_sample 0x20000800
            sleep_cfg_no_app machine_vtor) 0x20000020 = ram machine_vtor 0x20000020
   \<and> r32 (Sys_PowerModes_Sleep_MemoryRetention power_hw_sample crc_hw_sample 0x20000800
            sleep_cfg_no_app machine_vtor) SYSCTRL_WAKEUP_ADDR = 0x20000000"
proof -
  note t = Sys_PowerModes_Sleep_MemoryRetention_block[of power_hw_sample crc_hw_sample
      "0x20000800" sleep_cfg_no_app machine_vtor]
  have w: "Wakeup_addr power_hw_sample = app_ptr power_hw_sample"
    by (simp add: power_hw_sample_def)
  have v: "stack_addr power_hw_sample = 0x20010000" "r32 machine_vtor SCB_VTOR = 0x00100000"
    "WakeupFromRAM_addr power_hw_sample = 0x20000401" "Wakeup_addr power_hw_sample = 0x20000000"
    by (simp_all add: power_hw_sample_def machine_vtor_def machine0_def)
  have d: "(0x20000020 :: uint32_t) \<noteq> app_ptr power_hw_sample
      \<and> (0x20000020 :: uint32_t) \<noteq> app_ptr power_hw_sample + 4
      \<and> (0x20000020 :: uint32_t) \<noteq> app_ptr power_hw_sample + 8
      \<and> (0x20000020 :: uint32_t) \<noteq> app_ptr power_hw_sample + 12
      \<and> (0x20000020 :: uint32_t) \<noteq> app_ptr power_hw_sample + 16
      \<and> (0x20000020 :: uint32_t) \<noteq> app_ptr power_hw_sample + 20
      \<and> (0x20000020 :: uint32_t) \<noteq> app_ptr power_hw_sample + 24
      \<and> (0x20000020 :: uint32_t) \<noteq> app_ptr power_hw_sample + 28"
    by (simp add: power_hw_sample_def)
  from t w have a: "ram (Sys_PowerModes_Sleep_MemoryRetention power_hw_sample crc_hw_sample 0x20000800
            sleep_cfg_no_app machine_vtor) (app_ptr power_hw_sample + 28) =
       wake_block_crc crc_hw_sample
         [stack_addr power_hw_sample, r32 machine_vtor SCB_VTOR,
          WakeupFromRAM_addr power_hw_sample, 0, 0, 0, 0]"
    by blast
  from t d have b: "ram (Sys_PowerModes_Sleep_MemoryRetention power_hw_sample crc_hw_sample 0x20000800
            sleep_cfg_no_app machine_vtor) 0x20000020 = ram machine_vtor 0x20000020"
    by blast
  from t have e: "r32 (Sys_PowerModes_Sleep_MemoryRetention power_hw_sample crc_hw_sample 0x20000800
            sleep_cfg_no_app machine_vtor) SYSCTRL_WAKEUP_ADDR = Wakeup_addr power_hw_sample"
    by blast
  have k: "wake_block_crc crc_hw_sample [0x20010000, 0x00100000, 0x20000401, 0, 0, 0, 0] = 0xFFEEFBFE"
    by (simp add: wake_block_crc_def crc_hw_sample_def xor_add_def id_final_def)
  from a b e w d k show ?thesis unfolding v by simp
qed

text \<open>
  Claim C3, as stated, fails in the watchdog: with no application return address the
  handler refreshes the watchdog once (line 321) and then runs a loop with an empty body.
  The run observed after 1000 iterations of the loop is the run observed after one: the
  last write is the refresh of line 321, and with a wake-up initialisation that writes
  nothing the log holds that refresh and the one of line 282 only.
\<close>

theorem WakeupFromRAM_no_refresh_in_loop_counterexample:
  "app_addr sleep_cfg_no_app = 0
   \<and> Sys_PowerModes_WakeupFromRAM power_hw_sample (\<lambda>a. sleep_cfg_no_app)
        wakeup_init_returns app_returns 1000 machine0 =
      Sys_PowerModes_WakeupFromRAM power_hw_sample (\<lambda>a. sleep_cfg_no_app)
        wakeup_init_returns app_returns 1 machine0
   \<and> wlog (wk_machine (Sys_PowerModes_WakeupFromRAM power_hw_sample (\<lambda>a. sleep_cfg_no_app)
             wakeup_init_returns app_returns 1000 machine0)) =
       [W32 WATCHDOG_CTRL, W32 WATCHDOG_CTRL]
   \<and> \<not> wk_returned (Sys_PowerModes_WakeupFromRAM power_hw_sample (\<lambda>a. sleep_cfg_no_app)
             wakeup_init_returns app_returns 1000 machine0)"
  by (simp add: Sys_PowerModes_WakeupFromRAM_def Let_def sleep_cfg_no_app_def
      wakeup_init_returns_def WakeupFromRAM_loop_id machine0_def)

text \<open>
  Claim C3 (amended). In the memory-retention wake handler
  \<open>_Sys_PowerModes_WakeupFromRAM\<close>, if the application-supplied return address
  (\<open>app_addr\<close>) is unset, the handler never calls through it and never returns: once the
  wake-up initialisation has returned it refreshes the watchdog once and enters an
  infinite loop with an empty body, which never refreshes the watchdog again. If
  \<open>app_addr\<close> is set, the handler, once the wake-up initialisation has returned,
  tail-calls it: the call is its last action, it writes nothing in this branch, and it
  returns exactly when the application function returns.
\<close>

theorem Sys_PowerModes_WakeupFromRAM_branch:
  "(app_addr (cfg_at (r32 s ACS_GP_DATA)) = 0 \<longrightarrow>
      (\<forall>n. wk_calls (Sys_PowerModes_WakeupFromRAM hw cfg_at wakeup_init app_call n s) = [] \<and>
           \<not> wk_returned (Sys_PowerModes_WakeupFromRAM hw cfg_at wakeup_init app_call n s)))
   \<and> (wakeup_init (cfg_at (r32 s ACS_GP_DATA))
         (write32 WATCHDOG_CTRL (WATCHDOG_REFRESH hw) s) = Some s2 \<and>
       app_addr (cfg_at (r32 s ACS_GP_DATA)) = 0 \<longrightarrow>
      (\<forall>n. wk_machine (Sys_PowerModes_WakeupFromRAM hw cfg_at wakeup_init app_call n s) =
             write32 WATCHDOG_CTRL (WATCHDOG_REFRESH hw) s2))
   \<and> (wakeup_init (cfg_at (r32 s ACS_GP_DATA))
         (write32 WATCHDOG_CTRL (WATCHDOG_REFRESH hw) s) = Some s2 \<and>
       app_addr (cfg_at (r32 s ACS_GP_DATA)) \<noteq> 0 \<longrightarrow>
      (\<forall>n. Sys_PowerModes_WakeupFromRAM hw cfg_at wakeup_init app_call n s =
             (case app_call (app_addr (cfg_at (r32 s ACS_GP_DATA))) s2 of
                None \<Rightarrow> \<lparr>wk_machine = s2,
                         wk_calls = [app_addr (cfg_at (r32 s ACS_GP_DATA))],
                         wk_returned = False\<rparr>
              | Some s3 \<Rightarrow> \<lparr>wk_machine = s3,
                            wk_calls = [app_addr (cfg_at (r32 s ACS_GP_DATA))],
                            wk_returned = True\<rparr>)))"
proof (intro conjI impI allI)
  fix n
  assume "app_addr (cfg_at (r32 s ACS_GP_DATA)) = 0"
  then show "wk_calls (Sys_PowerModes_WakeupFromRAM hw cfg_at wakeup_init app_call n s) = []"
    and "\<not> wk_returned (Sys_PowerModes_WakeupFromRAM hw cfg_at wakeup_init app_call n s)"
    by (simp_all add: Sys_PowerModes_WakeupFromRAM_def Let_def split: option.splits)
next
  fix n
  assume "wakeup_init (cfg_at (r32 s ACS_GP_DATA))
         (write32 WATCHDOG_CTRL (WATCHDOG_REFRESH hw) s) = Some s2 \<and>
       app_addr (cfg_at (r32 s ACS_GP_DATA)) = 0"
  then show "wk_machine (Sys_PowerModes_WakeupFromRAM hw cfg_at wakeup_init app_call n s) =
             write32 WATCHDOG_CTRL (WATCHDOG_REFRESH hw) s2"
    by (simp add: Sys_PowerModes_WakeupFromRAM_def Let_def WakeupFromRAM_loop_id)
next
  fix n
  assume "wakeup_init (cfg_at (r32 s ACS_GP_DATA))
         (write32 WATCHDOG_CTRL (WATCHDOG_REFRESH hw) s) = Some s2 \<and>
       app_addr (cfg_at (r32 s ACS_GP_DATA)) \<noteq> 0"
  then show "Sys_PowerModes_WakeupFromRAM hw cfg_at wakeup_init app_call n s =
             (case app_call (app_addr (cfg_at (r32 s ACS_GP_DATA))) s2 of
                None \<Rightarrow> \<lparr>wk_machine = s2,
                         wk_calls = [app_addr (cfg_at (r32 s ACS_GP_DATA))],
                         wk_returned = False\<rparr>
              | Some s3 \<Rightarrow> \<lparr>wk_machine = s3,
                            wk_calls = [app_addr (cfg_at (r32 s ACS_GP_DATA))],
                            wk_returned = True\<rparr>)"
    by (simp add: Sys_PowerModes_WakeupFromRAM_def Let_def)
qed

theorem Sys_PowerModes_WakeupFromRAM_branch_witness:
  "wakeup_init_returns sleep_cfg_no_app (write32 WATCHDOG_CTRL (WATCHDOG_REFRESH power_hw_sample) machine0) =
     Some (write32 WATCHDOG_CTRL (WATCHDOG_REFRESH power_hw_sample) machine0)
   \<and> app_addr sleep_cfg_no_app = 0
   \<and> wk_calls (Sys_PowerModes_WakeupFromRAM power_hw_sample (\<lambda>a. sleep_cfg_no_app)
        wakeup_init_returns app_returns 1000 machine0) = []
   \<and> \<not> wk_returned (Sys_PowerModes_WakeupFromRAM power_hw_sample (\<lambda>a. sleep_cfg_no_app)
        wakeup_init_returns app_returns 1000 machine0)
   \<and> wk_machine (Sys_PowerModes_WakeupFromRAM power_hw_sample (\<lambda>a. sleep_cfg_no_app)
        wakeup_init_returns app_returns 1000 machine0) =
      write32 WATCHDOG_CTRL (WATCHDOG_REFRESH power_hw_sample)
        (write32 WATCHDOG_CTRL (WATCHDOG_REFRESH power_hw_sample) machine0)
   \<and> app_addr sleep_cfg_app = 0x00100801
   \<and> Sys_PowerModes_WakeupFromRAM power_hw_sample (\<lambda>a. sleep_cfg_app)
        wakeup_init_returns app_returns 1000 machine0 =
      \<lparr>wk_machine = write32 WATCHDOG_CTRL (WATCHDOG_REFRESH power_hw_sample) machine0,
       wk_calls = [0x00100801], wk_returned = True\<rparr>"
proof -
  let ?s1 = "write32 WATCHDOG_CTRL (WATCHDOG_REFRESH power_hw_sample) machine0"
  have i: "wakeup_init_returns cfg ?s1 = Some ?s1" for cfg
    by (simp add: wakeup_init_returns_def)
  have a0: "app_addr sleep_cfg_no_app = 0" by (simp add: sleep_cfg_no_app_def)
  have a1: "app_addr sleep_cfg_app = 0x00100801" by (simp add: sleep_cfg_app_def)
  from Sys_PowerModes_WakeupFromRAM_branch[of "\<lambda>a. sleep_cfg_no_app" machine0 power_hw_sample
      wakeup_init_returns app_returns ?s1] i a0
  have r0: "wk_calls (Sys_PowerModes_WakeupFromRAM power_hw_sample (\<lambda>a. sleep_cfg_no_app)
        wakeup_init_returns app_returns 1000 machine0) = []"
    "\<not> wk_returned (Sys_PowerModes_WakeupFromRAM power_hw_sample (\<lambda>a. sleep_cfg_no_app)
        wakeup_init_returns app_returns 1000 machine0)"
    "wk_machine (Sys_PowerModes_WakeupFromRAM power_hw_sample (\<lambda>a. sleep_cfg_no_app)
        wakeup_init_returns app_returns 1000 machine0) =
      write32 WATCHDOG_CTRL (WATCHDOG_REFRESH power_hw_sample) ?s1"
    by simp_all
  from Sys_PowerModes_WakeupFromRAM_branch[of "\<lambda>a. sleep_cfg_app" machine0 power_hw_sample
      wakeup_init_returns app_returns ?s1] i a1
  have r1: "Sys_PowerModes_WakeupFromRAM power_hw_sample (\<lambda>a. sleep_cfg_app)
        wakeup_init_returns app_returns 1000 machine0 =
      \<lparr>wk_machine = ?s1, wk_calls = [0x00100801], wk_returned = True\<rparr>"
    by (simp add: app_returns_def)
  from i a0 a1 r0 r1 show ?thesis by simp
qed

end
